theory Spec2Isabelle
  imports Main
begin

unbundle bit_operations_syntax

section \<open>C strings and characters\<close>

text \<open>
  A C string is the list of its characters before the terminating NUL. Reading the
  character under a pointer gives NUL once the list is exhausted.
\<close>

definition NUL :: char where
  "NUL = CHR 0x00"

definition code :: "char \<Rightarrow> nat" where
  "code c = of_char c"

fun cur :: "string \<Rightarrow> char" where
  "cur [] = NUL"
| "cur (c # s) = c"

definition char_at :: "string \<Rightarrow> nat \<Rightarrow> char" where
  "char_at s i = (if i < length s then s ! i else NUL)"

definition isdigit :: "char \<Rightarrow> bool" where
  "isdigit c \<longleftrightarrow> code (CHR ''0'') \<le> code c \<and> code c \<le> code (CHR ''9'')"

definition isxdigit :: "char \<Rightarrow> bool" where
  "isxdigit c \<longleftrightarrow>
     (code (CHR ''0'') \<le> code c \<and> code c \<le> code (CHR ''9'')) \<or>
     (code (CHR ''A'') \<le> code c \<and> code c \<le> code (CHR ''F'')) \<or>
     (code (CHR ''a'') \<le> code c \<and> code c \<le> code (CHR ''f''))"

definition isspace :: "char \<Rightarrow> bool" where
  "isspace c \<longleftrightarrow> code c = 32 \<or> (9 \<le> code c \<and> code c \<le> 13)"

section \<open>twai\_utils\_parser.h: constants and return codes\<close>

datatype parse_ret =
  PARSE_OK | PARSE_ERROR | PARSE_INVALID_ARG | PARSE_OUT_OF_RANGE | PARSE_TOO_LONG

definition TWAI_MAX_DATA_LEN :: nat where "TWAI_MAX_DATA_LEN = 8"
definition TWAI_FD_MAX_DATA_LEN :: nat where "TWAI_FD_MAX_DATA_LEN = 64"
definition TWAI_STD_ID_CHAR_LEN :: nat where "TWAI_STD_ID_CHAR_LEN = 3"
definition TWAI_EXT_ID_CHAR_LEN :: nat where "TWAI_EXT_ID_CHAR_LEN = 8"
definition MAX_INPUT_LEN :: nat where "MAX_INPUT_LEN = 256"

text \<open>The dedicated parser's values (twai\_utils\_parser.h).\<close>

definition TWAI_RTR_DEFAULT_DLC :: nat where "TWAI_RTR_DEFAULT_DLC = 8"
definition TWAI_FD_FLAGS_MAX_VALUE :: nat where "TWAI_FD_FLAGS_MAX_VALUE = 15"
definition TWAI_FD_BRS_FLAG_MASK :: nat where "TWAI_FD_BRS_FLAG_MASK = 1"
definition TWAI_FD_ESI_FLAG_MASK :: nat where "TWAI_FD_ESI_FLAG_MASK = 2"

text \<open>
  Modelled from the spec: the identifier masks and the frame length limits come from
  the hardware abstraction header \<^verbatim>\<open>hal/twai_types.h\<close>, which is not among the
  sources. The spec gives the values: identifier at most 0x7FF (standard) or
  0x1FFFFFFF (extended), at most 8 payload bytes (classic) or 64 (flexible rate).
\<close>

definition TWAI_STD_ID_MASK :: nat where "TWAI_STD_ID_MASK = 0x7FF"
definition TWAI_EXT_ID_MASK :: nat where "TWAI_EXT_ID_MASK = 0x1FFFFFFF"
definition TWAI_FRAME_MAX_LEN :: nat where "TWAI_FRAME_MAX_LEN = 8"
definition TWAIFD_FRAME_MAX_LEN :: nat where "TWAIFD_FRAME_MAX_LEN = 64"

text \<open>
  Modelled from the spec: \<^verbatim>\<open>twaifd_dlc2len\<close> and \<^verbatim>\<open>twaifd_len2dlc\<close> are declared in
  \<^verbatim>\<open>hal/twai_types.h\<close>, not among the sources. The spec fixes the quantization table
  0..8 one to one, then 12, 16, 20, 24, 32, 48, 64; a length between two table entries
  takes the code of the next entry.
\<close>

definition twaifd_dlc2len :: "nat \<Rightarrow> nat" where
  "twaifd_dlc2len dlc =
     (if dlc \<le> 8 then dlc
      else if dlc \<le> 12 then (dlc - 8) * 4 + 8
      else if dlc \<le> 13 then 32
      else if dlc \<le> 14 then 48 else 64)"

definition twaifd_len2dlc :: "nat \<Rightarrow> nat" where
  "twaifd_len2dlc byte_len =
     (if byte_len \<le> 8 then byte_len
      else if byte_len \<le> 24 then (byte_len - 8 + 3) div 4 + 8
      else if byte_len \<le> 32 then 13
      else if byte_len \<le> 48 then 14 else 15)"

section \<open>Frames\<close>

text \<open>
  \<^verbatim>\<open>twai_frame_header_t\<close> and \<^verbatim>\<open>twai_frame_t\<close>, with the fields the console code
  reads and writes (\<open>id_hdr\<close> is the header's \<^verbatim>\<open>id\<close>). The identifier is a 32-bit unsigned value, the data-length code a
  16-bit one, a payload byte an 8-bit one; they are natural numbers here, and every
  conversion of the source that can drop bits is written with \<open>mod\<close>. \<open>buffer\<close> is the
  caller's byte array (its length is the capacity), \<open>buffer_len\<close> the payload length.
\<close>

record twai_frame_header =
  id_hdr :: nat
  dlc :: nat
  ide :: bool
  rtr :: bool
  fdf :: bool
  brs :: bool
  esi :: bool

record twai_frame =
  header :: twai_frame_header
  buffer :: "nat list"
  buffer_len :: nat

definition zero_header :: twai_frame_header where
  "zero_header = \<lparr>id_hdr = 0, dlc = 0, ide = False, rtr = False, fdf = False, brs = False, esi = False\<rparr>"

text \<open>
  The frame a command handler starts from: \<^verbatim>\<open>twai_frame_t frame = {0}\<close> over a zeroed
  data buffer of \<open>n\<close> bytes.
\<close>

definition zero_frame :: "nat \<Rightarrow> twai_frame" where
  "zero_frame n = \<lparr>header = zero_header, buffer = replicate n 0, buffer_len = 0\<rparr>"

section \<open>twai\_utils\_parser.c: the dedicated parser\<close>

definition parse_nibble :: "char \<Rightarrow> parse_ret + nat" where
  "parse_nibble c =
     (if code (CHR ''0'') \<le> code c \<and> code c \<le> code (CHR ''9'')
        then Inr ((code c - code (CHR ''0'')) mod 256)
      else if code (CHR ''A'') \<le> code c \<and> code c \<le> code (CHR ''F'')
        then Inr ((code c - code (CHR ''A'') + 10) mod 256)
      else if code (CHR ''a'') \<le> code c \<and> code c \<le> code (CHR ''f'')
        then Inr ((code c - code (CHR ''a'') + 10) mod 256)
      else Inl PARSE_ERROR)"

text \<open>
  \<^verbatim>\<open>parse_hex_segment(str, len, out)\<close>: the first \<open>len\<close> characters of \<open>str\<close>; the
  callers pass a length that stays inside the string.
\<close>

fun hex_segment_loop :: "string \<Rightarrow> nat \<Rightarrow> parse_ret + nat" where
  "hex_segment_loop [] result = Inr result"
| "hex_segment_loop (c # s) result =
     (case parse_nibble c of
        Inl e \<Rightarrow> Inl PARSE_ERROR
      | Inr nibble \<Rightarrow> hex_segment_loop s ((push_bit 4 result mod 2 ^ 32) OR nibble))"

definition parse_hex_segment :: "string \<Rightarrow> nat \<Rightarrow> parse_ret + nat" where
  "parse_hex_segment str len =
     (if len = 0 \<or> len > TWAI_EXT_ID_CHAR_LEN then Inl PARSE_INVALID_ARG
      else hex_segment_loop (take len str) 0)"

text \<open>
  \<^verbatim>\<open>parse_payload(s, buf, max)\<close> returns the byte count or a negative code, and fills
  \<open>buf\<close>. The caller's buffer holds at least \<open>max\<close> bytes (the parameter is documented
  as the buffer capacity), so every store \<open>buf[cnt++]\<close> is inside the array.
\<close>

fun parse_payload_loop :: "string \<Rightarrow> nat list \<Rightarrow> nat \<Rightarrow> nat \<Rightarrow> parse_ret + (nat \<times> nat list)" where
  "parse_payload_loop [] buf mx cnt = Inr (cnt, buf)"
| "parse_payload_loop (c # s) buf mx cnt =
     (if \<not> cnt < mx then Inr (cnt, buf)
      else if c = CHR ''.'' then parse_payload_loop s buf mx cnt
      else if \<not> isxdigit c then (if cnt = 0 then Inl PARSE_ERROR else Inr (cnt, buf))
      else if \<not> isxdigit (cur s) then Inl PARSE_ERROR
      else (case (parse_nibble c, parse_nibble (cur s)) of
              (Inr high, Inr low) \<Rightarrow>
                parse_payload_loop (tl s) (buf[cnt := (push_bit 4 high OR low) mod 256]) mx (cnt + 1)
            | _ \<Rightarrow> Inl PARSE_ERROR))"

definition parse_payload :: "string \<Rightarrow> nat list \<Rightarrow> int \<Rightarrow> parse_ret + (nat \<times> nat list)" where
  "parse_payload s buf mx =
     (if mx \<le> 0 then Inl PARSE_INVALID_ARG else parse_payload_loop s buf (nat mx) 0)"

text \<open>
  The C library's \<^verbatim>\<open>strtoul(nptr, &end, 16)\<close>, as the target's C library implements
  it: leading white space, an optional sign, an optional \<^verbatim>\<open>0x\<close> prefix, then hexadecimal
  digits as far as they go. The result is the value and the number of characters
  consumed (\<open>end - nptr\<close>), which is 0 when no digit was read. \<^verbatim>\<open>unsigned long\<close> has
  32 bits on the target: a value that does not fit is \<^verbatim>\<open>ULONG_MAX\<close>, a negated value
  wraps around.
\<close>

definition ULONG_MAX :: nat where
  "ULONG_MAX = 2 ^ 32 - 1"

fun strtoul_digits :: "string \<Rightarrow> nat \<Rightarrow> bool \<Rightarrow> nat \<Rightarrow> nat \<times> bool \<times> nat" where
  "strtoul_digits [] acc ovf n = (acc, ovf, n)"
| "strtoul_digits (c # s) acc ovf n =
     (case parse_nibble c of
        Inl e \<Rightarrow> (acc, ovf, n)
      | Inr d \<Rightarrow>
          if ovf \<or> acc * 16 + d > ULONG_MAX then strtoul_digits s acc True (n + 1)
          else strtoul_digits s (acc * 16 + d) False (n + 1))"

definition strtoul16 :: "string \<Rightarrow> nat \<times> nat" where
  "strtoul16 nptr =
     (let ws = takeWhile isspace nptr;
          s1 = dropWhile isspace nptr;
          neg = (cur s1 = CHR ''-'');
          sg = (if cur s1 = CHR ''-'' \<or> cur s1 = CHR ''+'' then 1 else 0);
          s2 = drop sg s1;
          px = (if cur s2 = CHR ''0'' \<and> (cur (tl s2) = CHR ''x'' \<or> cur (tl s2) = CHR ''X'')
                then 2 else 0);
          s3 = drop px s2
      in case strtoul_digits s3 0 False 0 of
           (acc, ovf, n) \<Rightarrow>
             if n = 0 then (0, 0)
             else ((if ovf then ULONG_MAX
                    else if neg then (2 ^ 32 - acc) mod 2 ^ 32 else acc),
                   length ws + sg + px + n))"

text \<open>
  \<^verbatim>\<open>parse_hex_id(str, len, out, is_ext)\<close>: \<open>str\<close> points into the frame text, so the
  conversion stops at the \<^verbatim>\<open>#\<close> that follows the identifier, or earlier.
\<close>

definition parse_hex_id :: "string \<Rightarrow> nat \<Rightarrow> parse_ret + (nat \<times> bool)" where
  "parse_hex_id str len =
     (if len = 0 \<or> len > TWAI_EXT_ID_CHAR_LEN then Inl PARSE_INVALID_ARG
      else case strtoul16 str of
        (val, endp) \<Rightarrow>
          if endp \<noteq> len then Inl PARSE_ERROR
          else let is_ext = (len > TWAI_STD_ID_CHAR_LEN) in
            if is_ext \<and> val > TWAI_EXT_ID_MASK then Inl PARSE_OUT_OF_RANGE
            else if \<not> is_ext \<and> val > TWAI_STD_ID_MASK then Inl PARSE_OUT_OF_RANGE
            else Inr (val mod 2 ^ 32, is_ext))"

definition parse_twai_id :: "string \<Rightarrow> nat \<Rightarrow> twai_frame \<Rightarrow> parse_ret + twai_frame" where
  "parse_twai_id str len f =
     (case parse_hex_id str len of
        Inl res \<Rightarrow> Inl res
      | Inr (ident, is_ext) \<Rightarrow> Inr (f\<lparr>header := (header f)\<lparr>id_hdr := ident, ide := is_ext\<rparr>\<rparr>))"

text \<open>
  The scan for the optional \<^verbatim>\<open>_dlc\<close> suffix of \<^verbatim>\<open>parse_classic_frame\<close>: it walks over
  the \<open>dl\<close> byte pairs already parsed and returns the rest of the body.
\<close>

fun dlc_suffix_scan :: "string \<Rightarrow> nat \<Rightarrow> nat \<Rightarrow> string" where
  "dlc_suffix_scan [] dl seen = []"
| "dlc_suffix_scan (c # p) dl seen =
     (if \<not> seen < dl then c # p
      else if c = CHR ''.'' then dlc_suffix_scan p dl seen
      else if \<not> isxdigit c \<or> \<not> isxdigit (cur p) then c # p
      else dlc_suffix_scan (tl p) dl (seen + 1))"

text \<open>
  \<^verbatim>\<open>parse_classic_frame(body, f)\<close>. An error return is \<open>Inl\<close> of the code; the frame
  is then not used by the caller, and the model drops what was written before the error.
\<close>

definition parse_classic_frame :: "string \<Rightarrow> twai_frame \<Rightarrow> parse_ret + twai_frame" where
  "parse_classic_frame body f =
     (if cur body = CHR ''R'' \<or> cur body = CHR ''r'' then
        (let body1 = tl body;
             d = (if isxdigit (cur body1) then fst (strtoul16 body1) mod 256
                  else TWAI_RTR_DEFAULT_DLC)
         in Inr (f\<lparr>header := (header f)\<lparr>rtr := True, dlc := d\<rparr>, buffer_len := 0\<rparr>))
      else
        (case parse_payload body (buffer f) (int TWAI_MAX_DATA_LEN) of
           Inl res \<Rightarrow> Inl res
         | Inr (dl, buf) \<Rightarrow>
             (let p = dlc_suffix_scan body dl 0;
                  d = (if cur p = CHR ''_'' then
                         (case parse_nibble (cur (tl p)) of
                            Inr c \<Rightarrow> if c > TWAI_MAX_DATA_LEN then TWAI_MAX_DATA_LEN else dl mod 256
                          | Inl e \<Rightarrow> dl mod 256)
                       else dl mod 256)
              in Inr (f\<lparr>header := (header f)\<lparr>dlc := d\<rparr>, buffer := buf, buffer_len := dl\<rparr>))))"

text \<open>\<^verbatim>\<open>parse_twaifd_frame(body, f)\<close>, compiled in flexible-rate builds.\<close>

definition parse_twaifd_frame :: "string \<Rightarrow> twai_frame \<Rightarrow> parse_ret + twai_frame" where
  "parse_twaifd_frame body f =
     (case parse_nibble (cur body) of
        Inl e \<Rightarrow> Inl PARSE_OUT_OF_RANGE
      | Inr flags \<Rightarrow>
          if flags > TWAI_FD_FLAGS_MAX_VALUE then Inl PARSE_OUT_OF_RANGE
          else
            (case parse_payload (tl body) (buffer f) (int TWAI_FD_MAX_DATA_LEN) of
               Inl res \<Rightarrow> Inl res
             | Inr (dl, buf) \<Rightarrow>
                 Inr (f\<lparr>header := (header f)
                          \<lparr>fdf := True,
                           brs := (flags AND TWAI_FD_BRS_FLAG_MASK \<noteq> 0),
                           esi := (flags AND TWAI_FD_ESI_FLAG_MASK \<noteq> 0),
                           dlc := twaifd_len2dlc (dl mod 2 ^ 16) mod 256\<rparr>,
                        buffer := buf, buffer_len := dl\<rparr>)))"

section \<open>The send command: the inline parser\<close>

text \<open>The send command's own values for the same grammar.\<close>

definition TWAI_STD_DELIMITER_POS :: nat where "TWAI_STD_DELIMITER_POS = 3"
definition TWAI_EXT_DELIMITER_POS :: nat where "TWAI_EXT_DELIMITER_POS = 8"
definition TWAI_STD_DATA_START_POS :: nat where "TWAI_STD_DATA_START_POS = 4"
definition TWAI_EXT_DATA_START_POS :: nat where "TWAI_EXT_DATA_START_POS = 9"
definition TWAI_MIN_FRAME_LEN :: nat where "TWAI_MIN_FRAME_LEN = 5"
definition SEND_RTR_DEFAULT_DLC :: nat where "SEND_RTR_DEFAULT_DLC = 0"
definition HEX_NIBBLE_MASK :: nat where "HEX_NIBBLE_MASK = 0x0F"
definition HEX_NIBBLE_SHIFT :: nat where "HEX_NIBBLE_SHIFT = 4"
definition SEND_FD_FLAGS_MAX_VALUE :: nat where "SEND_FD_FLAGS_MAX_VALUE = 3"
definition SEND_FD_BRS_FLAG_MASK :: nat where "SEND_FD_BRS_FLAG_MASK = 1"
definition SEND_FD_ESI_FLAG_MASK :: nat where "SEND_FD_ESI_FLAG_MASK = 2"

text \<open>
  \<^verbatim>\<open>MAX_FRAME_DATA_LEN\<close> of the internal header: the flexible-rate limit in a
  flexible-rate build (\<open>fd\<close> stands for \<^verbatim>\<open>CONFIG_EXAMPLE_ENABLE_TWAI_FD\<close>), the classic
  limit otherwise.
\<close>

definition MAX_FRAME_DATA_LEN :: "bool \<Rightarrow> nat" where
  "MAX_FRAME_DATA_LEN fd = (if fd then TWAIFD_FRAME_MAX_LEN else TWAI_FRAME_MAX_LEN)"

definition asc2nibble :: "char \<Rightarrow> nat" where
  "asc2nibble c =
     (if code (CHR ''0'') \<le> code c \<and> code c \<le> code (CHR ''9'')
        then (code c - code (CHR ''0'')) mod 256
      else if code (CHR ''A'') \<le> code c \<and> code c \<le> code (CHR ''F'')
        then (code c - code (CHR ''A'') + 10) mod 256
      else if code (CHR ''a'') \<le> code c \<and> code c \<le> code (CHR ''f'')
        then (code c - code (CHR ''a'') + 10) mod 256
      else 0xFF)"

text \<open>
  \<^verbatim>\<open>parse_frame\<close> returns \<^verbatim>\<open>false\<close> after logging what was wrong; the model returns
  \<open>Inl\<close> of the logged error.
\<close>

datatype send_parse_error =
  InvalidFrameFormat | InvalidIdCharacter | ExtendedIdOutOfRange | StandardIdOutOfRange
| FdFlagsMissingOrInvalid | FdFlagsValueInvalid | FdNotSupported
| InvalidHexCharacter | DataTooLong

text \<open>
  The identifier loops \<^verbatim>\<open>for (i = 0; i < n; i++) id |= tmp << (n - 1 - i) * 4\<close>, for
  \<open>n\<close> = 3 and 8.
\<close>

function id_loop :: "string \<Rightarrow> nat \<Rightarrow> nat \<Rightarrow> nat \<Rightarrow> send_parse_error + nat" where
  "id_loop frame_str n i ident =
     (if i < n then
        (let tmp = asc2nibble (char_at frame_str i) in
         if tmp > HEX_NIBBLE_MASK then Inl InvalidIdCharacter
         else id_loop frame_str n (i + 1)
                ((ident OR push_bit ((n - 1 - i) * HEX_NIBBLE_SHIFT) tmp) mod 2 ^ 32))
      else Inr ident)"
  by pat_completeness auto
termination
  by (relation "measure (\<lambda>(frame_str, n, i, ident). n - i)") auto

declare id_loop.simps [simp del]

text \<open>The payload loop: index, byte count and buffer are the loop's variables.\<close>

function data_loop ::
  "string \<Rightarrow> nat \<Rightarrow> nat \<Rightarrow> nat \<Rightarrow> nat list \<Rightarrow> send_parse_error + (nat \<times> nat \<times> nat list)" where
  "data_loop frame_str max_data_len idx dlen buf =
     (if idx < length frame_str \<and> dlen < max_data_len then
        (if char_at frame_str idx = CHR ''.'' then data_loop frame_str max_data_len (idx + 1) dlen buf
         else if idx + 1 \<ge> length frame_str then Inr (idx, dlen, buf)
         else if asc2nibble (char_at frame_str idx) > 0x0F then Inl InvalidHexCharacter
         else if asc2nibble (char_at frame_str (idx + 1)) > 0x0F then Inl InvalidHexCharacter
         else data_loop frame_str max_data_len (idx + 2) (dlen + 1)
                (buf[dlen := (push_bit 4 (asc2nibble (char_at frame_str idx)) mod 256)
                               OR asc2nibble (char_at frame_str (idx + 1))]))
      else Inr (idx, dlen, buf))"
  by pat_completeness auto
termination
  by (relation "measure (\<lambda>(frame_str, max_data_len, idx, dlen, buf). length frame_str - idx)") auto

declare data_loop.simps [simp del]

definition remaining_chars :: "string \<Rightarrow> nat \<Rightarrow> nat" where
  "remaining_chars frame_str idx =
     length (filter (\<lambda>c. c \<noteq> CHR ''.'' \<and> c \<noteq> CHR ''_'' \<and> isxdigit c) (drop idx frame_str))"

text \<open>
  The identifier part of \<^verbatim>\<open>parse_frame\<close>: the position where the body starts, the
  identifier and the extended flag. The text has at least 5 characters here; for a text
  shorter than 9 the source's read of position 8 is past the terminator, and the model
  reads NUL there.
\<close>

definition parse_frame_id :: "string \<Rightarrow> send_parse_error + (nat \<times> nat \<times> bool)" where
  "parse_frame_id frame_str =
     (if char_at frame_str TWAI_STD_DELIMITER_POS = CHR ''#'' then
        (case id_loop frame_str TWAI_STD_ID_CHAR_LEN 0 0 of
           Inl e \<Rightarrow> Inl e
         | Inr ident \<Rightarrow> Inr (TWAI_STD_DATA_START_POS, ident, False))
      else if char_at frame_str TWAI_EXT_DELIMITER_POS = CHR ''#'' then
        (case id_loop frame_str TWAI_EXT_ID_CHAR_LEN 0 0 of
           Inl e \<Rightarrow> Inl e
         | Inr ident \<Rightarrow>
             if ident > TWAI_EXT_ID_MASK then Inl ExtendedIdOutOfRange
             else Inr (TWAI_EXT_DATA_START_POS, ident, True))
      else Inl InvalidFrameFormat)"

text \<open>
  The flexible-rate part: position after the flags, the header and \<^verbatim>\<open>is_fd_frame\<close>.
  The comparison of \<open>tmp\<close> with \<^verbatim>\<open>TWAI_FD_FLAGS_MAX_VALUE\<close> uses the send command's own
  value, 3.
\<close>

definition parse_frame_fd ::
  "bool \<Rightarrow> string \<Rightarrow> nat \<Rightarrow> twai_frame_header \<Rightarrow> send_parse_error + (nat \<times> twai_frame_header \<times> bool)" where
  "parse_frame_fd fd frame_str idx hdr =
     (if char_at frame_str idx = CHR ''#'' then
        (if fd then
           (let idx1 = idx + 1; tmp = asc2nibble (char_at frame_str idx1) in
            if char_at frame_str idx1 = NUL \<or> tmp > HEX_NIBBLE_MASK then Inl FdFlagsMissingOrInvalid
            else if tmp > SEND_FD_FLAGS_MAX_VALUE then Inl FdFlagsValueInvalid
            else Inr (idx1 + 1,
                      hdr\<lparr>fdf := True,
                          brs := (tmp AND SEND_FD_BRS_FLAG_MASK \<noteq> 0),
                          esi := (tmp AND SEND_FD_ESI_FLAG_MASK \<noteq> 0)\<rparr>,
                      True))
         else Inl FdNotSupported)
      else Inr (idx, hdr, False))"

text \<open>The data-length code after the payload, with the \<^verbatim>\<open>_DLC\<close> override.\<close>

definition parse_frame_dlc :: "string \<Rightarrow> nat \<Rightarrow> nat \<Rightarrow> nat \<Rightarrow> nat" where
  "parse_frame_dlc frame_str max_data_len idx dlen =
     (if max_data_len = TWAI_FRAME_MAX_LEN \<and> dlen = TWAI_FRAME_MAX_LEN
         \<and> idx < length frame_str \<and> char_at frame_str idx = CHR ''_'' then
        (let idx1 = idx + 1; tmp = asc2nibble (char_at frame_str idx1) in
         if idx1 < length frame_str \<and> tmp \<le> TWAIFD_FRAME_MAX_LEN then
           (if tmp > TWAI_FRAME_MAX_LEN \<and> tmp \<le> TWAIFD_FRAME_MAX_LEN then TWAI_FRAME_MAX_LEN
            else dlen)
         else dlen)
      else dlen)"

definition parse_frame :: "bool \<Rightarrow> string \<Rightarrow> twai_frame \<Rightarrow> send_parse_error + twai_frame" where
  "parse_frame fd frame_str frame =
     (if length frame_str < TWAI_MIN_FRAME_LEN then Inl InvalidFrameFormat
      else case parse_frame_id frame_str of
        Inl e \<Rightarrow> Inl e
      | Inr (idx, ident, is_ext) \<Rightarrow>
          if \<not> is_ext \<and> ident > TWAI_STD_ID_MASK then Inl StandardIdOutOfRange
          else
            (let hdr = zero_header\<lparr>id_hdr := ident, ide := is_ext\<rparr> in
             if char_at frame_str idx = CHR ''R'' \<or> char_at frame_str idx = CHR ''r'' then
               (let idx1 = idx + 1; tmp = asc2nibble (char_at frame_str idx1);
                    d = (if char_at frame_str idx1 \<noteq> NUL \<and> tmp \<le> TWAI_FRAME_MAX_LEN then tmp
                         else SEND_RTR_DEFAULT_DLC)
                in Inr (frame\<lparr>header := hdr\<lparr>rtr := True, dlc := d\<rparr>, buffer_len := 0\<rparr>))
             else
               (case parse_frame_fd fd frame_str idx hdr of
                  Inl e \<Rightarrow> Inl e
                | Inr (idx2, hdr2, is_fd_frame) \<Rightarrow>
                    (let max_data_len =
                           (if \<not> is_fd_frame then TWAI_FRAME_MAX_LEN else MAX_FRAME_DATA_LEN fd) in
                     case data_loop frame_str max_data_len idx2 0 (buffer frame) of
                       Inl e \<Rightarrow> Inl e
                     | Inr (idx3, dlen, buf) \<Rightarrow>
                         if idx3 < length frame_str \<and> char_at frame_str idx3 \<noteq> CHR ''_''
                            \<and> remaining_chars frame_str idx3 > 0 then Inl DataTooLong
                         else Inr (frame\<lparr>header := hdr2\<lparr>dlc := parse_frame_dlc frame_str max_data_len idx3 dlen\<rparr>,
                                         buffer := buf, buffer_len := dlen\<rparr>)))))"

section \<open>The dump command: formatting\<close>

text \<open>
  The C library's number conversions of \<^verbatim>\<open>snprintf\<close>: \<^verbatim>\<open>%X\<close> (upper-case
  hexadecimal), \<^verbatim>\<open>%d\<close> and \<^verbatim>\<open>%lld\<close> (decimal), and zero padding to a field width.
\<close>

definition hex_char :: "nat \<Rightarrow> char" where
  "hex_char d = ''0123456789ABCDEF'' ! d"

fun hex_of_nat :: "nat \<Rightarrow> string" where
  "hex_of_nat n = (if n < 16 then [hex_char n] else hex_of_nat (n div 16) @ [hex_char (n mod 16)])"

fun dec_of_nat :: "nat \<Rightarrow> string" where
  "dec_of_nat n = (if n < 10 then [hex_char n] else dec_of_nat (n div 10) @ [hex_char (n mod 10)])"

declare hex_of_nat.simps [simp del]

declare dec_of_nat.simps [simp del]

text \<open>Reading a field of decimal digits back as a number.\<close>

definition dec_value :: "string \<Rightarrow> nat" where
  "dec_value s = foldl (\<lambda>acc c. acc * 10 + (code c - code (CHR ''0''))) 0 s"

text \<open>The number a run of hexadecimal digits denotes.\<close>

definition hex_value :: "string \<Rightarrow> nat" where
  "hex_value s = foldl (\<lambda>acc c. acc * 16 + asc2nibble c) 0 s"

definition zero_pad :: "nat \<Rightarrow> string \<Rightarrow> string" where
  "zero_pad w s = replicate (w - length s) (CHR ''0'') @ s"

definition dec_of_int :: "int \<Rightarrow> string" where
  "dec_of_int v = (if v < 0 then CHR ''-'' # dec_of_nat (nat (- v)) else dec_of_nat (nat v))"

definition dec_of_int_pad :: "nat \<Rightarrow> int \<Rightarrow> string" where
  "dec_of_int_pad w v =
     (if v < 0 then CHR ''-'' # zero_pad (w - 1) (dec_of_nat (nat (- v)))
      else zero_pad w (dec_of_nat (nat v)))"

text \<open>C's integer division truncates towards zero; the remainder has the dividend's sign.\<close>

definition c_div :: "int \<Rightarrow> int \<Rightarrow> int" where
  "c_div a b = sgn a * sgn b * (\<bar>a\<bar> div \<bar>b\<bar>)"

definition c_mod :: "int \<Rightarrow> int \<Rightarrow> int" where
  "c_mod a b = a - c_div a b * b"

text \<open>
  \<^verbatim>\<open>snprintf(buf + pos, max_len - pos, ...)\<close> on the pair of the text written so far and
  \<open>pos\<close>: it writes at most \<open>max_len - pos - 1\<close> characters and returns the length of
  the whole formatted text, which the callers add to \<open>pos\<close>.
\<close>

definition snprintf_at :: "string \<times> nat \<Rightarrow> nat \<Rightarrow> string \<Rightarrow> string \<times> nat" where
  "snprintf_at st max_len s = (case st of (out, pos) \<Rightarrow> (out @ take (max_len - pos - 1) s, pos + length s))"

text \<open>
  The dump context of a controller, with the fields the dump command uses. The
  timestamp mode is one of the four values the command handler stores. Queue and task
  handles are pointers; \<open>None\<close> is \<^verbatim>\<open>NULL\<close>. Times are 64-bit signed microsecond counts
  of the monotonic timer, far from the ends of their range; they are integers here.
\<close>

datatype timestamp_mode =
  TIMESTAMP_MODE_NONE | TIMESTAMP_MODE_ABSOLUTE | TIMESTAMP_MODE_DELTA | TIMESTAMP_MODE_ZERO

record twai_dump_ctx =
  is_running :: bool
  rx_queue :: "nat option"
  dump_task_handle :: "nat option"
  timestamp_mode :: timestamp_mode
  start_time_us :: int
  last_frame_time_us :: int

record rx_queue_item =
  item_header :: twai_frame_header
  data :: "nat list"
  data_len :: nat
  timestamp_us :: int

text \<open>The \<^verbatim>\<open>snprintf\<close> at the end of \<^verbatim>\<open>format_timestamp\<close>, into a buffer of \<open>max_len\<close>.\<close>

definition timestamp_text :: "int \<Rightarrow> nat \<Rightarrow> string" where
  "timestamp_text ts max_len =
     take (max_len - 1)
       (''('' @ dec_of_int (c_div ts 1000000) @ ''.'' @ dec_of_int_pad 6 (c_mod ts 1000000) @ '') '')"

definition format_timestamp :: "twai_dump_ctx \<Rightarrow> int \<Rightarrow> nat \<Rightarrow> twai_dump_ctx \<times> string" where
  "format_timestamp dump_ctx frame_timestamp max_len =
     (case timestamp_mode dump_ctx of
        TIMESTAMP_MODE_NONE \<Rightarrow> (dump_ctx, [])
      | TIMESTAMP_MODE_ABSOLUTE \<Rightarrow> (dump_ctx, timestamp_text frame_timestamp max_len)
      | TIMESTAMP_MODE_DELTA \<Rightarrow>
          (dump_ctx\<lparr>last_frame_time_us := frame_timestamp\<rparr>,
           timestamp_text (frame_timestamp - last_frame_time_us dump_ctx) max_len)
      | TIMESTAMP_MODE_ZERO \<Rightarrow>
          (dump_ctx, timestamp_text (frame_timestamp - start_time_us dump_ctx) max_len))"

definition DUMP_OUTPUT_LINE_SIZE :: nat where "DUMP_OUTPUT_LINE_SIZE = 512"

text \<open>The identifier field: 8 digits for an extended frame, 3 for a standard one.\<close>

definition dump_id_text :: "twai_frame_header \<Rightarrow> string" where
  "dump_id_text h =
     (if ide h then zero_pad 8 (hex_of_nat (id_hdr h)) else zero_pad 3 (hex_of_nat (id_hdr h)))"

definition dump_byte_text :: "nat \<Rightarrow> string" where
  "dump_byte_text b = zero_pad 2 (hex_of_nat b)"

text \<open>
  The number of bytes a data frame's line shows. \<open>fd\<close> stands for
  \<^verbatim>\<open>CONFIG_EXAMPLE_ENABLE_TWAI_FD\<close>.
\<close>

definition dump_actual_len :: "bool \<Rightarrow> twai_frame_header \<Rightarrow> nat" where
  "dump_actual_len fd h = (if fd \<and> fdf h then twaifd_dlc2len (dlc h) else dlc h)"

text \<open>
  The loop over the data bytes. \<open>data ! i\<close> is inside the item's array as long as
  the number of bytes shown does not exceed the array's size.
\<close>

function dump_bytes_loop :: "nat list \<Rightarrow> nat \<Rightarrow> nat \<Rightarrow> nat \<Rightarrow> string \<times> nat \<Rightarrow> string \<times> nat" where
  "dump_bytes_loop dat actual_len max_len i st =
     (if i < actual_len \<and> snd st < max_len - 4 then
        dump_bytes_loop dat actual_len max_len (i + 1)
          (snprintf_at st max_len (''  '' @ dump_byte_text (dat ! i)))
      else st)"
  by pat_completeness auto
termination
  by (relation "measure (\<lambda>(dat, actual_len, max_len, i, st). actual_len - i)") auto

declare dump_bytes_loop.simps [simp del]

definition format_twaidump_frame ::
  "bool \<Rightarrow> twai_dump_ctx \<Rightarrow> rx_queue_item \<Rightarrow> int \<Rightarrow> nat \<Rightarrow> twai_dump_ctx \<times> string" where
  "format_twaidump_frame fd dump_ctx item controller_id max_len =
     (let (ctx1, timestamp_str) = format_timestamp dump_ctx (timestamp_us item) 64;
          st0 = ([], 0);
          st1 = (if length timestamp_str > 0 then snprintf_at st0 max_len timestamp_str else st0);
          st2 = snprintf_at st1 max_len (''twai'' @ dec_of_int controller_id @ ''  '');
          st3 = snprintf_at st2 max_len (dump_id_text (item_header item) @ ''  '');
          st4 = (if rtr (item_header item) then
                   snprintf_at st3 max_len (''[R'' @ dec_of_nat (dlc (item_header item)) @ '']'')
                 else
                   (let actual_len = dump_actual_len fd (item_header item) in
                    dump_bytes_loop (data item) actual_len max_len 0
                      (snprintf_at st3 max_len (''['' @ dec_of_nat actual_len @ '']''))));
          st5 = (if snd st4 < max_len - 1 then snprintf_at st4 max_len [CHR 0x0A] else st4)
      in (ctx1, fst st5))"

text \<open>
  The fields of a dump line that carry the frame, put together as the frame text the
  decoder reads: the identifier digits, the \<^verbatim>\<open>#\<close>, and either the remote marker
  \<^verbatim>\<open>R\<close> with the data-length code or the bytes shown, without the blanks between them.
\<close>

definition dump_body_text :: "bool \<Rightarrow> rx_queue_item \<Rightarrow> string" where
  "dump_body_text fd item =
     (if rtr (item_header item) then ''R'' @ dec_of_nat (dlc (item_header item))
      else concat (map dump_byte_text (take (dump_actual_len fd (item_header item)) (data item))))"

definition dump_frame_text :: "bool \<Rightarrow> rx_queue_item \<Rightarrow> string" where
  "dump_frame_text fd item = dump_id_text (item_header item) @ ''#'' @ dump_body_text fd item"

section \<open>The dump command: starting the capture pipeline\<close>

datatype esp_err_t =
  ESP_OK | ESP_FAIL | ESP_ERR_NO_MEM | ESP_ERR_INVALID_ARG | ESP_ERR_INVALID_STATE | ESP_ERR_TIMEOUT

text \<open>The calls and flag stores of \<^verbatim>\<open>twai_dump_start_controller\<close>, in program order.\<close>

datatype start_step =
  XQueueCreate | StoreRunning bool | XTaskCreate | VQueueDelete

text \<open>
  \<open>queue\<close> is what \<^verbatim>\<open>xQueueCreate\<close> returns and \<open>task\<close> the handle \<^verbatim>\<open>xTaskCreate\<close>
  stores, \<open>None\<close> when the allocation fails. The result is the return code, the context
  and the steps taken.
\<close>

definition twai_dump_start_controller ::
  "twai_dump_ctx \<Rightarrow> nat option \<Rightarrow> nat option \<Rightarrow> esp_err_t \<times> twai_dump_ctx \<times> start_step list" where
  "twai_dump_start_controller dump_ctx queue task =
     (if is_running dump_ctx then (ESP_OK, dump_ctx, [])
      else
        (let ctx1 = dump_ctx\<lparr>rx_queue := queue\<rparr> in
         case queue of
           None \<Rightarrow> (ESP_ERR_NO_MEM, ctx1, [XQueueCreate])
         | Some q \<Rightarrow>
             (let ctx2 = ctx1\<lparr>is_running := True\<rparr> in
              case task of
                Some h \<Rightarrow>
                  (ESP_OK, ctx2\<lparr>dump_task_handle := Some h\<rparr>,
                   [XQueueCreate, StoreRunning True, XTaskCreate])
              | None \<Rightarrow>
                  (ESP_ERR_NO_MEM, ctx2\<lparr>is_running := False, rx_queue := None\<rparr>,
                   [XQueueCreate, StoreRunning True, XTaskCreate, StoreRunning False, VQueueDelete]))))"

section \<open>twai\_utils\_parser.c: the filter parser\<close>

text \<open>
  The filter descriptors (\<open>id_flt\<close>, \<open>mask_flt\<close> and \<open>is_ext_flt\<close> are the mask filter's
  \<^verbatim>\<open>id\<close>, \<^verbatim>\<open>mask\<close> and \<^verbatim>\<open>is_ext\<close>, \<open>is_ext_range\<close> the range filter's \<^verbatim>\<open>is_ext\<close>), and the hardware
  capacities of the chip: \<^verbatim>\<open>SOC_TWAI_MASK_FILTER_NUM\<close>, \<^verbatim>\<open>SOC_TWAI_RANGE_FILTER_NUM\<close>
  and \<^verbatim>\<open>SOC_TWAI_SUPPORT_FD\<close> come from the chip's capability header and are
  parameters here.
\<close>

record twai_mask_filter_config =
  id_flt :: nat
  mask_flt :: nat
  is_ext_flt :: bool

record twai_range_filter_config =
  range_low :: nat
  range_high :: nat
  is_ext_range :: bool

record soc_caps =
  SOC_TWAI_MASK_FILTER_NUM :: nat
  SOC_TWAI_RANGE_FILTER_NUM :: nat
  SOC_TWAI_SUPPORT_FD :: bool

text \<open>
  The caller's output parameters: the two arrays (a list as long as the array) and the
  two counters.
\<close>

record filter_out =
  masks :: "twai_mask_filter_config list"
  mask_count :: int
  ranges :: "twai_range_filter_config list"
  range_count :: int

text \<open>
  The output parameters are well formed for a chip when each counter is between 0 and
  the chip's capacity and each array holds at least that many entries. The dump command
  passes zeroed counters and arrays of exactly the capacity.
\<close>

definition filter_out_ok :: "soc_caps \<Rightarrow> filter_out \<Rightarrow> bool" where
  "filter_out_ok soc out \<longleftrightarrow>
     0 \<le> mask_count out \<and> mask_count out \<le> int (SOC_TWAI_MASK_FILTER_NUM soc)
     \<and> SOC_TWAI_MASK_FILTER_NUM soc \<le> length (masks out)
     \<and> 0 \<le> range_count out \<and> range_count out \<le> int (SOC_TWAI_RANGE_FILTER_NUM soc)
     \<and> SOC_TWAI_RANGE_FILTER_NUM soc \<le> length (ranges out)"

text \<open>
  An array after a call against the array before it: the same length, and every entry
  at or after position \<open>cnt\<close> as the caller passed it.
\<close>

definition untouched_from :: "'a list \<Rightarrow> 'a list \<Rightarrow> int \<Rightarrow> bool" where
  "untouched_from arr arr1 cnt \<longleftrightarrow>
     length arr1 = length arr \<and> drop (nat cnt) arr1 = drop (nat cnt) arr"

text \<open>
  A store \<^verbatim>\<open>arr[i] = v\<close>. A store outside the array is undefined behaviour in C; the
  model makes it visible as \<open>None\<close>.
\<close>

definition store_at :: "'a list \<Rightarrow> int \<Rightarrow> 'a \<Rightarrow> 'a list option" where
  "store_at arr i v = (if 0 \<le> i \<and> nat i < length arr then Some (arr[nat i := v]) else None)"

text \<open>
  \<^verbatim>\<open>memchr(s, c, n)\<close> and \<^verbatim>\<open>strchr(s, c)\<close>: the position of the first \<open>c\<close>, or
  \<open>None\<close> for \<^verbatim>\<open>NULL\<close>.
\<close>

fun strchr :: "string \<Rightarrow> char \<Rightarrow> nat option" where
  "strchr [] c = None"
| "strchr (x # s) c = (if x = c then Some 0 else map_option Suc (strchr s c))"

definition memchr :: "string \<Rightarrow> char \<Rightarrow> nat \<Rightarrow> nat option" where
  "memchr s c n = strchr (take n s) c"

text \<open>
  \<^verbatim>\<open>parse_filter_token(tok, tok_len, mask_cfgs, mask_idx, range_cfgs, range_idx)\<close>:
  the return code and the output parameters after the call.
\<close>

definition parse_filter_token ::
  "soc_caps \<Rightarrow> string \<Rightarrow> nat \<Rightarrow> filter_out \<Rightarrow> (parse_ret \<times> filter_out) option" where
  "parse_filter_token soc tok tok_len out =
     (case memchr tok (CHR '':'') tok_len of
        Some sep_pos \<Rightarrow>
          (let mask_len = tok_len - sep_pos - 1 in
           case (parse_hex_segment tok sep_pos, parse_hex_segment (drop (sep_pos + 1) tok) mask_len) of
             (Inr a, Inr b) \<Rightarrow>
               if mask_count out \<ge> int (SOC_TWAI_MASK_FILTER_NUM soc) then Some (PARSE_OUT_OF_RANGE, out)
               else
                 (case store_at (masks out) (mask_count out) \<lparr>id_flt = a, mask_flt = b, is_ext_flt = False\<rparr> of
                    None \<Rightarrow> None
                  | Some m \<Rightarrow> Some (PARSE_OK, out\<lparr>masks := m, mask_count := mask_count out + 1\<rparr>))
           | _ \<Rightarrow> Some (PARSE_ERROR, out))
      | None \<Rightarrow>
          if SOC_TWAI_SUPPORT_FD soc then
            (case memchr tok (CHR ''-'') tok_len of
               Some sep_pos \<Rightarrow>
                 (let high_len = tok_len - sep_pos - 1 in
                  case (parse_hex_segment tok sep_pos, parse_hex_segment (drop (sep_pos + 1) tok) high_len) of
                    (Inr a, Inr b) \<Rightarrow>
                      if a > b then Some (PARSE_ERROR, out)
                      else if range_count out \<ge> int (SOC_TWAI_RANGE_FILTER_NUM soc)
                        then Some (PARSE_OUT_OF_RANGE, out)
                      else
                        (case store_at (ranges out) (range_count out)
                                \<lparr>range_low = a, range_high = b, is_ext_range = False\<rparr> of
                           None \<Rightarrow> None
                         | Some r \<Rightarrow> Some (PARSE_OK, out\<lparr>ranges := r, range_count := range_count out + 1\<rparr>))
                  | _ \<Rightarrow> Some (PARSE_ERROR, out))
             | None \<Rightarrow> Some (PARSE_ERROR, out))
          else Some (PARSE_ERROR, out))"

text \<open>The token loop of \<^verbatim>\<open>parse_filters\<close>; \<open>start\<close> is the text not yet consumed.\<close>

function filters_loop :: "soc_caps \<Rightarrow> string \<Rightarrow> filter_out \<Rightarrow> (parse_ret \<times> filter_out) option" where
  "filters_loop soc start out =
     (if start = [] then Some (PARSE_OK, out)
      else
        (let comma = strchr start (CHR '','');
             token_len = (case comma of Some k \<Rightarrow> k | None \<Rightarrow> length start)
         in if token_len = 0 then
              (case comma of
                 Some k \<Rightarrow> filters_loop soc (drop (k + 1) start) out
               | None \<Rightarrow> Some (PARSE_OK, out))
            else
              (case parse_filter_token soc start token_len out of
                 None \<Rightarrow> None
               | Some (ret, out1) \<Rightarrow>
                   if ret \<noteq> PARSE_OK then Some (ret, out1)
                   else
                     (case comma of
                        Some k \<Rightarrow> filters_loop soc (drop (k + 1) start) out1
                      | None \<Rightarrow> Some (PARSE_OK, out1)))))"
  by pat_completeness auto
termination
  by (relation "measure (\<lambda>(soc, start, out). length start)") auto

declare filters_loop.simps [simp del]

text \<open>
  \<^verbatim>\<open>parse_filters(filter_str, masks, mask_count, ranges, range_count)\<close>. The range
  counter is a parameter only in a build with range filters.
\<close>

definition parse_filters :: "soc_caps \<Rightarrow> string \<Rightarrow> filter_out \<Rightarrow> (parse_ret \<times> filter_out) option" where
  "parse_filters soc filter_str out =
     (if length filter_str \<ge> MAX_INPUT_LEN then Some (PARSE_ERROR, out)
      else
        (let out0 = out\<lparr>mask_count := 0\<rparr>;
             out1 = (if SOC_TWAI_SUPPORT_FD soc then out0\<lparr>range_count := 0\<rparr> else out0)
         in if length filter_str = 0 then Some (PARSE_OK, out1)
            else filters_loop soc filter_str out1))"

text \<open>
  The pieces of a filter text between its commas, and its tokens: the pieces that are
  not empty. These are the texts the loop of \<^verbatim>\<open>parse_filters\<close> hands to
  \<^verbatim>\<open>parse_filter_token\<close>, in order.
\<close>

fun comma_pieces :: "string \<Rightarrow> string list" where
  "comma_pieces [] = [[]]"
| "comma_pieces (c # s) =
     (if c = CHR '','' then [] # comma_pieces s
      else (case comma_pieces s of [] \<Rightarrow> [[c]] | t # ts \<Rightarrow> (c # t) # ts))"

definition filter_tokens :: "string \<Rightarrow> string list" where
  "filter_tokens s = filter (\<lambda>t. t \<noteq> []) (comma_pieces s)"

section \<open>The dump command: the command handler\<close>

text \<open>
  The effect of each step of \<^verbatim>\<open>twai_dump_start_controller\<close> on the dump context:
  \<^verbatim>\<open>xQueueCreate\<close> stores what it returns in \<^verbatim>\<open>rx_queue\<close>, the atomic store writes the
  running flag, \<^verbatim>\<open>xTaskCreate\<close> writes the task handle when it succeeds, and the cleanup
  deletes the queue and clears its pointer. Replaying the steps a call has taken gives
  the contexts the receive callback and the consumer task can observe on the way.
\<close>

fun start_effect :: "nat option \<Rightarrow> nat option \<Rightarrow> twai_dump_ctx \<Rightarrow> start_step \<Rightarrow> twai_dump_ctx" where
  "start_effect queue task ctx XQueueCreate = ctx\<lparr>rx_queue := queue\<rparr>"
| "start_effect queue task ctx (StoreRunning b) = ctx\<lparr>is_running := b\<rparr>"
| "start_effect queue task ctx XTaskCreate =
     (case task of Some h \<Rightarrow> ctx\<lparr>dump_task_handle := Some h\<rparr> | None \<Rightarrow> ctx)"
| "start_effect queue task ctx VQueueDelete = ctx\<lparr>rx_queue := None\<rparr>"

definition start_replay :: "nat option \<Rightarrow> nat option \<Rightarrow> twai_dump_ctx \<Rightarrow> start_step list \<Rightarrow> twai_dump_ctx" where
  "start_replay queue task ctx steps = foldl (start_effect queue task) ctx steps"

text \<open>
  The controller context as the dump command uses it: the driver's initialized flag
  (\<^verbatim>\<open>core_ctx.is_initialized\<close>), the dump context, and the two filter arrays
  \<^verbatim>\<open>dump_ctx.mask_filter_configs\<close> and \<^verbatim>\<open>dump_ctx.range_filter_configs\<close>, which are kept
  beside the other fields of the dump context here. \<^verbatim>\<open>s_twai_controller_ctx\<close> is a
  list of these, \<^verbatim>\<open>SOC_TWAI_CONTROLLER_NUM\<close> long.
\<close>

record dump_controller =
  core_is_initialized :: bool
  dump_ctx :: twai_dump_ctx
  mask_filter_configs :: "twai_mask_filter_config list"
  range_filter_configs :: "twai_range_filter_config list"

text \<open>
  The command line after \<^verbatim>\<open>arg_parse\<close>: the number of errors it reports, the text of the
  first argument, how often \<^verbatim>\<open>--stop\<close> was given, and the text of \<^verbatim>\<open>-t\<close> when it was
  given.
\<close>

record dump_args =
  arg_nerrors :: nat
  arg_controller_filter :: string
  arg_stop :: nat
  arg_timestamp :: "string option"

text \<open>The calls the handler makes to the node's driver.\<close>

datatype driver_call =
  NodeDisable
  | ConfigMaskFilter nat twai_mask_filter_config
  | ConfigRangeFilter nat twai_range_filter_config
  | NodeEnable

text \<open>
  What the handler gets from outside in one run: the code the driver returns for a
  call, the value of \<^verbatim>\<open>esp_timer_get_time\<close>, what \<^verbatim>\<open>xQueueCreate\<close> returns, the handle
  \<^verbatim>\<open>xTaskCreate\<close> stores (\<open>None\<close> when the allocation fails), and whether the consumer
  task leaves its loop and cleans up during the delay of a stop.
\<close>

record dump_env =
  node_driver :: "driver_call \<Rightarrow> esp_err_t"
  timer_now :: int
  queue_created :: "nat option"
  task_created :: "nat option"
  task_exits :: bool

text \<open>
  The handler returns an \<^verbatim>\<open>int\<close>: an \<^verbatim>\<open>esp_err_t\<close>, or the code of \<^verbatim>\<open>parse_filters\<close>
  passed on as it is.
\<close>

datatype handler_ret = RetEsp esp_err_t | RetParse parse_ret

text \<open>A driver that accepts every call.\<close>

definition driver_accepts :: "driver_call \<Rightarrow> esp_err_t" where
  "driver_accepts call = ESP_OK"

text \<open>
  \<^verbatim>\<open>parse_controller_id(controller_str, controller_id)\<close> (twai\_utils\_parser.h): the
  identifier and the text after the controller name, or \<open>None\<close> for \<^verbatim>\<open>NULL\<close>, in which
  case the identifier is not written. \<open>num\<close> is \<^verbatim>\<open>SOC_TWAI_CONTROLLER_NUM\<close>. The handler
  passes the text of a required argument and the address of a local variable, so the
  branch for \<^verbatim>\<open>NULL\<close> arguments is not taken.
\<close>

definition parse_controller_id :: "nat \<Rightarrow> string \<Rightarrow> (int \<times> string) option" where
  "parse_controller_id num controller_str =
     (if take 4 controller_str = ''twai'' \<and> length controller_str \<ge> 5 then
        (let id_char = controller_str ! 4 in
         if code id_char \<ge> code (CHR ''0'') \<and> code id_char \<le> code (CHR ''9'')
            \<and> code id_char < code (CHR ''0'') + num
         then Some (int (code id_char) - int (code (CHR ''0'')), drop 5 controller_str)
         else None)
      else None)"

definition parse_controller_string :: "nat \<Rightarrow> string \<Rightarrow> int" where
  "parse_controller_string num controller_str =
     (case parse_controller_id num controller_str of Some (controller_id, end) \<Rightarrow> controller_id | None \<Rightarrow> - 1)"

text \<open>\<^verbatim>\<open>get_controller_by_id\<close> (cmd\_twai.c): the entry of the array, or \<open>None\<close> for \<^verbatim>\<open>NULL\<close>.\<close>

definition get_controller_by_id :: "'a list \<Rightarrow> int \<Rightarrow> 'a option" where
  "get_controller_by_id ctxs controller_id =
     (if controller_id < 0 \<or> controller_id \<ge> int (length ctxs) then None
      else Some (ctxs ! nat controller_id))"

text \<open>
  \<^verbatim>\<open>twai_dump_stop_internal(controller_id)\<close>. When the consumer task exits during the
  delay it has deleted the queue and cleared both pointers.
\<close>

definition twai_dump_stop_internal ::
  "bool \<Rightarrow> dump_controller list \<Rightarrow> int \<Rightarrow> esp_err_t \<times> dump_controller list" where
  "twai_dump_stop_internal exits ctxs controller_id =
     (if controller_id < 0 \<or> controller_id \<ge> int (length ctxs) then (ESP_ERR_INVALID_ARG, ctxs)
      else
        (case get_controller_by_id ctxs controller_id of
           None \<Rightarrow> (ESP_ERR_INVALID_ARG, ctxs)
         | Some controller \<Rightarrow>
             if \<not> is_running (dump_ctx controller) then (ESP_OK, ctxs)
             else
               (let d1 = (dump_ctx controller)\<lparr>is_running := False\<rparr>;
                    d2 = (if exits then d1\<lparr>rx_queue := None, dump_task_handle := None\<rparr> else d1);
                    ctxs1 = ctxs[nat controller_id := controller\<lparr>dump_ctx := d2\<rparr>]
                in if dump_task_handle d2 = None then (ESP_OK, ctxs1) else (ESP_ERR_TIMEOUT, ctxs1))))"

text \<open>
  Driver calls made one after the other until one fails: the code of the failing call,
  or \<^verbatim>\<open>ESP_OK\<close>, and the calls made.
\<close>

fun driver_run :: "(driver_call \<Rightarrow> esp_err_t) \<Rightarrow> driver_call list \<Rightarrow> esp_err_t \<times> driver_call list" where
  "driver_run drv [] = (ESP_OK, [])"
| "driver_run drv (c # cs) =
     (if drv c \<noteq> ESP_OK then (drv c, [c])
      else (case driver_run drv cs of (ret, made) \<Rightarrow> (ret, c # made)))"

text \<open>
  The calls of the block that configures the filters, in program order: disable, one
  call for each mask filter, in a build with range filters one call for each range filter
  (followed, when there is no mask filter, by the call that closes mask filter 0), and
  enable. Every one of them returns from the handler with its code when it fails.
\<close>

definition filter_config_calls :: "soc_caps \<Rightarrow> filter_out \<Rightarrow> driver_call list" where
  "filter_config_calls soc out =
     [NodeDisable]
     @ map (\<lambda>i. ConfigMaskFilter i (masks out ! i)) [0 ..< nat (mask_count out)]
     @ (if SOC_TWAI_SUPPORT_FD soc then
          concat (map (\<lambda>i. ConfigRangeFilter i (ranges out ! i)
                           # (if mask_count out = 0
                              then [ConfigMaskFilter 0 \<lparr>id_flt = 0xFFFFFFFF, mask_flt = 0xFFFFFFFF, is_ext_flt = False\<rparr>]
                              else []))
                      [0 ..< nat (range_count out)])
        else [])
     @ [NodeEnable]"

definition dump_configure_filters :: "soc_caps \<Rightarrow> dump_env \<Rightarrow> filter_out \<Rightarrow> esp_err_t \<times> driver_call list" where
  "dump_configure_filters soc env out =
     (if mask_count out > 0 \<or> range_count out > 0
      then driver_run (node_driver env) (filter_config_calls soc out)
      else (ESP_OK, []))"

text \<open>
  The filter arrays after the \<^verbatim>\<open>memset\<close>, with the two local counters, as the handler
  passes them to \<^verbatim>\<open>parse_filters\<close>.
\<close>

definition dump_cleared_filters :: "soc_caps \<Rightarrow> dump_controller \<Rightarrow> filter_out" where
  "dump_cleared_filters soc controller =
     \<lparr>masks = replicate (length (mask_filter_configs controller)) \<lparr>id_flt = 0, mask_flt = 0, is_ext_flt = False\<rparr>,
      mask_count = 0,
      ranges = (if SOC_TWAI_SUPPORT_FD soc
                then replicate (length (range_filter_configs controller))
                       \<lparr>range_low = 0, range_high = 0, is_ext_range = False\<rparr>
                else range_filter_configs controller),
      range_count = 0\<rparr>"

text \<open>
  The timestamp mode the handler stores for the \<^verbatim>\<open>-t\<close> argument: the first character
  of its text cast to the enumeration, whose values are the four letters. \<open>None\<close> is the
  \<^verbatim>\<open>default\<close> branch of the switch.
\<close>

definition timestamp_mode_of_char :: "char \<Rightarrow> timestamp_mode option" where
  "timestamp_mode_of_char mode =
     (if mode = CHR ''a'' then Some TIMESTAMP_MODE_ABSOLUTE
      else if mode = CHR ''d'' then Some TIMESTAMP_MODE_DELTA
      else if mode = CHR ''z'' then Some TIMESTAMP_MODE_ZERO
      else if mode = CHR ''n'' then Some TIMESTAMP_MODE_NONE
      else None)"

text \<open>
  The mode for the command line: \<^verbatim>\<open>TIMESTAMP_MODE_NONE\<close> when \<^verbatim>\<open>-t\<close> is not given.
\<close>

definition dump_timestamp_arg :: "string option \<Rightarrow> timestamp_mode option" where
  "dump_timestamp_arg timestamp =
     (case timestamp of None \<Rightarrow> Some TIMESTAMP_MODE_NONE | Some t \<Rightarrow> timestamp_mode_of_char (cur t))"

text \<open>
  The start path of \<^verbatim>\<open>twai_dump_handler\<close> on the controller the first argument names,
  from the \<^verbatim>\<open>memset\<close> of the filter arrays to the call of
  \<^verbatim>\<open>twai_dump_start_controller\<close>: the return value, the controller after it, the driver
  calls made and the steps of the start. \<open>None\<close> is a store outside a filter array.
\<close>

definition twai_dump_handler_start ::
  "soc_caps \<Rightarrow> dump_env \<Rightarrow> dump_controller \<Rightarrow> string \<Rightarrow> string option
   \<Rightarrow> (handler_ret \<times> dump_controller \<times> driver_call list \<times> start_step list) option" where
  "twai_dump_handler_start soc env controller filter_str timestamp =
     (case parse_filters soc filter_str (dump_cleared_filters soc controller) of
        None \<Rightarrow> None
      | Some (ret, out) \<Rightarrow>
          (let c1 = controller\<lparr>mask_filter_configs := masks out, range_filter_configs := ranges out\<rparr> in
           if ret \<noteq> PARSE_OK then Some (RetParse ret, c1, [], [])
           else if \<not> core_is_initialized c1 then Some (RetEsp ESP_ERR_INVALID_STATE, c1, [], [])
           else
             (case dump_configure_filters soc env out of
                (dret, calls) \<Rightarrow>
                  if dret \<noteq> ESP_OK then Some (RetEsp dret, c1, calls, [])
                  else
                    (let d1 = (dump_ctx c1)\<lparr>timestamp_mode := TIMESTAMP_MODE_NONE\<rparr> in
                     case dump_timestamp_arg timestamp of
                       None \<Rightarrow> Some (RetEsp ESP_ERR_INVALID_ARG, c1\<lparr>dump_ctx := d1\<rparr>, calls, [])
                     | Some m \<Rightarrow>
                         (let d2 = d1\<lparr>timestamp_mode := m, start_time_us := timer_now env,
                                       last_frame_time_us := timer_now env\<rparr>
                          in case twai_dump_start_controller d2 (queue_created env) (task_created env) of
                               (sret, d3, steps) \<Rightarrow>
                                 Some (RetEsp sret, c1\<lparr>dump_ctx := d3\<rparr>, calls, steps))))))"

text \<open>
  \<^verbatim>\<open>twai_dump_handler(argc, argv)\<close> on the parsed command line: the return value, the
  controllers after it, the driver calls made and the steps of the start.
\<close>

definition twai_dump_handler ::
  "soc_caps \<Rightarrow> dump_env \<Rightarrow> dump_controller list \<Rightarrow> dump_args
   \<Rightarrow> (handler_ret \<times> dump_controller list \<times> driver_call list \<times> start_step list) option" where
  "twai_dump_handler soc env ctxs args =
     (if arg_nerrors args \<noteq> 0 then Some (RetEsp ESP_ERR_INVALID_ARG, ctxs, [], [])
      else if arg_stop args > 0 then
        (let controller_id = parse_controller_string (length ctxs) (arg_controller_filter args) in
         if \<not> controller_id \<ge> 0 then Some (RetEsp ESP_ERR_INVALID_ARG, ctxs, [], [])
         else
           (case get_controller_by_id ctxs controller_id of
              None \<Rightarrow> Some (RetEsp ESP_ERR_INVALID_ARG, ctxs, [], [])
            | Some controller \<Rightarrow>
                (case twai_dump_stop_internal (task_exits env) ctxs controller_id of
                   (ret, ctxs1) \<Rightarrow> Some (RetEsp ret, ctxs1, [], []))))
      else
        (case parse_controller_id (length ctxs) (arg_controller_filter args) of
           None \<Rightarrow> Some (RetEsp ESP_ERR_INVALID_ARG, ctxs, [], [])
         | Some (controller_id, filter_str) \<Rightarrow>
             (case get_controller_by_id ctxs controller_id of
                None \<Rightarrow> Some (RetEsp ESP_ERR_INVALID_ARG, ctxs, [], [])
              | Some controller \<Rightarrow>
                  (case twai_dump_handler_start soc env controller filter_str (arg_timestamp args) of
                     None \<Rightarrow> None
                   | Some (ret, c1, calls, steps) \<Rightarrow>
                       Some (ret, ctxs[nat controller_id := c1], calls, steps)))))"

section \<open>The send command: the transmit rendezvous\<close>

text \<open>
  The part of the controller context the send command uses: the driver's initialized
  flag, the pending flag and the binary semaphore (\<open>True\<close> when it can be taken).
\<close>

record twai_controller_ctx =
  is_initialized :: bool
  is_tx_pending :: bool
  tx_done_sem :: bool

text \<open>
  The transmit-done callback: its return value and the context after it.
  \<open>woken\<close> is what \<^verbatim>\<open>xSemaphoreGiveFromISR\<close> reports about a higher-priority task.
\<close>

definition twai_send_tx_done_cb :: "twai_controller_ctx \<Rightarrow> bool \<Rightarrow> bool \<times> twai_controller_ctx" where
  "twai_send_tx_done_cb controller woken =
     (if is_tx_pending controller then
        (woken, controller\<lparr>is_tx_pending := False, tx_done_sem := True\<rparr>)
      else (False, controller))"

text \<open>
  \<^verbatim>\<open>send_frame_sync(controller, frame, timeout_ms)\<close> in one run: \<open>ret\<close> is what
  \<^verbatim>\<open>twai_node_transmit\<close> returns, and \<open>notified\<close> says whether the driver runs the
  transmit-done callback before the wait on the semaphore times out. The frame itself
  has no part in the rendezvous.
\<close>

definition send_frame_sync ::
  "twai_controller_ctx \<Rightarrow> esp_err_t \<Rightarrow> bool \<Rightarrow> esp_err_t \<times> twai_controller_ctx" where
  "send_frame_sync controller ret notified =
     (if \<not> is_initialized controller then (ESP_ERR_INVALID_STATE, controller)
      else
        (let c1 = controller\<lparr>is_tx_pending := True\<rparr> in
         if ret \<noteq> ESP_OK then (ret, c1\<lparr>is_tx_pending := False\<rparr>)
         else
           (let c2 = (if notified then snd (twai_send_tx_done_cb c1 False) else c1) in
            if tx_done_sem c2 then (ESP_OK, c2\<lparr>tx_done_sem := False\<rparr>)
            else (ESP_ERR_TIMEOUT, c2\<lparr>is_tx_pending := False\<rparr>))))"

text \<open>
  The same function statement by statement. The driver runs the transmit-done callback
  in interrupt context, so it can fall between any two statements of the task. A
  program point names what the task does next: the load of the initialized flag, the
  store that marks the transmission pending, the call of \<^verbatim>\<open>twai_node_transmit\<close>, the
  store after a rejected submission, the return of \<^verbatim>\<open>xSemaphoreTake\<close>, the store after a
  timed-out wait, and the return with a code.
\<close>

datatype send_pc =
  AtInitCheck | AtMarkPending | AtTransmit | AtRejectClear esp_err_t
  | AtSemaphoreTake | AtTimeoutClear | AtReturn esp_err_t

text \<open>
  An event of a run is a step of the task or a run of the callback. The step of the
  task at \<open>AtSemaphoreTake\<close> is the return of \<^verbatim>\<open>xSemaphoreTake\<close>: with the token when
  the semaphore holds one by then, with \<^verbatim>\<open>pdFALSE\<close> after the timeout otherwise; the
  callbacks before it in the run are those that arrive during the wait.
\<close>

datatype send_event = TaskStep | TxDoneIsr

fun send_step ::
  "esp_err_t \<Rightarrow> send_pc \<times> twai_controller_ctx \<Rightarrow> send_event \<Rightarrow> send_pc \<times> twai_controller_ctx" where
  "send_step ret (pc, c) TxDoneIsr = (pc, snd (twai_send_tx_done_cb c False))"
| "send_step ret (AtInitCheck, c) TaskStep =
     (if \<not> is_initialized c then (AtReturn ESP_ERR_INVALID_STATE, c) else (AtMarkPending, c))"
| "send_step ret (AtMarkPending, c) TaskStep = (AtTransmit, c\<lparr>is_tx_pending := True\<rparr>)"
| "send_step ret (AtTransmit, c) TaskStep =
     (if ret \<noteq> ESP_OK then (AtRejectClear ret, c) else (AtSemaphoreTake, c))"
| "send_step ret (AtRejectClear r, c) TaskStep = (AtReturn r, c\<lparr>is_tx_pending := False\<rparr>)"
| "send_step ret (AtSemaphoreTake, c) TaskStep =
     (if tx_done_sem c then (AtReturn ESP_OK, c\<lparr>tx_done_sem := False\<rparr>) else (AtTimeoutClear, c))"
| "send_step ret (AtTimeoutClear, c) TaskStep = (AtReturn ESP_ERR_TIMEOUT, c\<lparr>is_tx_pending := False\<rparr>)"
| "send_step ret (AtReturn r, c) TaskStep = (AtReturn r, c)"

text \<open>A run of \<^verbatim>\<open>send_frame_sync\<close>: the events in order, from the function's entry.\<close>

definition send_run ::
  "esp_err_t \<Rightarrow> send_event list \<Rightarrow> twai_controller_ctx \<Rightarrow> send_pc \<times> twai_controller_ctx" where
  "send_run ret events c = foldl (send_step ret) (AtInitCheck, c) events"

section \<open>Evaluation\<close>

text \<open>The defining equations that evaluate the model on a concrete input.\<close>

lemmas char_defs = NUL_def code_def char_at_def isxdigit_def isspace_def isdigit_def

lemmas const_defs =
  TWAI_MAX_DATA_LEN_def TWAI_FD_MAX_DATA_LEN_def TWAI_STD_ID_CHAR_LEN_def TWAI_EXT_ID_CHAR_LEN_def
  MAX_INPUT_LEN_def TWAI_RTR_DEFAULT_DLC_def TWAI_FD_FLAGS_MAX_VALUE_def TWAI_FD_BRS_FLAG_MASK_def
  TWAI_FD_ESI_FLAG_MASK_def TWAI_STD_ID_MASK_def TWAI_EXT_ID_MASK_def TWAI_FRAME_MAX_LEN_def
  TWAIFD_FRAME_MAX_LEN_def ULONG_MAX_def
  TWAI_STD_DELIMITER_POS_def TWAI_EXT_DELIMITER_POS_def TWAI_STD_DATA_START_POS_def
  TWAI_EXT_DATA_START_POS_def TWAI_MIN_FRAME_LEN_def SEND_RTR_DEFAULT_DLC_def HEX_NIBBLE_MASK_def
  HEX_NIBBLE_SHIFT_def SEND_FD_FLAGS_MAX_VALUE_def SEND_FD_BRS_FLAG_MASK_def SEND_FD_ESI_FLAG_MASK_def
  MAX_FRAME_DATA_LEN_def DUMP_OUTPUT_LINE_SIZE_def

lemmas parser_defs =
  twaifd_dlc2len_def twaifd_len2dlc_def zero_header_def zero_frame_def
  parse_nibble_def parse_hex_segment_def parse_payload_def strtoul16_def
  parse_hex_id_def parse_twai_id_def parse_classic_frame_def parse_twaifd_frame_def

lemmas send_parser_defs =
  asc2nibble_def parse_frame_id_def parse_frame_fd_def parse_frame_dlc_def
  parse_frame_def remaining_chars_def

lemmas loop_simps = id_loop.simps data_loop.simps dump_bytes_loop.simps filters_loop.simps
  hex_of_nat.simps dec_of_nat.simps

lemma replicate_numeral: "replicate (numeral k) x = x # replicate (pred_numeral k) x"
  by (simp add: numeral_eq_Suc)

lemma replicate_8: "replicate 8 x = [x, x, x, x, x, x, x, x]"
  by (simp add: eval_nat_numeral)

lemmas format_defs = timestamp_text_def dec_of_int_def dec_of_int_pad_def c_div_def c_mod_def
  zero_pad_def hex_char_def dec_of_nat.simps hex_of_nat.simps dec_value_def code_def isdigit_def
  replicate_numeral

lemmas eval_defs = char_defs const_defs parser_defs send_parser_defs loop_simps Let_def replicate_8

lemma zero_frame_8:
  "zero_frame 8 = \<lparr>header = zero_header, buffer = [0, 0, 0, 0, 0, 0, 0, 0], buffer_len = 0\<rparr>"
  by (simp add: zero_frame_def replicate_8)

section \<open>Characters\<close>

lemma isxdigit_nibble:
  "isxdigit c \<Longrightarrow> \<exists>v<16. parse_nibble c = Inr v \<and> asc2nibble c = v"
  by (auto simp: isxdigit_def parse_nibble_def asc2nibble_def code_def)

lemma parse_nibble_isxdigit: "parse_nibble c = Inr v \<Longrightarrow> isxdigit c \<and> v < 16"
  by (auto simp: isxdigit_def parse_nibble_def code_def split: if_splits)

lemma not_isxdigit_nibble: "\<not> isxdigit c \<Longrightarrow> parse_nibble c = Inl PARSE_ERROR"
  by (auto simp: isxdigit_def parse_nibble_def code_def)

lemma asc2nibble_parse_nibble: "parse_nibble c = Inr v \<Longrightarrow> asc2nibble c = v"
  by (auto simp: parse_nibble_def asc2nibble_def split: if_splits)

lemma isxdigit_not_special:
  "isxdigit c \<Longrightarrow>
     \<not> isspace c \<and> c \<noteq> CHR ''-'' \<and> c \<noteq> CHR ''+'' \<and> c \<noteq> CHR ''x'' \<and> c \<noteq> CHR ''X''
     \<and> c \<noteq> CHR ''.'' \<and> c \<noteq> CHR ''_'' \<and> c \<noteq> CHR ''#'' \<and> c \<noteq> CHR ''R'' \<and> c \<noteq> CHR ''r''
     \<and> c \<noteq> NUL"
  by (auto simp: isxdigit_def isspace_def code_def NUL_def)

lemma hash_not_xdigit: "\<not> isxdigit (CHR ''#'')"
  by (simp add: isxdigit_def code_def)

section \<open>The two parsers on the same grammar\<close>

lemma parse_classic_R:
  "parse_classic_frame ''R'' f = Inr (f\<lparr>header := (header f)\<lparr>rtr := True, dlc := 8\<rparr>, buffer_len := 0\<rparr>)"
  by (simp add: eval_defs)

lemma parse_frame_R:
  "parse_frame fd ''123#R'' f =
     Inr (f\<lparr>header := zero_header\<lparr>id_hdr := 0x123, ide := False, rtr := True, dlc := 0\<rparr>, buffer_len := 0\<rparr>)"
  by (simp add: eval_defs)

lemma parse_twai_id_123:
  "parse_twai_id (''123#'' @ body) 3 f = Inr (f\<lparr>header := (header f)\<lparr>id_hdr := 0x123, ide := False\<rparr>\<rparr>)"
  by (simp add: eval_defs)

lemma parse_twaifd_flags_4:
  "parse_twaifd_frame ''4'' f =
     Inr (f\<lparr>header := (header f)\<lparr>fdf := True, brs := False, esi := False, dlc := 0\<rparr>, buffer_len := 0\<rparr>)"
  by (simp add: eval_defs)

lemma parse_frame_flags_4: "parse_frame True ''123##4'' f = Inl FdFlagsValueInvalid"
  by (simp add: eval_defs)

text \<open>
  C3. The dedicated parser and the send command's inline parser disagree on the same
  frame grammar. On the frame text \<open>123#R\<close> (a remote request without a length nibble)
  the dedicated parser (\<open>parse_twai_id\<close> on the identifier, \<open>parse_classic_frame\<close> on
  the body) gives data-length code 8 and the inline parser gives 0, so the two frames
  differ. On the flexible-rate text \<open>123##4\<close> the dedicated parser
  (\<open>parse_twaifd_frame\<close> on the text after the second \<open>#\<close>) accepts the flags nibble 4
  and the inline parser rejects it, its limit being 3 and not 15.
\<close>

theorem parsers_disagree:
  "(\<exists>g a b.
      parse_twai_id ''123#R'' 3 (zero_frame 8) = Inr g \<and> parse_classic_frame ''R'' g = Inr a
      \<and> parse_frame fd ''123#R'' (zero_frame 8) = Inr b
      \<and> dlc (header a) = TWAI_RTR_DEFAULT_DLC \<and> dlc (header a) = 8
      \<and> dlc (header b) = SEND_RTR_DEFAULT_DLC \<and> dlc (header b) = 0
      \<and> rtr (header a) \<and> rtr (header b) \<and> id_hdr (header a) = id_hdr (header b) \<and> a \<noteq> b)
   \<and> (\<exists>g a.
      parse_twai_id ''123##4'' 3 (zero_frame 64) = Inr g \<and> parse_twaifd_frame ''4'' g = Inr a
      \<and> asc2nibble (CHR ''4'') \<le> TWAI_FD_FLAGS_MAX_VALUE
      \<and> asc2nibble (CHR ''4'') > SEND_FD_FLAGS_MAX_VALUE
      \<and> parse_frame True ''123##4'' (zero_frame 64) = Inl FdFlagsValueInvalid)"
proof (intro conjI)
  have id1: "parse_twai_id ''123#R'' 3 (zero_frame 8)
             = Inr ((zero_frame 8)\<lparr>header := (header (zero_frame 8))\<lparr>id_hdr := 0x123, ide := False\<rparr>\<rparr>)"
    using parse_twai_id_123 [of "''R''" "zero_frame 8"] by simp
  show "\<exists>g a b.
      parse_twai_id ''123#R'' 3 (zero_frame 8) = Inr g \<and> parse_classic_frame ''R'' g = Inr a
      \<and> parse_frame fd ''123#R'' (zero_frame 8) = Inr b
      \<and> dlc (header a) = TWAI_RTR_DEFAULT_DLC \<and> dlc (header a) = 8
      \<and> dlc (header b) = SEND_RTR_DEFAULT_DLC \<and> dlc (header b) = 0
      \<and> rtr (header a) \<and> rtr (header b) \<and> id_hdr (header a) = id_hdr (header b) \<and> a \<noteq> b"
    unfolding id1 parse_classic_R parse_frame_R
    by (simp add: TWAI_RTR_DEFAULT_DLC_def SEND_RTR_DEFAULT_DLC_def zero_frame_def zero_header_def)
  have id2: "parse_twai_id ''123##4'' 3 (zero_frame 64)
             = Inr ((zero_frame 64)\<lparr>header := (header (zero_frame 64))\<lparr>id_hdr := 0x123, ide := False\<rparr>\<rparr>)"
    using parse_twai_id_123 [of "''#4''" "zero_frame 64"] by simp
  show "\<exists>g a.
      parse_twai_id ''123##4'' 3 (zero_frame 64) = Inr g \<and> parse_twaifd_frame ''4'' g = Inr a
      \<and> asc2nibble (CHR ''4'') \<le> TWAI_FD_FLAGS_MAX_VALUE
      \<and> asc2nibble (CHR ''4'') > SEND_FD_FLAGS_MAX_VALUE
      \<and> parse_frame True ''123##4'' (zero_frame 64) = Inl FdFlagsValueInvalid"
    unfolding id2 parse_twaifd_flags_4 parse_frame_flags_4
    by (simp add: asc2nibble_def code_def TWAI_FD_FLAGS_MAX_VALUE_def SEND_FD_FLAGS_MAX_VALUE_def)
qed

section \<open>Bit arithmetic\<close>

lemma bit_below_power:
  fixes b :: nat
  assumes "b < 2 ^ n" and "bit b k"
  shows "k < n"
proof (rule ccontr)
  assume "\<not> k < n"
  then have "(2::nat) ^ n \<le> 2 ^ k" by (simp add: power_increasing)
  with assms(1) have "b < 2 ^ k" by linarith
  then have "b div 2 ^ k = 0" by simp
  with assms(2) show False by (simp add: bit_iff_odd)
qed

lemma or_shift_add:
  fixes a b :: nat
  assumes "b < 2 ^ n"
  shows "push_bit n a OR b = a * 2 ^ n + b"
proof -
  have "push_bit n a + b = push_bit n a OR b"
  proof (rule disjunctive_add)
    fix k show "\<not> bit (push_bit n a) k \<or> \<not> bit b k"
      using bit_below_power [OF assms, of k] by (auto simp: bit_push_bit_iff)
  qed
  then show ?thesis by (simp add: push_bit_eq_mult)
qed

section \<open>The payload limit of the classic body\<close>

lemma parse_payload_loop_err: "parse_payload_loop s buf mx cnt = Inl e \<Longrightarrow> e = PARSE_ERROR"
  by (induction s buf mx cnt rule: parse_payload_loop.induct)
     (auto split: if_splits sum.splits)

lemma parse_classic_never_too_long: "parse_classic_frame body f \<noteq> Inl PARSE_TOO_LONG"
  by (auto simp: parse_classic_frame_def parse_payload_def Let_def
           split: if_splits sum.splits prod.splits dest: parse_payload_loop_err)

lemma parse_classic_eight:
  "parse_classic_frame ''0102030405060708'' (zero_frame 8) =
     Inr \<lparr>header = zero_header\<lparr>dlc := 8\<rparr>, buffer = [1, 2, 3, 4, 5, 6, 7, 8], buffer_len = 8\<rparr>"
  by (simp add: eval_defs)

lemma parse_classic_nine:
  "parse_classic_frame ''010203040506070809'' (zero_frame 8) =
     Inr \<lparr>header = zero_header\<lparr>dlc := 8\<rparr>, buffer = [1, 2, 3, 4, 5, 6, 7, 8], buffer_len = 8\<rparr>"
  by (simp add: eval_defs)

lemma parse_frame_eight:
  "parse_frame fd ''123#0102030405060708'' (zero_frame 8) =
     Inr \<lparr>header = zero_header\<lparr>id_hdr := 0x123, dlc := 8\<rparr>,
          buffer = [1, 2, 3, 4, 5, 6, 7, 8], buffer_len = 8\<rparr>"
  by (simp add: eval_defs)

lemma parse_frame_nine:
  "parse_frame fd ''123#010203040506070809'' (zero_frame 8) = Inl DataTooLong"
  by (simp add: eval_defs)

text \<open>
  C2. The body \<open>0102030405060708\<close> decodes to the 8 bytes 01..08 with data-length code
  8, in both parsers. With a ninth byte pair the send command's inline parser fails with
  its too-long error, but the dedicated parser \<open>parse_classic_frame\<close> stops reading
  after 8 bytes and succeeds with the same frame as for 8 pairs: it never returns
  \<open>PARSE_TOO_LONG\<close>, on any body.
\<close>

theorem classic_ninth_byte_truncated:
  "parse_classic_frame ''0102030405060708'' (zero_frame 8) =
     Inr \<lparr>header = zero_header\<lparr>dlc := 8\<rparr>, buffer = [1, 2, 3, 4, 5, 6, 7, 8], buffer_len = 8\<rparr>
   \<and> parse_frame fd ''123#0102030405060708'' (zero_frame 8) =
     Inr \<lparr>header = zero_header\<lparr>id_hdr := 0x123, dlc := 8\<rparr>,
          buffer = [1, 2, 3, 4, 5, 6, 7, 8], buffer_len = 8\<rparr>
   \<and> parse_frame fd ''123#010203040506070809'' (zero_frame 8) = Inl DataTooLong
   \<and> parse_classic_frame ''010203040506070809'' (zero_frame 8) =
     parse_classic_frame ''0102030405060708'' (zero_frame 8)
   \<and> (\<forall>body f. parse_classic_frame body f \<noteq> Inl PARSE_TOO_LONG)"
  using parse_classic_eight parse_classic_nine parse_frame_eight parse_frame_nine
    parse_classic_never_too_long
  by simp

section \<open>Identifier range\<close>

lemma strtoul16_three:
  assumes "isxdigit a" "isxdigit b" "isxdigit c"
  shows "strtoul16 (a # b # c # CHR ''#'' # body)
         = (asc2nibble a * 256 + asc2nibble b * 16 + asc2nibble c, 3)"
proof -
  from assms obtain va vb vc where
    v: "va < 16" "parse_nibble a = Inr va" "asc2nibble a = va"
       "vb < 16" "parse_nibble b = Inr vb" "asc2nibble b = vb"
       "vc < 16" "parse_nibble c = Inr vc" "asc2nibble c = vc"
    using isxdigit_nibble by metis
  have h: "parse_nibble (CHR ''#'') = Inl PARSE_ERROR"
    by (simp add: parse_nibble_def code_def)
  have d: "strtoul_digits (a # b # c # CHR ''#'' # body) 0 False 0 = (va * 256 + vb * 16 + vc, False, 3)"
    using v h by (simp add: ULONG_MAX_def)
  show ?thesis
    using isxdigit_not_special [OF assms(1)] isxdigit_not_special [OF assms(2)] d v
    by (simp add: strtoul16_def)
qed

lemma parse_twai_id_three_out_of_range:
  assumes "isxdigit a" "isxdigit b" "isxdigit c"
    and "TWAI_STD_ID_MASK < asc2nibble a * 256 + asc2nibble b * 16 + asc2nibble c"
  shows "parse_twai_id (a # b # c # CHR ''#'' # body) 3 f = Inl PARSE_OUT_OF_RANGE"
  using assms(4) strtoul16_three [OF assms(1-3)]
  by (simp add: parse_twai_id_def parse_hex_id_def TWAI_EXT_ID_CHAR_LEN_def TWAI_STD_ID_CHAR_LEN_def)

lemma id_loop_three:
  assumes "isxdigit a" "isxdigit b" "isxdigit c"
  shows "id_loop (a # b # c # rest) 3 0 0 = Inr (asc2nibble a * 256 + asc2nibble b * 16 + asc2nibble c)"
proof -
  from assms obtain va vb vc where
    v: "va < 16" "asc2nibble a = va" "vb < 16" "asc2nibble b = vb" "vc < 16" "asc2nibble c = vc"
    using isxdigit_nibble by metis
  have e1: "push_bit 8 va OR push_bit 4 vb = va * 256 + vb * 16"
  proof -
    have "push_bit 4 (push_bit 4 va) OR push_bit 4 vb = push_bit 4 (push_bit 4 va OR vb)"
      by simp
    also have "\<dots> = va * 256 + vb * 16"
      using or_shift_add [of vb 4 va] v by (simp add: push_bit_eq_mult)
    finally show ?thesis by simp
  qed
  have e2: "(va * 256 + vb * 16) OR vc = va * 256 + vb * 16 + vc"
    using or_shift_add [of vc 4 "va * 16 + vb"] v by (simp add: push_bit_eq_mult algebra_simps)
  have m: "push_bit 8 va mod 4294967296 = push_bit 8 va"
    "(va * 256 + vb * 16) mod 4294967296 = va * 256 + vb * 16"
    "(va * 256 + vb * 16 + vc) mod 4294967296 = va * 256 + vb * 16 + vc"
    using v by (simp_all add: push_bit_eq_mult)
  show ?thesis
    using v
    by (simp add: id_loop.simps char_at_def HEX_NIBBLE_MASK_def HEX_NIBBLE_SHIFT_def Let_def m e1 e2)
qed

lemma parse_frame_three_out_of_range:
  assumes "isxdigit a" "isxdigit b" "isxdigit c"
    and "TWAI_STD_ID_MASK < asc2nibble a * 256 + asc2nibble b * 16 + asc2nibble c"
    and "body \<noteq> []"
  shows "parse_frame fd (a # b # c # CHR ''#'' # body) f = Inl StandardIdOutOfRange"
proof -
  have "parse_frame_id (a # b # c # CHR ''#'' # body)
        = Inr (4, asc2nibble a * 256 + asc2nibble b * 16 + asc2nibble c, False)"
    using id_loop_three [OF assms(1-3)]
    by (simp add: parse_frame_id_def char_at_def const_defs)
  moreover have "\<not> length (a # b # c # CHR ''#'' # body) < TWAI_MIN_FRAME_LEN"
    using assms(5) by (cases body) (simp_all add: TWAI_MIN_FRAME_LEN_def)
  ultimately show ?thesis
    using assms(4) by (simp add: parse_frame_def)
qed

lemma parse_twai_id_bound:
  "parse_twai_id str len f = Inr g \<Longrightarrow>
     id_hdr (header g) \<le> (if ide (header g) then TWAI_EXT_ID_MASK else TWAI_STD_ID_MASK)"
  by (auto simp: parse_twai_id_def parse_hex_id_def Let_def
           split: sum.splits prod.splits if_splits intro: order_trans [OF mod_less_eq_dividend])

lemma parse_frame_id_bound:
  "parse_frame_id s = Inr (idx, ident, is_ext) \<Longrightarrow> is_ext \<Longrightarrow> ident \<le> TWAI_EXT_ID_MASK"
  by (auto simp: parse_frame_id_def split: if_splits sum.splits)

lemma parse_frame_fd_header:
  "parse_frame_fd fd s idx hdr = Inr (idx2, hdr2, b) \<Longrightarrow> id_hdr hdr2 = id_hdr hdr \<and> ide hdr2 = ide hdr"
  by (auto simp: parse_frame_fd_def Let_def split: if_splits)

lemma parse_frame_header:
  assumes "parse_frame fd s f = Inr g"
  shows "\<exists>idx ident is_ext. parse_frame_id s = Inr (idx, ident, is_ext)
           \<and> \<not> (\<not> is_ext \<and> ident > TWAI_STD_ID_MASK)
           \<and> id_hdr (header g) = ident \<and> ide (header g) = is_ext"
proof -
  from assms obtain idx ident is_ext where pid: "parse_frame_id s = Inr (idx, ident, is_ext)"
    by (cases "parse_frame_id s") (auto simp: parse_frame_def split: if_splits)
  from assms pid have ok: "\<not> (\<not> is_ext \<and> ident > TWAI_STD_ID_MASK)"
    by (auto simp: parse_frame_def split: if_splits)
  define hdr where "hdr = zero_header\<lparr>id_hdr := ident, ide := is_ext\<rparr>"
  show ?thesis
  proof (cases "char_at s idx = CHR ''R'' \<or> char_at s idx = CHR ''r''")
    case True
    with assms pid ok have "id_hdr (header g) = ident \<and> ide (header g) = is_ext"
      by (auto simp: parse_frame_def Let_def split: if_splits)
    with pid ok show ?thesis by blast
  next
    case False
    with assms pid ok obtain idx2 hdr2 b where
      fdp: "parse_frame_fd fd s idx hdr = Inr (idx2, hdr2, b)"
      by (cases "parse_frame_fd fd s idx hdr")
         (auto simp: parse_frame_def Let_def hdr_def split: if_splits)
    from assms pid ok False fdp have "id_hdr (header g) = id_hdr hdr2 \<and> ide (header g) = ide hdr2"
      by (auto simp: parse_frame_def Let_def hdr_def split: if_splits sum.splits)
    with parse_frame_fd_header [OF fdp] have "id_hdr (header g) = ident \<and> ide (header g) = is_ext"
      by (simp add: hdr_def)
    with pid ok show ?thesis by blast
  qed
qed

lemma parse_frame_bound:
  assumes "parse_frame fd s f = Inr g"
  shows "id_hdr (header g) \<le> (if ide (header g) then TWAI_EXT_ID_MASK else TWAI_STD_ID_MASK)"
proof -
  from parse_frame_header [OF assms] obtain idx ident is_ext where
    h: "parse_frame_id s = Inr (idx, ident, is_ext)" "\<not> (\<not> is_ext \<and> ident > TWAI_STD_ID_MASK)"
       "id_hdr (header g) = ident" "ide (header g) = is_ext"
    by blast
  show ?thesis
    using h parse_frame_id_bound [OF h(1)] by auto
qed

lemma parse_twai_id_7FF:
  "parse_twai_id (''7FF#'' @ body) 3 f = Inr (f\<lparr>header := (header f)\<lparr>id_hdr := 0x7FF, ide := False\<rparr>\<rparr>)"
  by (simp add: eval_defs)

lemma parse_twai_id_800: "parse_twai_id (''800#'' @ body) 3 f = Inl PARSE_OUT_OF_RANGE"
  by (simp add: eval_defs)

lemma parse_frame_7FF:
  "parse_frame fd ''7FF#00'' (zero_frame 8) =
     Inr \<lparr>header = zero_header\<lparr>id_hdr := 0x7FF, dlc := 1\<rparr>,
          buffer = [0, 0, 0, 0, 0, 0, 0, 0], buffer_len = 1\<rparr>"
  by (simp add: eval_defs)

lemma parse_frame_800: "parse_frame fd ''800#00'' f = Inl StandardIdOutOfRange"
  by (simp add: eval_defs)

text \<open>
  C4. Identifier range checking in decode, for the dedicated parser (\<open>parse_twai_id\<close>)
  and the inline parser (\<open>parse_frame\<close>). The identifier \<open>800\<close> fails with the
  out-of-range error and \<open>7FF\<close> succeeds as a standard identifier of value 0x7FF. Every
  identifier of three hexadecimal digits whose value exceeds 0x7FF fails with the
  out-of-range error. Every successful decode yields an identifier of at most 0x7FF when
  the frame is not extended and of at most 0x1FFFFFFF when it is.
\<close>

theorem identifier_range_checked:
  "parse_twai_id (''800#'' @ body) 3 f = Inl PARSE_OUT_OF_RANGE
   \<and> parse_twai_id (''7FF#'' @ body) 3 f = Inr (f\<lparr>header := (header f)\<lparr>id_hdr := 0x7FF, ide := False\<rparr>\<rparr>)
   \<and> parse_frame fd ''800#00'' f = Inl StandardIdOutOfRange
   \<and> (\<exists>g. parse_frame fd ''7FF#00'' (zero_frame 8) = Inr g
          \<and> id_hdr (header g) = 0x7FF \<and> \<not> ide (header g))
   \<and> (\<forall>a b c. isxdigit a \<and> isxdigit b \<and> isxdigit c
          \<and> 0x7FF < asc2nibble a * 256 + asc2nibble b * 16 + asc2nibble c \<longrightarrow>
        parse_twai_id (a # b # c # CHR ''#'' # body) 3 f = Inl PARSE_OUT_OF_RANGE
        \<and> (body \<noteq> [] \<longrightarrow> parse_frame fd (a # b # c # CHR ''#'' # body) f = Inl StandardIdOutOfRange))
   \<and> (\<forall>str len g. parse_twai_id str len f = Inr g \<longrightarrow>
        id_hdr (header g) \<le> (if ide (header g) then 0x1FFFFFFF else 0x7FF))
   \<and> (\<forall>s g. parse_frame fd s f = Inr g \<longrightarrow>
        id_hdr (header g) \<le> (if ide (header g) then 0x1FFFFFFF else 0x7FF))"
proof (intro conjI allI impI)
  show "parse_twai_id (''800#'' @ body) 3 f = Inl PARSE_OUT_OF_RANGE"
    by (rule parse_twai_id_800)
  show "parse_twai_id (''7FF#'' @ body) 3 f
        = Inr (f\<lparr>header := (header f)\<lparr>id_hdr := 0x7FF, ide := False\<rparr>\<rparr>)"
    by (rule parse_twai_id_7FF)
  show "parse_frame fd ''800#00'' f = Inl StandardIdOutOfRange"
    by (rule parse_frame_800)
  show "\<exists>g. parse_frame fd ''7FF#00'' (zero_frame 8) = Inr g
          \<and> id_hdr (header g) = 0x7FF \<and> \<not> ide (header g)"
    unfolding parse_frame_7FF by (simp add: zero_header_def)
next
  fix a b c
  assume h: "isxdigit a \<and> isxdigit b \<and> isxdigit c
          \<and> 0x7FF < asc2nibble a * 256 + asc2nibble b * 16 + asc2nibble c"
  then show "parse_twai_id (a # b # c # CHR ''#'' # body) 3 f = Inl PARSE_OUT_OF_RANGE"
    using parse_twai_id_three_out_of_range [of a b c body f] by (simp add: TWAI_STD_ID_MASK_def)
  assume "body \<noteq> []"
  with h show "parse_frame fd (a # b # c # CHR ''#'' # body) f = Inl StandardIdOutOfRange"
    using parse_frame_three_out_of_range [of a b c body fd f] by (simp add: TWAI_STD_ID_MASK_def)
next
  fix str len g
  assume "parse_twai_id str len f = Inr g"
  from parse_twai_id_bound [OF this]
  show "id_hdr (header g) \<le> (if ide (header g) then 0x1FFFFFFF else 0x7FF)"
    by (auto simp: TWAI_EXT_ID_MASK_def TWAI_STD_ID_MASK_def split: if_splits)
next
  fix s g
  assume "parse_frame fd s f = Inr g"
  from parse_frame_bound [OF this]
  show "id_hdr (header g) \<le> (if ide (header g) then 0x1FFFFFFF else 0x7FF)"
    by (auto simp: TWAI_EXT_ID_MASK_def TWAI_STD_ID_MASK_def split: if_splits)
qed

lemma parse_twai_id_ext_max:
  "parse_twai_id ''1FFFFFFF#00'' 8 (zero_frame 8)
   = Inr ((zero_frame 8)\<lparr>header := zero_header\<lparr>id_hdr := 0x1FFFFFFF, ide := True\<rparr>\<rparr>)"
  by (simp add: eval_defs)

lemma xdigits_F00: "isxdigit (CHR ''F'') \<and> isxdigit (CHR ''0'')"
  by (simp add: isxdigit_def code_def)

theorem identifier_range_checked_witness:
  "isxdigit (CHR ''F'') \<and> isxdigit (CHR ''0'')
   \<and> 0x7FF < asc2nibble (CHR ''F'') * 256 + asc2nibble (CHR ''0'') * 16 + asc2nibble (CHR ''0'')
   \<and> parse_twai_id ''F00#00'' 3 (zero_frame 8) = Inl PARSE_OUT_OF_RANGE
   \<and> parse_frame False ''F00#00'' (zero_frame 8) = Inl StandardIdOutOfRange
   \<and> parse_twai_id ''1FFFFFFF#00'' 8 (zero_frame 8)
       = Inr ((zero_frame 8)\<lparr>header := zero_header\<lparr>id_hdr := 0x1FFFFFFF, ide := True\<rparr>\<rparr>)
   \<and> id_hdr (header ((zero_frame 8)\<lparr>header := zero_header\<lparr>id_hdr := 0x1FFFFFFF, ide := True\<rparr>\<rparr>))
       \<le> 0x1FFFFFFF
   \<and> id_hdr (header \<lparr>header = zero_header\<lparr>id_hdr := 0x7FF, dlc := 1\<rparr>,
          buffer = [0, 0, 0, 0, 0, 0, 0, 0], buffer_len = 1\<rparr>) \<le> 0x7FF"
proof -
  note t = identifier_range_checked [of "''00''" "zero_frame 8" False]
  have v: "0x7FF < asc2nibble (CHR ''F'') * 256 + asc2nibble (CHR ''0'') * 16 + asc2nibble (CHR ''0'')"
    by (simp add: asc2nibble_def code_def)
  from t have a: "isxdigit (CHR ''F'') \<and> isxdigit (CHR ''0'') \<and> isxdigit (CHR ''0'')
          \<and> 0x7FF < asc2nibble (CHR ''F'') * 256 + asc2nibble (CHR ''0'') * 16 + asc2nibble (CHR ''0'') \<longrightarrow>
        parse_twai_id (CHR ''F'' # CHR ''0'' # CHR ''0'' # CHR ''#'' # ''00'') 3 (zero_frame 8) = Inl PARSE_OUT_OF_RANGE
        \<and> (''00'' \<noteq> [] \<longrightarrow> parse_frame False (CHR ''F'' # CHR ''0'' # CHR ''0'' # CHR ''#'' # ''00'') (zero_frame 8)
               = Inl StandardIdOutOfRange)"
    by blast
  from t have b: "parse_twai_id ''1FFFFFFF#00'' 8 (zero_frame 8)
        = Inr ((zero_frame 8)\<lparr>header := zero_header\<lparr>id_hdr := 0x1FFFFFFF, ide := True\<rparr>\<rparr>) \<longrightarrow>
      id_hdr (header ((zero_frame 8)\<lparr>header := zero_header\<lparr>id_hdr := 0x1FFFFFFF, ide := True\<rparr>\<rparr>))
        \<le> (if ide (header ((zero_frame 8)\<lparr>header := zero_header\<lparr>id_hdr := 0x1FFFFFFF, ide := True\<rparr>\<rparr>))
            then 0x1FFFFFFF else 0x7FF)"
    by blast
  from t have c: "parse_frame False ''7FF#00'' (zero_frame 8)
        = Inr \<lparr>header = zero_header\<lparr>id_hdr := 0x7FF, dlc := 1\<rparr>,
               buffer = [0, 0, 0, 0, 0, 0, 0, 0], buffer_len = 1\<rparr> \<longrightarrow>
      id_hdr (header \<lparr>header = zero_header\<lparr>id_hdr := 0x7FF, dlc := 1\<rparr>,
               buffer = [0, 0, 0, 0, 0, 0, 0, 0], buffer_len = 1\<rparr>)
        \<le> (if ide (header \<lparr>header = zero_header\<lparr>id_hdr := 0x7FF, dlc := 1\<rparr>,
               buffer = [0, 0, 0, 0, 0, 0, 0, 0], buffer_len = 1\<rparr>) then 0x1FFFFFFF else 0x7FF)"
    by blast
  show ?thesis
    using a b c v xdigits_F00 parse_twai_id_ext_max parse_frame_7FF [of False]
    by (simp add: zero_header_def zero_frame_def)
qed

section \<open>Starting the capture pipeline\<close>

lemma start_running:
  "is_running ctx \<Longrightarrow> twai_dump_start_controller ctx q t = (ESP_OK, ctx, [])"
  by (simp add: twai_dump_start_controller_def)

lemma start_ok:
  "\<not> is_running ctx \<Longrightarrow>
   twai_dump_start_controller ctx (Some qh) (Some th) =
     (ESP_OK, ctx\<lparr>rx_queue := Some qh, is_running := True, dump_task_handle := Some th\<rparr>,
      [XQueueCreate, StoreRunning True, XTaskCreate])"
  by (simp add: twai_dump_start_controller_def)

lemma start_no_mem:
  "\<not> is_running ctx \<Longrightarrow>
   twai_dump_start_controller ctx None t = (ESP_ERR_NO_MEM, ctx\<lparr>rx_queue := None\<rparr>, [XQueueCreate])"
  by (simp add: twai_dump_start_controller_def)

text \<open>
  \<open>twai_dump_start_controller\<close> on its own. When the context is already running, it
  returns success, leaves the context as it is and takes no step. Otherwise, when both
  allocations succeed, it creates the queue, then sets the running flag, then creates
  the consumer task, and returns success with the flag set and both handles stored.
  When the queue allocation fails it returns the out-of-memory code after that one
  step: the running flag is still false, there is no queue and the task handle is
  untouched.
\<close>

lemma start_controller_cases:
  "(is_running ctx \<longrightarrow> twai_dump_start_controller ctx q t = (ESP_OK, ctx, []))
   \<and> (\<not> is_running ctx \<longrightarrow>
        twai_dump_start_controller ctx (Some qh) (Some th) =
          (ESP_OK, ctx\<lparr>rx_queue := Some qh, is_running := True, dump_task_handle := Some th\<rparr>,
           [XQueueCreate, StoreRunning True, XTaskCreate]))
   \<and> (\<not> is_running ctx \<longrightarrow>
        (\<exists>ctx1. twai_dump_start_controller ctx None t = (ESP_ERR_NO_MEM, ctx1, [XQueueCreate])
           \<and> \<not> is_running ctx1 \<and> rx_queue ctx1 = None
           \<and> dump_task_handle ctx1 = dump_task_handle ctx
           \<and> (rx_queue ctx = None \<longrightarrow> ctx1 = ctx)))"
  using start_running [of ctx q t] start_ok [of ctx qh th] start_no_mem [of ctx t]
  by auto

section \<open>The transmit rendezvous\<close>

lemma send_timeout:
  "is_initialized c \<Longrightarrow> \<not> tx_done_sem c \<Longrightarrow>
   send_frame_sync c ESP_OK False = (ESP_ERR_TIMEOUT, c\<lparr>is_tx_pending := False\<rparr>)"
  by (simp add: send_frame_sync_def)

lemma send_notified:
  "is_initialized c \<Longrightarrow> \<not> tx_done_sem c \<Longrightarrow>
   send_frame_sync c ESP_OK True = (ESP_OK, c\<lparr>is_tx_pending := False\<rparr>)"
  by (simp add: send_frame_sync_def twai_send_tx_done_cb_def)

lemma send_rejected:
  "is_initialized c \<Longrightarrow> ret \<noteq> ESP_OK \<Longrightarrow>
   send_frame_sync c ret n = (ret, c\<lparr>is_tx_pending := False\<rparr>)"
  by (simp add: send_frame_sync_def)

lemma send_code_ignores_pending:
  "fst (send_frame_sync (c\<lparr>is_tx_pending := b\<rparr>) ret n) = fst (send_frame_sync c ret n)"
  by (simp add: send_frame_sync_def twai_send_tx_done_cb_def Let_def)

lemma late_notification:
  "\<not> is_tx_pending c \<Longrightarrow> twai_send_tx_done_cb c w = (False, c)"
  by (simp add: twai_send_tx_done_cb_def)

text \<open>
  Runs in which the callback does not fall between two statements of the task. The
  controller is initialized and the completion semaphore is empty. When the driver
  accepts the frame and no transmit-done notification arrives, \<open>send_frame_sync\<close>
  returns the timeout code and the pending flag is clear on return. A notification that
  arrives after the return changes nothing and reports nothing: the callback signals
  only while the flag is set. A following send on the same controller does not wait on
  the flag: with a notification it returns success, without one it times out again, and
  a rejected submission returns the driver's code; the return code of a send never
  depends on the pending flag it finds.
\<close>

lemma send_sequential_timeout:
  "(is_initialized c \<and> \<not> tx_done_sem c \<longrightarrow>
      (\<exists>c1. send_frame_sync c ESP_OK False = (ESP_ERR_TIMEOUT, c1)
         \<and> \<not> is_tx_pending c1 \<and> is_initialized c1 \<and> \<not> tx_done_sem c1
         \<and> twai_send_tx_done_cb c1 w = (False, c1)
         \<and> send_frame_sync c1 ESP_OK True = (ESP_OK, c1)
         \<and> send_frame_sync c1 ESP_OK False = (ESP_ERR_TIMEOUT, c1)
         \<and> (\<forall>ret n. ret \<noteq> ESP_OK \<longrightarrow> send_frame_sync c1 ret n = (ret, c1))))
   \<and> (is_tx_pending c \<longrightarrow>
        twai_send_tx_done_cb c w = (w, c\<lparr>is_tx_pending := False, tx_done_sem := True\<rparr>))
   \<and> (\<not> is_tx_pending c \<longrightarrow> twai_send_tx_done_cb c w = (False, c))
   \<and> (\<forall>b ret n. fst (send_frame_sync (c\<lparr>is_tx_pending := b\<rparr>) ret n) = fst (send_frame_sync c ret n))"
proof (intro conjI impI allI)
  assume h: "is_initialized c \<and> \<not> tx_done_sem c"
  define c1 where "c1 = c\<lparr>is_tx_pending := False\<rparr>"
  have p: "is_initialized c1" "\<not> tx_done_sem c1" "\<not> is_tx_pending c1"
    and e: "c1\<lparr>is_tx_pending := False\<rparr> = c1"
    using h by (simp_all add: c1_def)
  have "send_frame_sync c ESP_OK False = (ESP_ERR_TIMEOUT, c1)"
    using h send_timeout [of c] by (simp add: c1_def)
  moreover have "twai_send_tx_done_cb c1 w = (False, c1)"
    using p by (simp add: late_notification)
  moreover have "send_frame_sync c1 ESP_OK True = (ESP_OK, c1)"
    using send_notified [OF p(1,2)] e by simp
  moreover have "send_frame_sync c1 ESP_OK False = (ESP_ERR_TIMEOUT, c1)"
    using send_timeout [OF p(1,2)] e by simp
  moreover have "\<forall>ret n. ret \<noteq> ESP_OK \<longrightarrow> send_frame_sync c1 ret n = (ret, c1)"
    using send_rejected [OF p(1)] e by simp
  ultimately show "\<exists>c1. send_frame_sync c ESP_OK False = (ESP_ERR_TIMEOUT, c1)
         \<and> \<not> is_tx_pending c1 \<and> is_initialized c1 \<and> \<not> tx_done_sem c1
         \<and> twai_send_tx_done_cb c1 w = (False, c1)
         \<and> send_frame_sync c1 ESP_OK True = (ESP_OK, c1)
         \<and> send_frame_sync c1 ESP_OK False = (ESP_ERR_TIMEOUT, c1)
         \<and> (\<forall>ret n. ret \<noteq> ESP_OK \<longrightarrow> send_frame_sync c1 ret n = (ret, c1))"
    using p by blast
next
  assume "is_tx_pending c"
  then show "twai_send_tx_done_cb c w = (w, c\<lparr>is_tx_pending := False, tx_done_sem := True\<rparr>)"
    by (simp add: twai_send_tx_done_cb_def)
next
  assume "\<not> is_tx_pending c"
  then show "twai_send_tx_done_cb c w = (False, c)"
    by (rule late_notification)
next
  fix b ret n
  show "fst (send_frame_sync (c\<lparr>is_tx_pending := b\<rparr>) ret n) = fst (send_frame_sync c ret n)"
    by (rule send_code_ignores_pending)
qed

text \<open>The statement-by-statement runs without a callback, and with one during the wait, are the runs of \<open>send_frame_sync\<close>.\<close>

lemma send_run_sequential:
  "send_run ret [TaskStep, TaskStep, TaskStep, TaskStep, TaskStep] c
     = (AtReturn (fst (send_frame_sync c ret False)), snd (send_frame_sync c ret False))"
  by (simp add: send_run_def send_frame_sync_def Let_def)

lemma send_run_notified:
  "is_initialized c \<Longrightarrow>
   send_run ESP_OK [TaskStep, TaskStep, TaskStep, TxDoneIsr, TaskStep, TaskStep] c
     = (AtReturn (fst (send_frame_sync c ESP_OK True)), snd (send_frame_sync c ESP_OK True))"
  by (simp add: send_run_def send_frame_sync_def twai_send_tx_done_cb_def Let_def)

text \<open>
  A callback between the timed-out wait and the store that clears the flag: whatever the
  controller was before the send, the send returns the timeout code and leaves a token
  in the semaphore; the next send takes it and returns success without any notification.
\<close>

lemma send_run_window:
  assumes "is_initialized c" "\<not> tx_done_sem c"
  shows "send_run ESP_OK [TaskStep, TaskStep, TaskStep, TaskStep, TxDoneIsr, TaskStep] c
           = (AtReturn ESP_ERR_TIMEOUT, c\<lparr>is_tx_pending := False, tx_done_sem := True\<rparr>)"
    and "send_run ESP_OK [TaskStep, TaskStep, TaskStep, TaskStep, TaskStep]
           (c\<lparr>is_tx_pending := False, tx_done_sem := True\<rparr>)
           = (AtReturn ESP_OK, c\<lparr>is_tx_pending := True, tx_done_sem := False\<rparr>)"
  using assms by (simp_all add: send_run_def twai_send_tx_done_cb_def)

text \<open>
  C7. The transmit rendezvous on a timeout, with the transmit-done callback arriving
  after the wait has timed out. The controller is initialized, nothing is pending and
  the semaphore is empty. The driver accepts the frame and no notification arrives
  during the wait: after four steps of the task, \<^verbatim>\<open>xSemaphoreTake\<close> has timed out and the
  pending flag is still set. The callback that runs now finds the flag set, clears it
  and gives the semaphore: it is not a no-op. The send then returns the timeout code
  with the flag clear and a token left in the semaphore. The next send on the same
  controller, in a run where no notification arrives at all, takes that token and
  returns success instead of the timeout code, with the pending flag left set; the
  function \<open>send_frame_sync\<close> gives the same result from that context. Only a callback
  that runs after the clearing store, here after the return, is a no-op.
\<close>

theorem transmit_late_notification_stale_token:
  "send_run ESP_OK [TaskStep, TaskStep, TaskStep, TaskStep]
     \<lparr>is_initialized = True, is_tx_pending = False, tx_done_sem = False\<rparr>
     = (AtTimeoutClear, \<lparr>is_initialized = True, is_tx_pending = True, tx_done_sem = False\<rparr>)
   \<and> send_step ESP_OK (AtTimeoutClear, \<lparr>is_initialized = True, is_tx_pending = True, tx_done_sem = False\<rparr>)
        TxDoneIsr
     = (AtTimeoutClear, \<lparr>is_initialized = True, is_tx_pending = False, tx_done_sem = True\<rparr>)
   \<and> send_run ESP_OK [TaskStep, TaskStep, TaskStep, TaskStep, TxDoneIsr, TaskStep]
     \<lparr>is_initialized = True, is_tx_pending = False, tx_done_sem = False\<rparr>
     = (AtReturn ESP_ERR_TIMEOUT, \<lparr>is_initialized = True, is_tx_pending = False, tx_done_sem = True\<rparr>)
   \<and> send_run ESP_OK [TaskStep, TaskStep, TaskStep, TaskStep, TaskStep]
     \<lparr>is_initialized = True, is_tx_pending = False, tx_done_sem = True\<rparr>
     = (AtReturn ESP_OK, \<lparr>is_initialized = True, is_tx_pending = True, tx_done_sem = False\<rparr>)
   \<and> send_frame_sync \<lparr>is_initialized = True, is_tx_pending = False, tx_done_sem = True\<rparr> ESP_OK False
     = (ESP_OK, \<lparr>is_initialized = True, is_tx_pending = True, tx_done_sem = False\<rparr>)
   \<and> send_run ESP_OK [TaskStep, TaskStep, TaskStep, TaskStep, TaskStep, TxDoneIsr]
     \<lparr>is_initialized = True, is_tx_pending = False, tx_done_sem = False\<rparr>
     = (AtReturn ESP_ERR_TIMEOUT, \<lparr>is_initialized = True, is_tx_pending = False, tx_done_sem = False\<rparr>)"
  by (simp add: send_run_def send_frame_sync_def twai_send_tx_done_cb_def)

section \<open>Timestamps\<close>

lemma dec_of_nat_length: "n < 10 ^ k \<Longrightarrow> 0 < k \<Longrightarrow> length (dec_of_nat n) \<le> k"
proof (induction n arbitrary: k rule: dec_of_nat.induct)
  case (1 n)
  show ?case
  proof (cases "n < 10")
    case True
    with 1(3) show ?thesis by (simp add: dec_of_nat.simps [of n])
  next
    case False
    have "k \<noteq> 1" using False 1(2) by auto
    with 1(3) have "1 < k" by simp
    then obtain j where j: "k = Suc j" "0 < j"
      by (cases k) auto
    with 1(2) have "n div 10 < 10 ^ j" by (simp add: less_mult_imp_div_less mult.commute)
    from 1(1) [OF False this j(2)] False j show ?thesis
      by (simp add: dec_of_nat.simps [of n])
  qed
qed

lemma hex_char_digit: "d < 10 \<Longrightarrow> isdigit (hex_char d) \<and> code (hex_char d) - code (CHR ''0'') = d"
proof -
  assume "d < 10"
  then have "d \<in> {0, 1, 2, 3, 4, 5, 6, 7, 8, 9}" by auto
  then show ?thesis
    by (auto simp: hex_char_def isdigit_def code_def)
qed

lemma dec_value_append: "dec_value (s @ [c]) = dec_value s * 10 + (code c - code (CHR ''0''))"
  by (simp add: dec_value_def)

lemma dec_value_dec_of_nat: "dec_value (dec_of_nat n) = n"
proof (induction n rule: dec_of_nat.induct)
  case (1 n)
  show ?case
  proof (cases "n < 10")
    case True
    then show ?thesis using hex_char_digit [of n]
      by (simp add: dec_of_nat.simps [of n] dec_value_def)
  next
    case False
    have "dec_value (dec_of_nat n) = dec_value (dec_of_nat (n div 10)) * 10 + n mod 10"
      using False hex_char_digit [of "n mod 10"]
      by (simp add: dec_of_nat.simps [of n] dec_value_append)
    with 1 [OF False] show ?thesis by simp
  qed
qed

lemma dec_of_nat_digits: "\<forall>c \<in> set (dec_of_nat n). isdigit c"
proof (induction n rule: dec_of_nat.induct)
  case (1 n)
  show ?case
  proof (cases "n < 10")
    case True
    then show ?thesis using hex_char_digit [of n] by (simp add: dec_of_nat.simps [of n])
  next
    case False
    with 1 [OF False] hex_char_digit [of "n mod 10"] show ?thesis
      by (simp add: dec_of_nat.simps [of n])
  qed
qed

lemma dec_value_zeros: "dec_value (replicate k (CHR ''0'') @ s) = dec_value s"
  by (induction k) (simp_all add: dec_value_def code_def)

lemma dec_value_zero_pad: "dec_value (zero_pad w (dec_of_nat n)) = n"
  by (simp add: zero_pad_def dec_value_zeros dec_value_dec_of_nat)

lemma zero_pad_length: "length s \<le> w \<Longrightarrow> length (zero_pad w s) = w"
  by (simp add: zero_pad_def)

lemma isdigit_0: "isdigit (CHR ''0'')"
  by (simp add: isdigit_def code_def)

lemma zero_pad_digits: "\<forall>c \<in> set (zero_pad w (dec_of_nat n)). isdigit c"
  using dec_of_nat_digits [of n] isdigit_0 by (auto simp: zero_pad_def)

lemma timestamp_text_nonneg:
  assumes "0 \<le> v" "v < 2 ^ 63"
  shows "timestamp_text v 64 =
           ''('' @ dec_of_nat (nat v div 1000000) @ ''.'' @ zero_pad 6 (dec_of_nat (nat v mod 1000000)) @ '') ''"
proof -
  have d: "c_div v 1000000 = int (nat v div 1000000)" "c_mod v 1000000 = int (nat v mod 1000000)"
    using assms(1) by (simp_all add: c_div_def c_mod_def sgn_if zdiv_int nat_div_distrib zmod_int minus_div_mult_eq_mod)
  have "nat v div 1000000 < 10 ^ 13" using assms by (simp add: nat_less_iff less_mult_imp_div_less)
  then have l1: "length (dec_of_nat (nat v div 1000000)) \<le> 13"
    by (rule dec_of_nat_length) simp
  have "length (dec_of_nat (nat v mod 1000000)) \<le> 6"
    by (rule dec_of_nat_length) simp_all
  then have l2: "length (zero_pad 6 (dec_of_nat (nat v mod 1000000))) = 6"
    by (rule zero_pad_length)
  show ?thesis
    using l1 l2 by (simp add: timestamp_text_def d dec_of_int_def dec_of_int_pad_def)
qed

lemma format_timestamp_delta:
  "timestamp_mode ctx = TIMESTAMP_MODE_DELTA \<Longrightarrow>
   format_timestamp ctx t n =
     (ctx\<lparr>last_frame_time_us := t\<rparr>, timestamp_text (t - last_frame_time_us ctx) n)"
  by (simp add: format_timestamp_def)

text \<open>
  C9. Timestamp formatting. In delta mode, with the last-frame time equal to the start
  time, three frames captured at \<open>t1\<close>, \<open>t2\<close>, \<open>t3\<close> in this order get the
  timestamps \<open>t1 - start\<close>, \<open>t2 - t1\<close>, \<open>t3 - t2\<close>, and each call leaves the frame's
  time as the last-frame time of the context. Zero mode gives \<open>t - start\<close>, absolute mode \<open>t\<close>, and
  neither changes the context; none mode gives the empty prefix. A timestamp \<open>v\<close> that
  is not negative is rendered as an opening parenthesis, the seconds in decimal, a dot,
  a microseconds field of exactly 6 decimal digits whose value is \<open>v mod 1000000\<close>, a
  closing parenthesis and a space.
\<close>

theorem timestamp_formatting:
  "(timestamp_mode ctx = TIMESTAMP_MODE_DELTA \<and> last_frame_time_us ctx = start_time_us ctx
      \<and> t1 < t2 \<and> t2 < t3 \<longrightarrow>
      format_timestamp ctx t1 n
        = (ctx\<lparr>last_frame_time_us := t1\<rparr>, timestamp_text (t1 - start_time_us ctx) n)
      \<and> format_timestamp (ctx\<lparr>last_frame_time_us := t1\<rparr>) t2 n
        = (ctx\<lparr>last_frame_time_us := t2\<rparr>, timestamp_text (t2 - t1) n)
      \<and> format_timestamp (ctx\<lparr>last_frame_time_us := t2\<rparr>) t3 n
        = (ctx\<lparr>last_frame_time_us := t3\<rparr>, timestamp_text (t3 - t2) n))
   \<and> (timestamp_mode ctx = TIMESTAMP_MODE_ZERO \<longrightarrow>
        format_timestamp ctx t n = (ctx, timestamp_text (t - start_time_us ctx) n))
   \<and> (timestamp_mode ctx = TIMESTAMP_MODE_ABSOLUTE \<longrightarrow>
        format_timestamp ctx t n = (ctx, timestamp_text t n))
   \<and> (timestamp_mode ctx = TIMESTAMP_MODE_NONE \<longrightarrow> format_timestamp ctx t n = (ctx, []))
   \<and> (0 \<le> v \<and> v < 2 ^ 63 \<longrightarrow>
        (\<exists>us. timestamp_text v 64 = ''('' @ dec_of_nat (nat v div 1000000) @ ''.'' @ us @ '') ''
           \<and> length us = 6 \<and> (\<forall>c \<in> set us. isdigit c)
           \<and> dec_value us = nat v mod 1000000
           \<and> dec_value (dec_of_nat (nat v div 1000000)) = nat v div 1000000))"
proof (intro conjI impI)
  assume h: "timestamp_mode ctx = TIMESTAMP_MODE_DELTA \<and> last_frame_time_us ctx = start_time_us ctx
      \<and> t1 < t2 \<and> t2 < t3"
  then show "format_timestamp ctx t1 n
        = (ctx\<lparr>last_frame_time_us := t1\<rparr>, timestamp_text (t1 - start_time_us ctx) n)"
    by (simp add: format_timestamp_delta)
  from h show "format_timestamp (ctx\<lparr>last_frame_time_us := t1\<rparr>) t2 n
        = (ctx\<lparr>last_frame_time_us := t2\<rparr>, timestamp_text (t2 - t1) n)"
    by (simp add: format_timestamp_delta)
  from h show "format_timestamp (ctx\<lparr>last_frame_time_us := t2\<rparr>) t3 n
        = (ctx\<lparr>last_frame_time_us := t3\<rparr>, timestamp_text (t3 - t2) n)"
    by (simp add: format_timestamp_delta)
next
  assume "timestamp_mode ctx = TIMESTAMP_MODE_ZERO"
  then show "format_timestamp ctx t n = (ctx, timestamp_text (t - start_time_us ctx) n)"
    by (simp add: format_timestamp_def)
next
  assume "timestamp_mode ctx = TIMESTAMP_MODE_ABSOLUTE"
  then show "format_timestamp ctx t n = (ctx, timestamp_text t n)"
    by (simp add: format_timestamp_def)
next
  assume "timestamp_mode ctx = TIMESTAMP_MODE_NONE"
  then show "format_timestamp ctx t n = (ctx, [])"
    by (simp add: format_timestamp_def)
next
  assume "0 \<le> v \<and> v < 2 ^ 63"
  then have "timestamp_text v 64 =
      ''('' @ dec_of_nat (nat v div 1000000) @ ''.'' @ zero_pad 6 (dec_of_nat (nat v mod 1000000)) @ '') ''"
    by (simp add: timestamp_text_nonneg)
  moreover have "length (dec_of_nat (nat v mod 1000000)) \<le> 6"
    by (rule dec_of_nat_length) simp_all
  then have "length (zero_pad 6 (dec_of_nat (nat v mod 1000000))) = 6"
    by (rule zero_pad_length)
  ultimately show "\<exists>us. timestamp_text v 64 = ''('' @ dec_of_nat (nat v div 1000000) @ ''.'' @ us @ '') ''
           \<and> length us = 6 \<and> (\<forall>c \<in> set us. isdigit c)
           \<and> dec_value us = nat v mod 1000000
           \<and> dec_value (dec_of_nat (nat v div 1000000)) = nat v div 1000000"
    using zero_pad_digits [of 6 "nat v mod 1000000"] dec_value_zero_pad [of 6 "nat v mod 1000000"]
      dec_value_dec_of_nat [of "nat v div 1000000"]
    by blast
qed

theorem timestamp_formatting_witness:
  "format_timestamp
     \<lparr>is_running = True, rx_queue = Some 1, dump_task_handle = Some 2,
      timestamp_mode = TIMESTAMP_MODE_DELTA, start_time_us = 1000000, last_frame_time_us = 1000000\<rparr>
     1500000 64
   = (\<lparr>is_running = True, rx_queue = Some 1, dump_task_handle = Some 2,
       timestamp_mode = TIMESTAMP_MODE_DELTA, start_time_us = 1000000, last_frame_time_us = 1500000\<rparr>,
      ''(0.500000) '')
   \<and> format_timestamp
     \<lparr>is_running = True, rx_queue = Some 1, dump_task_handle = Some 2,
      timestamp_mode = TIMESTAMP_MODE_DELTA, start_time_us = 1000000, last_frame_time_us = 1500000\<rparr>
     2750000 64
   = (\<lparr>is_running = True, rx_queue = Some 1, dump_task_handle = Some 2,
       timestamp_mode = TIMESTAMP_MODE_DELTA, start_time_us = 1000000, last_frame_time_us = 2750000\<rparr>,
      ''(1.250000) '')
   \<and> format_timestamp
     \<lparr>is_running = True, rx_queue = Some 1, dump_task_handle = Some 2,
      timestamp_mode = TIMESTAMP_MODE_DELTA, start_time_us = 1000000, last_frame_time_us = 2750000\<rparr>
     2750001 64
   = (\<lparr>is_running = True, rx_queue = Some 1, dump_task_handle = Some 2,
       timestamp_mode = TIMESTAMP_MODE_DELTA, start_time_us = 1000000, last_frame_time_us = 2750001\<rparr>,
      ''(0.000001) '')
   \<and> timestamp_text 2750001 64 = ''(2.750001) ''
   \<and> dec_value ''750001'' = 750001"
proof -
  note t = timestamp_formatting
      [of "\<lparr>is_running = True, rx_queue = Some 1, dump_task_handle = Some 2,
            timestamp_mode = TIMESTAMP_MODE_DELTA, start_time_us = 1000000, last_frame_time_us = 1000000\<rparr>"
          1500000 2750000 2750001 64 0 2750001]
  have e: "timestamp_text 500000 64 = ''(0.500000) ''" "timestamp_text 1250000 64 = ''(1.250000) ''"
    "timestamp_text 1 64 = ''(0.000001) ''" "timestamp_text 2750001 64 = ''(2.750001) ''"
    by (simp_all add: format_defs)
  have d: "dec_value ''750001'' = 750001"
    by (simp add: dec_value_def code_def)
  from t e d show ?thesis
    by simp
qed

section \<open>The filter parser\<close>

lemma strchr_hit: "c \<notin> set pre \<Longrightarrow> strchr (pre @ c # rest) c = Some (length pre)"
  by (induction pre) auto

lemma strchr_none: "c \<notin> set s \<Longrightarrow> strchr s c = None"
  by (induction s) auto

lemma strchr_Some_split:
  "strchr s c = Some k \<Longrightarrow> k < length s \<and> s ! k = c \<and> c \<notin> set (take k s)"
proof (induction s arbitrary: k)
  case Nil
  then show ?case by simp
next
  case (Cons x s)
  show ?case
  proof (cases "x = c")
    case True
    with Cons.prems show ?thesis by simp
  next
    case False
    with Cons.prems obtain j where j: "strchr s c = Some j" "k = Suc j" by auto
    from Cons.IH [OF j(1)] False j(2) show ?thesis by simp
  qed
qed

lemma strchr_Some_decomp:
  assumes "strchr s c = Some k"
  shows "s = take k s @ c # drop (Suc k) s" "c \<notin> set (take k s)"
  using strchr_Some_split [OF assms] id_take_nth_drop [of k s] by auto

lemma parse_hex_segment_prefix: "parse_hex_segment (p @ r) (length p) = parse_hex_segment p (length p)"
  by (simp add: parse_hex_segment_def)

text \<open>A token that contains a colon.\<close>

lemma token_mask:
  assumes "CHR '':'' \<notin> set ida"
  shows "parse_filter_token soc ((ida @ CHR '':'' # msk) @ rest) (length (ida @ CHR '':'' # msk)) out =
     (case (parse_hex_segment ida (length ida), parse_hex_segment msk (length msk)) of
        (Inr a, Inr b) \<Rightarrow>
          if mask_count out \<ge> int (SOC_TWAI_MASK_FILTER_NUM soc) then Some (PARSE_OUT_OF_RANGE, out)
          else (case store_at (masks out) (mask_count out) \<lparr>id_flt = a, mask_flt = b, is_ext_flt = False\<rparr> of
                  None \<Rightarrow> None
                | Some m \<Rightarrow> Some (PARSE_OK, out\<lparr>masks := m, mask_count := mask_count out + 1\<rparr>))
      | _ \<Rightarrow> Some (PARSE_ERROR, out))"
proof -
  have m: "memchr ((ida @ CHR '':'' # msk) @ rest) (CHR '':'') (length (ida @ CHR '':'' # msk)) = Some (length ida)"
    using strchr_hit [OF assms, of msk] by (simp add: memchr_def)
  have a: "parse_hex_segment ((ida @ CHR '':'' # msk) @ rest) (length ida) = parse_hex_segment ida (length ida)"
    using parse_hex_segment_prefix [of ida "CHR '':'' # msk @ rest"] by simp
  have b: "parse_hex_segment (drop (length ida + 1) ((ida @ CHR '':'' # msk) @ rest)) (length msk)
           = parse_hex_segment msk (length msk)"
    using parse_hex_segment_prefix [of msk rest] by simp
  show ?thesis
    unfolding parse_filter_token_def m
    using a b by (simp add: Let_def split: sum.splits)
qed

lemma token_range:
  assumes "CHR '':'' \<notin> set (lo @ CHR ''-'' # hi)" "CHR ''-'' \<notin> set lo" "SOC_TWAI_SUPPORT_FD soc"
  shows "parse_filter_token soc ((lo @ CHR ''-'' # hi) @ rest) (length (lo @ CHR ''-'' # hi)) out =
     (case (parse_hex_segment lo (length lo), parse_hex_segment hi (length hi)) of
        (Inr a, Inr b) \<Rightarrow>
          if a > b then Some (PARSE_ERROR, out)
          else if range_count out \<ge> int (SOC_TWAI_RANGE_FILTER_NUM soc) then Some (PARSE_OUT_OF_RANGE, out)
          else (case store_at (ranges out) (range_count out)
                       \<lparr>range_low = a, range_high = b, is_ext_range = False\<rparr> of
                  None \<Rightarrow> None
                | Some r \<Rightarrow> Some (PARSE_OK, out\<lparr>ranges := r, range_count := range_count out + 1\<rparr>))
      | _ \<Rightarrow> Some (PARSE_ERROR, out))"
proof -
  have n: "memchr ((lo @ CHR ''-'' # hi) @ rest) (CHR '':'') (length (lo @ CHR ''-'' # hi)) = None"
    using strchr_none [OF assms(1)] by (simp add: memchr_def)
  have m: "memchr ((lo @ CHR ''-'' # hi) @ rest) (CHR ''-'') (length (lo @ CHR ''-'' # hi)) = Some (length lo)"
    using strchr_hit [OF assms(2), of hi] by (simp add: memchr_def)
  have a: "parse_hex_segment ((lo @ CHR ''-'' # hi) @ rest) (length lo) = parse_hex_segment lo (length lo)"
    using parse_hex_segment_prefix [of lo "CHR ''-'' # hi @ rest"] by simp
  have b: "parse_hex_segment (drop (length lo + 1) ((lo @ CHR ''-'' # hi) @ rest)) (length hi)
           = parse_hex_segment hi (length hi)"
    using parse_hex_segment_prefix [of hi rest] by simp
  show ?thesis
    unfolding parse_filter_token_def n m
    using a b assms(3) by (simp add: Let_def split: sum.splits)
qed

lemma token_other:
  assumes "CHR '':'' \<notin> set tok" "CHR ''-'' \<notin> set tok \<or> \<not> SOC_TWAI_SUPPORT_FD soc"
  shows "parse_filter_token soc (tok @ rest) (length tok) out = Some (PARSE_ERROR, out)"
proof -
  have n: "memchr (tok @ rest) (CHR '':'') (length tok) = None"
    using strchr_none [OF assms(1)] by (simp add: memchr_def)
  show ?thesis
    unfolding parse_filter_token_def n
    using assms(2) strchr_none [of "CHR ''-''" tok] by (auto simp: memchr_def)
qed

lemma token_error_keeps:
  "parse_filter_token soc tok n out = Some (ret, out1) \<Longrightarrow> ret \<noteq> PARSE_OK \<Longrightarrow> out1 = out"
  by (auto simp: parse_filter_token_def Let_def split: option.splits sum.splits if_splits)

lemma strchr_None_iff: "strchr s c = None \<longleftrightarrow> c \<notin> set s"
  by (induction s) auto

lemma token_prefix:
  "parse_filter_token soc (tok @ rest) (length tok) out = parse_filter_token soc tok (length tok) out"
proof (cases "CHR '':'' \<in> set tok")
  case True
  then obtain k where k: "strchr tok (CHR '':'') = Some k"
    using strchr_None_iff [of tok "CHR '':''"] by (cases "strchr tok (CHR '':'')") auto
  define ida msk where "ida = take k tok" and "msk = drop (Suc k) tok"
  have t: "tok = ida @ CHR '':'' # msk" and n: "CHR '':'' \<notin> set ida"
    using strchr_Some_decomp [OF k] by (simp_all add: ida_def msk_def)
  show ?thesis
    using token_mask [OF n, of soc msk rest out] token_mask [OF n, of soc msk "[]" out]
    by (simp add: t)
next
  case False
  note nc = this
  show ?thesis
  proof (cases "CHR ''-'' \<in> set tok \<and> SOC_TWAI_SUPPORT_FD soc")
    case True
    then obtain k where k: "strchr tok (CHR ''-'') = Some k"
      using strchr_None_iff [of tok "CHR ''-''"] by (cases "strchr tok (CHR ''-'')") auto
    define lo hi where "lo = take k tok" and "hi = drop (Suc k) tok"
    have t: "tok = lo @ CHR ''-'' # hi" and n: "CHR ''-'' \<notin> set lo"
      using strchr_Some_decomp [OF k] by (simp_all add: lo_def hi_def)
    have c: "CHR '':'' \<notin> set (lo @ CHR ''-'' # hi)"
      using nc t by simp
    show ?thesis
      using token_range [OF c n, of soc rest out] token_range [OF c n, of soc "[]" out] True
      by (simp add: t)
  next
    case False
    then show ?thesis
      using token_other [OF nc, of soc rest out] token_other [OF nc, of soc "[]" out]
      by auto
  qed
qed

lemma loop_comma: "filters_loop soc (CHR '','' # s) out = filters_loop soc s out"
  by (simp add: filters_loop.simps [of soc "CHR '','' # s"])

lemma loop_token_comma:
  assumes "CHR '','' \<notin> set tok" "tok \<noteq> []"
  shows "filters_loop soc (tok @ CHR '','' # rest) out =
     (case parse_filter_token soc tok (length tok) out of
        None \<Rightarrow> None
      | Some (ret, out1) \<Rightarrow> if ret \<noteq> PARSE_OK then Some (ret, out1) else filters_loop soc rest out1)"
proof -
  have c: "strchr (tok @ CHR '','' # rest) (CHR '','') = Some (length tok)"
    by (rule strchr_hit [OF assms(1)])
  have p: "parse_filter_token soc (tok @ CHR '','' # rest) (length tok) out
           = parse_filter_token soc tok (length tok) out"
    by (rule token_prefix)
  show ?thesis
    using assms(2)
    by (subst filters_loop.simps) (simp add: c p Let_def split: option.splits)
qed

lemma loop_token_last:
  assumes "CHR '','' \<notin> set tok" "tok \<noteq> []"
  shows "filters_loop soc tok out =
     (case parse_filter_token soc tok (length tok) out of
        None \<Rightarrow> None
      | Some (ret, out1) \<Rightarrow> if ret \<noteq> PARSE_OK then Some (ret, out1) else Some (PARSE_OK, out1))"
  using assms
  by (subst filters_loop.simps) (simp add: strchr_none Let_def split: option.splits)

lemma string_token_cases:
  obtains (empty) "s = []"
  | (comma) s1 where "s = CHR '','' # s1"
  | (last) "s \<noteq> []" "CHR '','' \<notin> set s"
  | (token) tok rest where "s = tok @ CHR '','' # rest" "tok \<noteq> []" "CHR '','' \<notin> set tok"
proof (cases s)
  case Nil
  then show ?thesis by (rule empty)
next
  case (Cons x xs)
  show ?thesis
  proof (cases "x = CHR '',''")
    case True
    with Cons show ?thesis by (auto intro: comma)
  next
    case False
    show ?thesis
    proof (cases "CHR '','' \<in> set s")
      case True
      then obtain tok rest where t: "s = tok @ CHR '','' # rest" "CHR '','' \<notin> set tok"
        by (auto dest: split_list_first)
      with Cons False have "tok \<noteq> []" by (cases tok) auto
      with t show ?thesis by (auto intro: token)
    next
      case False
      with Cons show ?thesis by (auto intro: last)
    qed
  qed
qed

lemma token_inv:
  assumes "filter_out_ok soc out"
  shows "\<exists>ret out1. parse_filter_token soc tok n out = Some (ret, out1)
           \<and> filter_out_ok soc out1
           \<and> mask_count out \<le> mask_count out1 \<and> range_count out \<le> range_count out1
           \<and> untouched_from (masks out) (masks out1) (mask_count out1)
           \<and> untouched_from (ranges out) (ranges out1) (range_count out1)"
  using assms
  by (auto simp: parse_filter_token_def filter_out_ok_def untouched_from_def store_at_def Let_def
                 nat_add_distrib
           split: option.splits sum.splits)

lemma untouched_trans:
  assumes "untouched_from a b c1" "untouched_from b d c2" "c1 \<le> c2"
  shows "untouched_from a d c2"
proof -
  from assms(3) have n: "nat c1 \<le> nat c2" by simp
  from assms(1) have "drop (nat c2 - nat c1) (drop (nat c1) b) = drop (nat c2 - nat c1) (drop (nat c1) a)"
    by (simp add: untouched_from_def)
  with n have "drop (nat c2) b = drop (nat c2) a" by simp
  with assms(1,2) show ?thesis by (simp add: untouched_from_def)
qed

lemma untouched_refl: "untouched_from a a c"
  by (simp add: untouched_from_def)

lemma loop_inv:
  assumes "filter_out_ok soc out"
  shows "\<exists>ret out1. filters_loop soc s out = Some (ret, out1)
           \<and> filter_out_ok soc out1
           \<and> mask_count out \<le> mask_count out1 \<and> range_count out \<le> range_count out1
           \<and> untouched_from (masks out) (masks out1) (mask_count out1)
           \<and> untouched_from (ranges out) (ranges out1) (range_count out1)"
  using assms
proof (induction "length s" arbitrary: s out rule: less_induct)
  case less
  show ?case
  proof (cases s rule: string_token_cases)
    case empty
    with less.prems show ?thesis
      by (simp add: filters_loop.simps [of soc "[]"] untouched_refl)
  next
    case (comma s1)
    with less.hyps [of s1 out] less.prems show ?thesis
      by (simp add: loop_comma)
  next
    case last
    from token_inv [OF less.prems, of s "length s"] obtain ret out1 where
      t: "parse_filter_token soc s (length s) out = Some (ret, out1)" "filter_out_ok soc out1"
         "mask_count out \<le> mask_count out1" "range_count out \<le> range_count out1"
         "untouched_from (masks out) (masks out1) (mask_count out1)"
         "untouched_from (ranges out) (ranges out1) (range_count out1)"
      by blast
    then show ?thesis
      using loop_token_last [OF last(2,1), of soc out] by auto
  next
    case (token tok rest)
    from token_inv [OF less.prems, of tok "length tok"] obtain ret out1 where
      t: "parse_filter_token soc tok (length tok) out = Some (ret, out1)" "filter_out_ok soc out1"
         "mask_count out \<le> mask_count out1" "range_count out \<le> range_count out1"
         "untouched_from (masks out) (masks out1) (mask_count out1)"
         "untouched_from (ranges out) (ranges out1) (range_count out1)"
      by blast
    show ?thesis
    proof (cases "ret = PARSE_OK")
      case False
      with t show ?thesis
        using loop_token_comma [OF token(3,2), of soc rest out] token(1) by auto
    next
      case True
      have "length rest < length s" using token(1) by simp
      from less.hyps [OF this t(2)] obtain ret2 out2 where
        r: "filters_loop soc rest out1 = Some (ret2, out2)" "filter_out_ok soc out2"
           "mask_count out1 \<le> mask_count out2" "range_count out1 \<le> range_count out2"
           "untouched_from (masks out1) (masks out2) (mask_count out2)"
           "untouched_from (ranges out1) (ranges out2) (range_count out2)"
        by blast
      have "filters_loop soc s out = Some (ret2, out2)"
        using loop_token_comma [OF token(3,2), of soc rest out] token(1) t(1) True r(1) by simp
      moreover have "untouched_from (masks out) (masks out2) (mask_count out2)"
        by (rule untouched_trans [OF t(5) r(5) r(3)])
      moreover have "untouched_from (ranges out) (ranges out2) (range_count out2)"
        by (rule untouched_trans [OF t(6) r(6) r(4)])
      ultimately show ?thesis
        using r t by auto
    qed
  qed
qed

lemma loop_error_prefix:
  assumes "filters_loop soc s out = Some (ret, out1)" "ret \<noteq> PARSE_OK"
  shows "\<exists>pre rest. s = pre @ rest \<and> rest \<noteq> [] \<and> filters_loop soc pre out = Some (PARSE_OK, out1)"
  using assms
proof (induction "length s" arbitrary: s out rule: less_induct)
  case less
  show ?case
  proof (cases s rule: string_token_cases)
    case empty
    with less.prems show ?thesis
      by (simp add: filters_loop.simps [of soc "[]"])
  next
    case (comma s1)
    with less.prems have "filters_loop soc s1 out = Some (ret, out1)"
      by (simp add: loop_comma)
    from less.hyps [of s1 out, OF _ this less.prems(2)] comma obtain pre rest where
      p: "s1 = pre @ rest" "rest \<noteq> []" "filters_loop soc pre out = Some (PARSE_OK, out1)"
      by auto
    then have "s = (CHR '','' # pre) @ rest \<and> rest \<noteq> []
               \<and> filters_loop soc (CHR '','' # pre) out = Some (PARSE_OK, out1)"
      using comma by (simp add: loop_comma)
    then show ?thesis by blast
  next
    case last
    with less.prems have "parse_filter_token soc s (length s) out = Some (ret, out1)"
      using loop_token_last [OF last(2,1), of soc out]
      by (auto split: option.splits if_splits)
    from token_error_keeps [OF this less.prems(2)]
    have "s = [] @ s \<and> s \<noteq> [] \<and> filters_loop soc [] out = Some (PARSE_OK, out1)"
      using last(1) by (simp add: filters_loop.simps [of soc "[]"])
    then show ?thesis by blast
  next
    case (token tok rest)
    note eq = loop_token_comma [OF token(3,2), of soc rest out]
    from less.prems(1) token(1) eq obtain r1 o1 where
      t: "parse_filter_token soc tok (length tok) out = Some (r1, o1)"
      by (cases "parse_filter_token soc tok (length tok) out") auto
    show ?thesis
    proof (cases "r1 = PARSE_OK")
      case False
      with less.prems(1) token(1) eq t have "ret = r1" "out1 = o1" by auto
      with token_error_keeps [OF t False]
      have "s = [] @ s \<and> s \<noteq> [] \<and> filters_loop soc [] out = Some (PARSE_OK, out1)"
        using token(1) by (simp add: filters_loop.simps [of soc "[]"])
      then show ?thesis by blast
    next
      case True
      with less.prems(1) token(1) eq t have "filters_loop soc rest o1 = Some (ret, out1)" by simp
      from less.hyps [of rest o1, OF _ this less.prems(2)] token(1) obtain pre rest2 where
        p: "rest = pre @ rest2" "rest2 \<noteq> []" "filters_loop soc pre o1 = Some (PARSE_OK, out1)"
        by auto
      have "filters_loop soc (tok @ CHR '','' # pre) out = Some (PARSE_OK, out1)"
        using loop_token_comma [OF token(3,2), of soc pre out] t True p(3) by simp
      with p token(1) have "s = (tok @ CHR '','' # pre) @ rest2 \<and> rest2 \<noteq> []
          \<and> filters_loop soc (tok @ CHR '','' # pre) out = Some (PARSE_OK, out1)"
        by simp
      then show ?thesis by blast
    qed
  qed
qed

lemma hex_123:
  "parse_hex_segment ''123'' (length ''123'') = Inr 0x123"
  "parse_hex_segment ''7FF'' (length ''7FF'') = Inr 0x7FF"
  "parse_hex_segment ''010'' (length ''010'') = Inr 0x10"
  "parse_hex_segment ''020'' (length ''020'') = Inr 0x20"
  "parse_hex_segment ''zz'' (length ''zz'') = Inl PARSE_ERROR"
  by (simp_all add: parse_hex_segment_def parse_nibble_def code_def TWAI_EXT_ID_CHAR_LEN_def)

lemma parse_filters_example:
  assumes "0 < SOC_TWAI_MASK_FILTER_NUM soc" "0 < SOC_TWAI_RANGE_FILTER_NUM soc"
    "SOC_TWAI_SUPPORT_FD soc" "masks out \<noteq> []" "ranges out \<noteq> []"
  shows "parse_filters soc ''123:7FF,010-020'' out =
     Some (PARSE_OK,
       out\<lparr>masks := (masks out)[0 := \<lparr>id_flt = 0x123, mask_flt = 0x7FF, is_ext_flt = False\<rparr>],
           mask_count := 1,
           ranges := (ranges out)[0 := \<lparr>range_low = 0x10, range_high = 0x20, is_ext_range = False\<rparr>],
           range_count := 1\<rparr>)"
proof -
  define out0 where "out0 = out\<lparr>mask_count := 0, range_count := 0\<rparr>"
  define out1 where "out1 = out0\<lparr>masks := (masks out)[0 := \<lparr>id_flt = 0x123, mask_flt = 0x7FF, is_ext_flt = False\<rparr>],
                                 mask_count := 1\<rparr>"
  have t1: "parse_filter_token soc ''123:7FF'' (length ''123:7FF'') out0 = Some (PARSE_OK, out1)"
    using token_mask [of "''123''" soc "''7FF''" "[]" out0] assms hex_123
    by (simp add: out0_def out1_def store_at_def)
  have t2: "parse_filter_token soc ''010-020'' (length ''010-020'') out1 =
      Some (PARSE_OK, out1\<lparr>ranges := (ranges out)[0 := \<lparr>range_low = 0x10, range_high = 0x20, is_ext_range = False\<rparr>],
                           range_count := 1\<rparr>)"
    using token_range [of "''010''" "''020''" soc "[]" out1] assms hex_123
    by (simp add: out0_def out1_def store_at_def)
  have l2: "filters_loop soc ''010-020'' out1 =
      Some (PARSE_OK, out1\<lparr>ranges := (ranges out)[0 := \<lparr>range_low = 0x10, range_high = 0x20, is_ext_range = False\<rparr>],
                           range_count := 1\<rparr>)"
    using loop_token_last [of "''010-020''" soc out1] t2 by simp
  have l1: "filters_loop soc ''123:7FF,010-020'' out0 =
      Some (PARSE_OK, out1\<lparr>ranges := (ranges out)[0 := \<lparr>range_low = 0x10, range_high = 0x20, is_ext_range = False\<rparr>],
                           range_count := 1\<rparr>)"
    using loop_token_comma [of "''123:7FF''" soc "''010-020''" out0] t1 l2 by simp
  show ?thesis
    using l1 assms(3) by (simp add: parse_filters_def MAX_INPUT_LEN_def out0_def out1_def)
qed

lemma parse_filters_empty:
  "parse_filters soc [] out =
     Some (PARSE_OK, if SOC_TWAI_SUPPORT_FD soc then out\<lparr>mask_count := 0, range_count := 0\<rparr>
                     else out\<lparr>mask_count := 0\<rparr>)"
  by (simp add: parse_filters_def MAX_INPUT_LEN_def)

lemma parse_filters_bounded:
  assumes "SOC_TWAI_MASK_FILTER_NUM soc \<le> length (masks out)"
    "SOC_TWAI_RANGE_FILTER_NUM soc \<le> length (ranges out)"
    "length s < MAX_INPUT_LEN"
    "SOC_TWAI_SUPPORT_FD soc \<or> (0 \<le> range_count out \<and> range_count out \<le> int (SOC_TWAI_RANGE_FILTER_NUM soc))"
  shows "\<exists>ret out1. parse_filters soc s out = Some (ret, out1)
           \<and> filter_out_ok soc out1
           \<and> untouched_from (masks out) (masks out1) (mask_count out1)
           \<and> untouched_from (ranges out) (ranges out1) (range_count out1)"
proof -
  define out0 where "out0 = (if SOC_TWAI_SUPPORT_FD soc then out\<lparr>mask_count := 0, range_count := 0\<rparr>
                     else out\<lparr>mask_count := 0\<rparr>)"
  have ok: "filter_out_ok soc out0" and m: "masks out0 = masks out" "ranges out0 = ranges out"
    using assms by (auto simp: out0_def filter_out_ok_def)
  show ?thesis
  proof (cases "s = []")
    case True
    with ok m show ?thesis
      by (auto simp: parse_filters_empty out0_def untouched_refl)
  next
    case False
    then have "parse_filters soc s out = filters_loop soc s out0"
      using assms(3) by (simp add: parse_filters_def out0_def Let_def)
    with loop_inv [OF ok, of s] m show ?thesis by auto
  qed
qed

lemma parse_filters_too_long:
  "MAX_INPUT_LEN \<le> length s \<Longrightarrow> parse_filters soc s out = Some (PARSE_ERROR, out)"
  by (simp add: parse_filters_def)

lemma parse_filters_bounded_all:
  assumes "filter_out_ok soc out"
  shows "\<exists>ret out1. parse_filters soc s out = Some (ret, out1)
           \<and> filter_out_ok soc out1
           \<and> untouched_from (masks out) (masks out1) (mask_count out1)
           \<and> untouched_from (ranges out) (ranges out1) (range_count out1)"
proof (cases "length s < MAX_INPUT_LEN")
  case True
  with assms show ?thesis
    by (intro parse_filters_bounded) (auto simp: filter_out_ok_def)
next
  case False
  with assms show ?thesis
    by (simp add: parse_filters_too_long untouched_refl)
qed

lemma parse_filters_error_prefix:
  assumes "parse_filters soc s out = Some (ret, out1)" "ret \<noteq> PARSE_OK"
  shows "(MAX_INPUT_LEN \<le> length s \<and> ret = PARSE_ERROR \<and> out1 = out)
         \<or> (\<exists>pre rest. s = pre @ rest \<and> rest \<noteq> [] \<and> parse_filters soc pre out = Some (PARSE_OK, out1))"
proof (cases "length s < MAX_INPUT_LEN")
  case False
  with assms show ?thesis by (simp add: parse_filters_too_long)
next
  case True
  define out0 where "out0 = (if SOC_TWAI_SUPPORT_FD soc then out\<lparr>mask_count := 0, range_count := 0\<rparr>
                     else out\<lparr>mask_count := 0\<rparr>)"
  from assms have ne: "s \<noteq> []" by (auto simp: parse_filters_empty)
  with True assms(1) have "filters_loop soc s out0 = Some (ret, out1)"
    by (auto simp: parse_filters_def out0_def Let_def split: if_splits)
  from loop_error_prefix [OF this assms(2)] obtain pre rest where
    p: "s = pre @ rest" "rest \<noteq> []" "filters_loop soc pre out0 = Some (PARSE_OK, out1)"
    by blast
  have "length pre < MAX_INPUT_LEN" using p(1) True by simp
  then have "parse_filters soc pre out = Some (PARSE_OK, out1)"
    using p(3)
    by (cases "pre = []") (auto simp: parse_filters_def out0_def Let_def filters_loop.simps [of soc "[]"])
  with p show ?thesis by blast
qed

lemmas filter_eval = parse_filters_def filters_loop.simps parse_filter_token_def memchr_def
  parse_hex_segment_def store_at_def parse_nibble_def code_def Let_def
  MAX_INPUT_LEN_def TWAI_EXT_ID_CHAR_LEN_def replicate_numeral untouched_from_def filter_out_ok_def

text \<open>
  C10. The filter outputs stay within the hardware capacity. \<open>parse_filter_token\<close>
  compares the counter with the capacity before each store, so with well-formed output
  parameters (counters between 0 and the capacity, arrays of at least the capacity) it
  never stores outside an array and leaves the parameters well formed. For every input
  text \<open>parse_filters\<close> then returns, with success or with an error, counters between 0
  and the capacities, arrays of unchanged length, and every array entry at or after the
  returned counter as the caller passed it: at most a capacity's worth of entries is
  written. For a text shorter than \<open>MAX_INPUT_LEN\<close> the counters are reset first, so in
  a build with range filters this needs the arrays' sizes only.
\<close>

theorem filter_outputs_bounded:
  "(filter_out_ok soc out \<longrightarrow>
      (\<exists>ret out1. parse_filters soc s out = Some (ret, out1)
         \<and> 0 \<le> mask_count out1 \<and> mask_count out1 \<le> int (SOC_TWAI_MASK_FILTER_NUM soc)
         \<and> 0 \<le> range_count out1 \<and> range_count out1 \<le> int (SOC_TWAI_RANGE_FILTER_NUM soc)
         \<and> untouched_from (masks out) (masks out1) (mask_count out1)
         \<and> untouched_from (ranges out) (ranges out1) (range_count out1)))
   \<and> (SOC_TWAI_MASK_FILTER_NUM soc \<le> length (masks out)
      \<and> SOC_TWAI_RANGE_FILTER_NUM soc \<le> length (ranges out)
      \<and> SOC_TWAI_SUPPORT_FD soc \<and> length s < MAX_INPUT_LEN \<longrightarrow>
      (\<exists>ret out1. parse_filters soc s out = Some (ret, out1)
         \<and> 0 \<le> mask_count out1 \<and> mask_count out1 \<le> int (SOC_TWAI_MASK_FILTER_NUM soc)
         \<and> 0 \<le> range_count out1 \<and> range_count out1 \<le> int (SOC_TWAI_RANGE_FILTER_NUM soc)
         \<and> untouched_from (masks out) (masks out1) (mask_count out1)
         \<and> untouched_from (ranges out) (ranges out1) (range_count out1)))
   \<and> (filter_out_ok soc out \<longrightarrow>
      (\<exists>ret out1. parse_filter_token soc tok n out = Some (ret, out1) \<and> filter_out_ok soc out1
         \<and> untouched_from (masks out) (masks out1) (mask_count out1)
         \<and> untouched_from (ranges out) (ranges out1) (range_count out1)))"
proof (intro conjI impI)
  assume "filter_out_ok soc out"
  from parse_filters_bounded_all [OF this, of s]
  show "(\<exists>ret out1. parse_filters soc s out = Some (ret, out1)
           \<and> 0 \<le> mask_count out1 \<and> mask_count out1 \<le> int (SOC_TWAI_MASK_FILTER_NUM soc)
           \<and> 0 \<le> range_count out1 \<and> range_count out1 \<le> int (SOC_TWAI_RANGE_FILTER_NUM soc)
           \<and> untouched_from (masks out) (masks out1) (mask_count out1)
           \<and> untouched_from (ranges out) (ranges out1) (range_count out1))"
    by (auto simp: filter_out_ok_def)
next
  assume "SOC_TWAI_MASK_FILTER_NUM soc \<le> length (masks out)
      \<and> SOC_TWAI_RANGE_FILTER_NUM soc \<le> length (ranges out)
      \<and> SOC_TWAI_SUPPORT_FD soc \<and> length s < MAX_INPUT_LEN"
  then have "\<exists>ret out1. parse_filters soc s out = Some (ret, out1)
           \<and> filter_out_ok soc out1
           \<and> untouched_from (masks out) (masks out1) (mask_count out1)
           \<and> untouched_from (ranges out) (ranges out1) (range_count out1)"
    by (intro parse_filters_bounded) auto
  then show "(\<exists>ret out1. parse_filters soc s out = Some (ret, out1)
           \<and> 0 \<le> mask_count out1 \<and> mask_count out1 \<le> int (SOC_TWAI_MASK_FILTER_NUM soc)
           \<and> 0 \<le> range_count out1 \<and> range_count out1 \<le> int (SOC_TWAI_RANGE_FILTER_NUM soc)
           \<and> untouched_from (masks out) (masks out1) (mask_count out1)
           \<and> untouched_from (ranges out) (ranges out1) (range_count out1))"
    by (auto simp: filter_out_ok_def)
next
  assume "filter_out_ok soc out"
  from token_inv [OF this, of tok n]
  show "\<exists>ret out1. parse_filter_token soc tok n out = Some (ret, out1) \<and> filter_out_ok soc out1
         \<and> untouched_from (masks out) (masks out1) (mask_count out1)
         \<and> untouched_from (ranges out) (ranges out1) (range_count out1)"
    by blast
qed

theorem filter_outputs_bounded_witness:
  "filter_out_ok \<lparr>SOC_TWAI_MASK_FILTER_NUM = 3, SOC_TWAI_RANGE_FILTER_NUM = 1, SOC_TWAI_SUPPORT_FD = True\<rparr>
     \<lparr>masks = [\<lparr>id_flt = 0, mask_flt = 0, is_ext_flt = False\<rparr>, \<lparr>id_flt = 0, mask_flt = 0, is_ext_flt = False\<rparr>, \<lparr>id_flt = 0, mask_flt = 0, is_ext_flt = False\<rparr>], mask_count = 0,
      ranges = [\<lparr>range_low = 0, range_high = 0, is_ext_range = False\<rparr>], range_count = 0\<rparr>
   \<and> parse_filters \<lparr>SOC_TWAI_MASK_FILTER_NUM = 3, SOC_TWAI_RANGE_FILTER_NUM = 1, SOC_TWAI_SUPPORT_FD = True\<rparr>
     ''1:2,3:4,5:6,7:8''
     \<lparr>masks = [\<lparr>id_flt = 0, mask_flt = 0, is_ext_flt = False\<rparr>, \<lparr>id_flt = 0, mask_flt = 0, is_ext_flt = False\<rparr>, \<lparr>id_flt = 0, mask_flt = 0, is_ext_flt = False\<rparr>], mask_count = 0,
      ranges = [\<lparr>range_low = 0, range_high = 0, is_ext_range = False\<rparr>], range_count = 0\<rparr>
   = Some (PARSE_OUT_OF_RANGE,
     \<lparr>masks = [\<lparr>id_flt = 1, mask_flt = 2, is_ext_flt = False\<rparr>, \<lparr>id_flt = 3, mask_flt = 4, is_ext_flt = False\<rparr>, \<lparr>id_flt = 5, mask_flt = 6, is_ext_flt = False\<rparr>], mask_count = 3,
      ranges = [\<lparr>range_low = 0, range_high = 0, is_ext_range = False\<rparr>], range_count = 0\<rparr>)
   \<and> parse_filters \<lparr>SOC_TWAI_MASK_FILTER_NUM = 3, SOC_TWAI_RANGE_FILTER_NUM = 1, SOC_TWAI_SUPPORT_FD = True\<rparr>
     ''1-2,3-4''
     \<lparr>masks = [\<lparr>id_flt = 0, mask_flt = 0, is_ext_flt = False\<rparr>, \<lparr>id_flt = 0, mask_flt = 0, is_ext_flt = False\<rparr>, \<lparr>id_flt = 0, mask_flt = 0, is_ext_flt = False\<rparr>], mask_count = 0,
      ranges = [\<lparr>range_low = 0, range_high = 0, is_ext_range = False\<rparr>], range_count = 0\<rparr>
   = Some (PARSE_OUT_OF_RANGE,
     \<lparr>masks = [\<lparr>id_flt = 0, mask_flt = 0, is_ext_flt = False\<rparr>, \<lparr>id_flt = 0, mask_flt = 0, is_ext_flt = False\<rparr>, \<lparr>id_flt = 0, mask_flt = 0, is_ext_flt = False\<rparr>], mask_count = 0,
      ranges = [\<lparr>range_low = 1, range_high = 2, is_ext_range = False\<rparr>], range_count = 1\<rparr>)"
  using filter_outputs_bounded
          [of "\<lparr>SOC_TWAI_MASK_FILTER_NUM = 3, SOC_TWAI_RANGE_FILTER_NUM = 1, SOC_TWAI_SUPPORT_FD = True\<rparr>"
              "\<lparr>masks = [\<lparr>id_flt = 0, mask_flt = 0, is_ext_flt = False\<rparr>, \<lparr>id_flt = 0, mask_flt = 0, is_ext_flt = False\<rparr>, \<lparr>id_flt = 0, mask_flt = 0, is_ext_flt = False\<rparr>], mask_count = 0,
      ranges = [\<lparr>range_low = 0, range_high = 0, is_ext_range = False\<rparr>], range_count = 0\<rparr>"
              "''1:2,3:4,5:6,7:8''" "''7:8''" 3]
  by (simp add: filter_eval)

lemma comma_pieces_last: "CHR '','' \<notin> set tok \<Longrightarrow> comma_pieces tok = [tok]"
  by (induction tok) auto

lemma comma_pieces_token:
  "CHR '','' \<notin> set tok \<Longrightarrow> comma_pieces (tok @ CHR '','' # rest) = tok # comma_pieces rest"
  by (induction tok) auto

lemma filter_tokens_simps:
  "filter_tokens [] = []"
  "filter_tokens (CHR '','' # s) = filter_tokens s"
  "CHR '','' \<notin> set tok \<Longrightarrow> tok \<noteq> [] \<Longrightarrow> filter_tokens tok = [tok]"
  "CHR '','' \<notin> set tok \<Longrightarrow> tok \<noteq> [] \<Longrightarrow> filter_tokens (tok @ CHR '','' # rest) = tok # filter_tokens rest"
  by (simp_all add: filter_tokens_def comma_pieces_last comma_pieces_token)

text \<open>A token that is accepted adds exactly one filter.\<close>

lemma token_ok_counts:
  assumes "parse_filter_token soc tok n out = Some (PARSE_OK, out1)"
  shows "mask_count out1 + range_count out1 = mask_count out + range_count out + 1"
    and "\<not> SOC_TWAI_SUPPORT_FD soc \<Longrightarrow> range_count out1 = range_count out"
  using assms
  by (auto simp: parse_filter_token_def Let_def split: option.splits sum.splits if_splits)

lemma loop_ok_counts:
  assumes "filters_loop soc s out = Some (PARSE_OK, out1)"
  shows "mask_count out1 + range_count out1
           = mask_count out + range_count out + int (length (filter_tokens s))
         \<and> (\<not> SOC_TWAI_SUPPORT_FD soc \<longrightarrow> range_count out1 = range_count out)"
  using assms
proof (induction "length s" arbitrary: s out rule: less_induct)
  case less
  show ?case
  proof (cases s rule: string_token_cases)
    case empty
    with less.prems show ?thesis
      by (simp add: filters_loop.simps [of soc "[]"] filter_tokens_simps)
  next
    case (comma s1)
    with less.hyps [of s1 out] less.prems show ?thesis
      by (simp add: loop_comma filter_tokens_simps)
  next
    case last
    with less.prems have t: "parse_filter_token soc s (length s) out = Some (PARSE_OK, out1)"
      using loop_token_last [OF last(2,1), of soc out]
      by (auto split: option.splits if_splits)
    from token_ok_counts [OF t] last show ?thesis
      by (simp add: filter_tokens_simps)
  next
    case (token tok rest)
    note eq = loop_token_comma [OF token(3,2), of soc rest out]
    from less.prems token(1) eq obtain o1 where
      t: "parse_filter_token soc tok (length tok) out = Some (PARSE_OK, o1)"
      and r: "filters_loop soc rest o1 = Some (PARSE_OK, out1)"
      by (auto split: option.splits if_splits)
    have "length rest < length s" using token(1) by simp
    from less.hyps [OF this r] token_ok_counts [OF t] token show ?thesis
      by (simp add: filter_tokens_simps)
  qed
qed

text \<open>
  The loop on an error: the text splits at the failing token. What lies before the token
  ends at a comma or is empty and parses with success to the very outputs the failing
  call leaves; the token holds no comma and is the one the token parser rejects there.
\<close>

lemma loop_error_token:
  assumes "filters_loop soc s out = Some (ret, out1)" "ret \<noteq> PARSE_OK"
  shows "\<exists>pre tok rest. s = pre @ tok @ rest
           \<and> (pre = [] \<or> last pre = CHR '','')
           \<and> tok \<noteq> [] \<and> CHR '','' \<notin> set tok
           \<and> (rest = [] \<or> hd rest = CHR '','')
           \<and> filters_loop soc pre out = Some (PARSE_OK, out1)
           \<and> parse_filter_token soc tok (length tok) out1 = Some (ret, out1)"
  using assms
proof (induction "length s" arbitrary: s out rule: less_induct)
  case less
  show ?case
  proof (cases s rule: string_token_cases)
    case empty
    with less.prems show ?thesis
      by (simp add: filters_loop.simps [of soc "[]"])
  next
    case (comma s1)
    with less.prems have "filters_loop soc s1 out = Some (ret, out1)"
      by (simp add: loop_comma)
    from less.hyps [of s1 out, OF _ this less.prems(2)] comma obtain pre tok rest where
      p: "s1 = pre @ tok @ rest" "pre = [] \<or> last pre = CHR '',''" "tok \<noteq> []"
         "CHR '','' \<notin> set tok" "rest = [] \<or> hd rest = CHR '',''"
         "filters_loop soc pre out = Some (PARSE_OK, out1)"
         "parse_filter_token soc tok (length tok) out1 = Some (ret, out1)"
      by auto
    then have "s = (CHR '','' # pre) @ tok @ rest
               \<and> (CHR '','' # pre = [] \<or> last (CHR '','' # pre) = CHR '','')
               \<and> tok \<noteq> [] \<and> CHR '','' \<notin> set tok \<and> (rest = [] \<or> hd rest = CHR '','')
               \<and> filters_loop soc (CHR '','' # pre) out = Some (PARSE_OK, out1)
               \<and> parse_filter_token soc tok (length tok) out1 = Some (ret, out1)"
      using comma by (auto simp: loop_comma)
    then show ?thesis by blast
  next
    case last
    with less.prems have t: "parse_filter_token soc s (length s) out = Some (ret, out1)"
      using loop_token_last [OF last(2,1), of soc out]
      by (auto split: option.splits if_splits)
    from token_error_keeps [OF t less.prems(2)] have o: "out1 = out" .
    have "s = [] @ s @ [] \<and> ([] = [] \<or> last [] = CHR '','')
          \<and> s \<noteq> [] \<and> CHR '','' \<notin> set s \<and> ([] = [] \<or> hd [] = CHR '','')
          \<and> filters_loop soc [] out = Some (PARSE_OK, out1)
          \<and> parse_filter_token soc s (length s) out1 = Some (ret, out1)"
      using last t o by (simp add: filters_loop.simps [of soc "[]"])
    then show ?thesis by blast
  next
    case (token tok rest)
    note eq = loop_token_comma [OF token(3,2), of soc rest out]
    from less.prems(1) token(1) eq obtain r1 o1 where
      t: "parse_filter_token soc tok (length tok) out = Some (r1, o1)"
      by (cases "parse_filter_token soc tok (length tok) out") auto
    show ?thesis
    proof (cases "r1 = PARSE_OK")
      case False
      with less.prems(1) token(1) eq t have e: "ret = r1" "out1 = o1" by auto
      from token_error_keeps [OF t False] e have o: "out1 = out" by simp
      have "s = [] @ tok @ (CHR '','' # rest) \<and> ([] = [] \<or> last [] = CHR '','')
          \<and> tok \<noteq> [] \<and> CHR '','' \<notin> set tok
          \<and> (CHR '','' # rest = [] \<or> hd (CHR '','' # rest) = CHR '','')
          \<and> filters_loop soc [] out = Some (PARSE_OK, out1)
          \<and> parse_filter_token soc tok (length tok) out1 = Some (ret, out1)"
        using token t e o by (simp add: filters_loop.simps [of soc "[]"])
      then show ?thesis by blast
    next
      case True
      with less.prems(1) token(1) eq t have "filters_loop soc rest o1 = Some (ret, out1)" by simp
      from less.hyps [of rest o1, OF _ this less.prems(2)] token(1) obtain pre tok2 rest2 where
        p: "rest = pre @ tok2 @ rest2" "pre = [] \<or> last pre = CHR '',''" "tok2 \<noteq> []"
           "CHR '','' \<notin> set tok2" "rest2 = [] \<or> hd rest2 = CHR '',''"
           "filters_loop soc pre o1 = Some (PARSE_OK, out1)"
           "parse_filter_token soc tok2 (length tok2) out1 = Some (ret, out1)"
        by auto
      have "filters_loop soc (tok @ CHR '','' # pre) out = Some (PARSE_OK, out1)"
        using loop_token_comma [OF token(3,2), of soc pre out] t True p(6) by simp
      with p token(1) have "s = (tok @ CHR '','' # pre) @ tok2 @ rest2
          \<and> (tok @ CHR '','' # pre = [] \<or> last (tok @ CHR '','' # pre) = CHR '','')
          \<and> tok2 \<noteq> [] \<and> CHR '','' \<notin> set tok2 \<and> (rest2 = [] \<or> hd rest2 = CHR '','')
          \<and> filters_loop soc (tok @ CHR '','' # pre) out = Some (PARSE_OK, out1)
          \<and> parse_filter_token soc tok2 (length tok2) out1 = Some (ret, out1)"
        by auto
      then show ?thesis by blast
    qed
  qed
qed

lemma parse_filters_error_token:
  assumes "parse_filters soc s out = Some (ret, out1)" "ret \<noteq> PARSE_OK" "length s < MAX_INPUT_LEN"
  shows "\<exists>pre tok rest. s = pre @ tok @ rest
           \<and> (pre = [] \<or> last pre = CHR '','')
           \<and> tok \<noteq> [] \<and> CHR '','' \<notin> set tok
           \<and> (rest = [] \<or> hd rest = CHR '','')
           \<and> parse_filters soc pre out = Some (PARSE_OK, out1)
           \<and> parse_filter_token soc tok (length tok) out1 = Some (ret, out1)
           \<and> mask_count out1 + (if SOC_TWAI_SUPPORT_FD soc then range_count out1 else 0)
               = int (length (filter_tokens pre))"
proof -
  define out0 where "out0 = (if SOC_TWAI_SUPPORT_FD soc then out\<lparr>mask_count := 0, range_count := 0\<rparr>
                     else out\<lparr>mask_count := 0\<rparr>)"
  from assms have ne: "s \<noteq> []" by (auto simp: parse_filters_empty)
  with assms(1,3) have "filters_loop soc s out0 = Some (ret, out1)"
    by (auto simp: parse_filters_def out0_def Let_def split: if_splits)
  from loop_error_token [OF this assms(2)] obtain pre tok rest where
    p: "s = pre @ tok @ rest" "pre = [] \<or> last pre = CHR '',''" "tok \<noteq> []"
       "CHR '','' \<notin> set tok" "rest = [] \<or> hd rest = CHR '',''"
       "filters_loop soc pre out0 = Some (PARSE_OK, out1)"
       "parse_filter_token soc tok (length tok) out1 = Some (ret, out1)"
    by blast
  have "length pre < MAX_INPUT_LEN" using p(1) assms(3) by simp
  then have q: "parse_filters soc pre out = Some (PARSE_OK, out1)"
    using p(6)
    by (cases "pre = []") (auto simp: parse_filters_def out0_def Let_def filters_loop.simps [of soc "[]"])
  from loop_ok_counts [OF p(6)]
  have "mask_count out1 + (if SOC_TWAI_SUPPORT_FD soc then range_count out1 else 0)
               = int (length (filter_tokens pre))"
    by (auto simp: out0_def split: if_splits)
  with p q show ?thesis by blast
qed

text \<open>
  C5, as the code has it. \<open>parse_filters\<close> does not roll back. When it returns an error
  for a text of \<open>MAX_INPUT_LEN\<close> or more characters, it has not touched the output
  parameters. When it returns an error for a shorter text, the text splits at the
  failing token: the part before it is empty or ends with a comma, the token is not
  empty, holds no comma and is followed by a comma or by the end of the text. The arrays
  and counters \<open>parse_filters\<close> leaves are exactly those of a successful parse of the
  part before the failing token, \<open>parse_filter_token\<close> called on the failing token with
  these outputs returns the same error and leaves them as they are, and the counters
  count the tokens before the failing one: every one of them is a filter that stays in
  the caller's arrays.
\<close>

theorem filter_error_keeps_prefix:
  "parse_filters soc s out = Some (ret, out1) \<and> ret \<noteq> PARSE_OK \<longrightarrow>
     (MAX_INPUT_LEN \<le> length s \<and> ret = PARSE_ERROR \<and> out1 = out)
     \<or> (length s < MAX_INPUT_LEN
         \<and> (\<exists>pre tok rest. s = pre @ tok @ rest
               \<and> (pre = [] \<or> last pre = CHR '','')
               \<and> tok \<noteq> [] \<and> CHR '','' \<notin> set tok
               \<and> (rest = [] \<or> hd rest = CHR '','')
               \<and> parse_filters soc pre out = Some (PARSE_OK, out1)
               \<and> parse_filter_token soc tok (length tok) out1 = Some (ret, out1)
               \<and> mask_count out1 + (if SOC_TWAI_SUPPORT_FD soc then range_count out1 else 0)
                   = int (length (filter_tokens pre))))"
proof (intro impI)
  assume a: "parse_filters soc s out = Some (ret, out1) \<and> ret \<noteq> PARSE_OK"
  show "(MAX_INPUT_LEN \<le> length s \<and> ret = PARSE_ERROR \<and> out1 = out)
     \<or> (length s < MAX_INPUT_LEN
         \<and> (\<exists>pre tok rest. s = pre @ tok @ rest
               \<and> (pre = [] \<or> last pre = CHR '','')
               \<and> tok \<noteq> [] \<and> CHR '','' \<notin> set tok
               \<and> (rest = [] \<or> hd rest = CHR '','')
               \<and> parse_filters soc pre out = Some (PARSE_OK, out1)
               \<and> parse_filter_token soc tok (length tok) out1 = Some (ret, out1)
               \<and> mask_count out1 + (if SOC_TWAI_SUPPORT_FD soc then range_count out1 else 0)
                   = int (length (filter_tokens pre))))"
  proof (cases "length s < MAX_INPUT_LEN")
    case False
    with a show ?thesis by (simp add: parse_filters_too_long)
  next
    case True
    from a have "parse_filters soc s out = Some (ret, out1)" "ret \<noteq> PARSE_OK" by simp_all
    from parse_filters_error_token [OF this True] True show ?thesis by blast
  qed
qed

theorem filter_error_keeps_prefix_witness:
  "parse_filters \<lparr>SOC_TWAI_MASK_FILTER_NUM = 3, SOC_TWAI_RANGE_FILTER_NUM = 1, SOC_TWAI_SUPPORT_FD = True\<rparr>
     ''123:7FF,zz''
     \<lparr>masks = [\<lparr>id_flt = 0, mask_flt = 0, is_ext_flt = False\<rparr>, \<lparr>id_flt = 0, mask_flt = 0, is_ext_flt = False\<rparr>, \<lparr>id_flt = 0, mask_flt = 0, is_ext_flt = False\<rparr>], mask_count = 0,
      ranges = [\<lparr>range_low = 0, range_high = 0, is_ext_range = False\<rparr>], range_count = 0\<rparr>
   = Some (PARSE_ERROR,
     \<lparr>masks = [\<lparr>id_flt = 0x123, mask_flt = 0x7FF, is_ext_flt = False\<rparr>, \<lparr>id_flt = 0, mask_flt = 0, is_ext_flt = False\<rparr>, \<lparr>id_flt = 0, mask_flt = 0, is_ext_flt = False\<rparr>], mask_count = 1,
      ranges = [\<lparr>range_low = 0, range_high = 0, is_ext_range = False\<rparr>], range_count = 0\<rparr>)
   \<and> PARSE_ERROR \<noteq> PARSE_OK
   \<and> ''123:7FF,zz'' = ''123:7FF,'' @ ''zz'' @ []
   \<and> last ''123:7FF,'' = CHR '',''
   \<and> CHR '','' \<notin> set ''zz''
   \<and> parse_filters \<lparr>SOC_TWAI_MASK_FILTER_NUM = 3, SOC_TWAI_RANGE_FILTER_NUM = 1, SOC_TWAI_SUPPORT_FD = True\<rparr>
     ''123:7FF,''
     \<lparr>masks = [\<lparr>id_flt = 0, mask_flt = 0, is_ext_flt = False\<rparr>, \<lparr>id_flt = 0, mask_flt = 0, is_ext_flt = False\<rparr>, \<lparr>id_flt = 0, mask_flt = 0, is_ext_flt = False\<rparr>], mask_count = 0,
      ranges = [\<lparr>range_low = 0, range_high = 0, is_ext_range = False\<rparr>], range_count = 0\<rparr>
   = Some (PARSE_OK,
     \<lparr>masks = [\<lparr>id_flt = 0x123, mask_flt = 0x7FF, is_ext_flt = False\<rparr>, \<lparr>id_flt = 0, mask_flt = 0, is_ext_flt = False\<rparr>, \<lparr>id_flt = 0, mask_flt = 0, is_ext_flt = False\<rparr>], mask_count = 1,
      ranges = [\<lparr>range_low = 0, range_high = 0, is_ext_range = False\<rparr>], range_count = 0\<rparr>)
   \<and> parse_filter_token \<lparr>SOC_TWAI_MASK_FILTER_NUM = 3, SOC_TWAI_RANGE_FILTER_NUM = 1, SOC_TWAI_SUPPORT_FD = True\<rparr>
     ''zz'' (length ''zz'')
     \<lparr>masks = [\<lparr>id_flt = 0x123, mask_flt = 0x7FF, is_ext_flt = False\<rparr>, \<lparr>id_flt = 0, mask_flt = 0, is_ext_flt = False\<rparr>, \<lparr>id_flt = 0, mask_flt = 0, is_ext_flt = False\<rparr>], mask_count = 1,
      ranges = [\<lparr>range_low = 0, range_high = 0, is_ext_range = False\<rparr>], range_count = 0\<rparr>
   = Some (PARSE_ERROR,
     \<lparr>masks = [\<lparr>id_flt = 0x123, mask_flt = 0x7FF, is_ext_flt = False\<rparr>, \<lparr>id_flt = 0, mask_flt = 0, is_ext_flt = False\<rparr>, \<lparr>id_flt = 0, mask_flt = 0, is_ext_flt = False\<rparr>], mask_count = 1,
      ranges = [\<lparr>range_low = 0, range_high = 0, is_ext_range = False\<rparr>], range_count = 0\<rparr>)
   \<and> filter_tokens ''123:7FF,'' = [''123:7FF'']"
  using filter_error_keeps_prefix
          [of "\<lparr>SOC_TWAI_MASK_FILTER_NUM = 3, SOC_TWAI_RANGE_FILTER_NUM = 1, SOC_TWAI_SUPPORT_FD = True\<rparr>"
              "''123:7FF,zz''"
              "\<lparr>masks = [\<lparr>id_flt = 0, mask_flt = 0, is_ext_flt = False\<rparr>, \<lparr>id_flt = 0, mask_flt = 0, is_ext_flt = False\<rparr>, \<lparr>id_flt = 0, mask_flt = 0, is_ext_flt = False\<rparr>], mask_count = 0,
      ranges = [\<lparr>range_low = 0, range_high = 0, is_ext_range = False\<rparr>], range_count = 0\<rparr>"
              PARSE_ERROR
              "\<lparr>masks = [\<lparr>id_flt = 0x123, mask_flt = 0x7FF, is_ext_flt = False\<rparr>, \<lparr>id_flt = 0, mask_flt = 0, is_ext_flt = False\<rparr>, \<lparr>id_flt = 0, mask_flt = 0, is_ext_flt = False\<rparr>], mask_count = 1,
      ranges = [\<lparr>range_low = 0, range_high = 0, is_ext_range = False\<rparr>], range_count = 0\<rparr>"]
  by (simp add: filter_eval filter_tokens_def)

text \<open>
  The claim C5 as stated fails: after a format error in the second token, and after the
  capacity is exceeded by the fourth mask filter, \<open>parse_filters\<close> returns the error
  with the earlier filters in the array and their number in the counter.
\<close>

theorem filter_error_partial_counterexample:
  "parse_filters \<lparr>SOC_TWAI_MASK_FILTER_NUM = 3, SOC_TWAI_RANGE_FILTER_NUM = 1, SOC_TWAI_SUPPORT_FD = True\<rparr>
     ''123:7FF,zz''
     \<lparr>masks = [\<lparr>id_flt = 0, mask_flt = 0, is_ext_flt = False\<rparr>, \<lparr>id_flt = 0, mask_flt = 0, is_ext_flt = False\<rparr>, \<lparr>id_flt = 0, mask_flt = 0, is_ext_flt = False\<rparr>], mask_count = 0,
      ranges = [\<lparr>range_low = 0, range_high = 0, is_ext_range = False\<rparr>], range_count = 0\<rparr>
   = Some (PARSE_ERROR,
     \<lparr>masks = [\<lparr>id_flt = 0x123, mask_flt = 0x7FF, is_ext_flt = False\<rparr>, \<lparr>id_flt = 0, mask_flt = 0, is_ext_flt = False\<rparr>, \<lparr>id_flt = 0, mask_flt = 0, is_ext_flt = False\<rparr>], mask_count = 1,
      ranges = [\<lparr>range_low = 0, range_high = 0, is_ext_range = False\<rparr>], range_count = 0\<rparr>)
   \<and> parse_filters \<lparr>SOC_TWAI_MASK_FILTER_NUM = 3, SOC_TWAI_RANGE_FILTER_NUM = 1, SOC_TWAI_SUPPORT_FD = True\<rparr>
     ''1:2,3:4,5:6,7:8''
     \<lparr>masks = [\<lparr>id_flt = 0, mask_flt = 0, is_ext_flt = False\<rparr>, \<lparr>id_flt = 0, mask_flt = 0, is_ext_flt = False\<rparr>, \<lparr>id_flt = 0, mask_flt = 0, is_ext_flt = False\<rparr>], mask_count = 0,
      ranges = [\<lparr>range_low = 0, range_high = 0, is_ext_range = False\<rparr>], range_count = 0\<rparr>
   = Some (PARSE_OUT_OF_RANGE,
     \<lparr>masks = [\<lparr>id_flt = 1, mask_flt = 2, is_ext_flt = False\<rparr>, \<lparr>id_flt = 3, mask_flt = 4, is_ext_flt = False\<rparr>, \<lparr>id_flt = 5, mask_flt = 6, is_ext_flt = False\<rparr>], mask_count = 3,
      ranges = [\<lparr>range_low = 0, range_high = 0, is_ext_range = False\<rparr>], range_count = 0\<rparr>)"
  by (simp add: filter_eval)

text \<open>
  C6. Filter parsing, in a build with range filters and room for at least one filter of
  each kind. The text \<open>123:7FF,010-020\<close> gives exactly one mask filter (identifier
  0x123, mask 0x7FF) and one range filter (low 0x010, high 0x020). The empty text
  succeeds with both counters zero. A text of 1 to 255 characters is handled by the
  token loop after the counters are reset: a leading comma is skipped, a token ends at
  the next comma or at the end of the text, and the loop stops at the first token that
  fails. A token with a colon is a mask filter made of the hexadecimal segments before
  and after the first colon. A token without a colon but with a dash is a range filter
  made of the segments before and after the first dash, an error when low exceeds high.
  Any other token is an error.
\<close>

theorem filter_parsing:
  "(0 < SOC_TWAI_MASK_FILTER_NUM soc \<and> 0 < SOC_TWAI_RANGE_FILTER_NUM soc
      \<and> SOC_TWAI_SUPPORT_FD soc \<and> masks out \<noteq> [] \<and> ranges out \<noteq> [] \<longrightarrow>
      parse_filters soc ''123:7FF,010-020'' out =
        Some (PARSE_OK,
          out\<lparr>masks := (masks out)[0 := \<lparr>id_flt = 0x123, mask_flt = 0x7FF, is_ext_flt = False\<rparr>],
              mask_count := 1,
              ranges := (ranges out)[0 := \<lparr>range_low = 0x10, range_high = 0x20, is_ext_range = False\<rparr>],
              range_count := 1\<rparr>))
   \<and> (SOC_TWAI_SUPPORT_FD soc \<longrightarrow>
        parse_filters soc [] out = Some (PARSE_OK, out\<lparr>mask_count := 0, range_count := 0\<rparr>))
   \<and> (SOC_TWAI_SUPPORT_FD soc \<and> s \<noteq> [] \<and> length s < MAX_INPUT_LEN \<longrightarrow>
        parse_filters soc s out = filters_loop soc s (out\<lparr>mask_count := 0, range_count := 0\<rparr>))
   \<and> filters_loop soc [] out = Some (PARSE_OK, out)
   \<and> filters_loop soc (CHR '','' # s) out = filters_loop soc s out
   \<and> (tok \<noteq> [] \<and> CHR '','' \<notin> set tok \<longrightarrow>
        filters_loop soc (tok @ CHR '','' # rest) out =
          (case parse_filter_token soc tok (length tok) out of
             None \<Rightarrow> None
           | Some (ret, out1) \<Rightarrow>
               if ret \<noteq> PARSE_OK then Some (ret, out1) else filters_loop soc rest out1)
        \<and> filters_loop soc tok out = parse_filter_token soc tok (length tok) out)
   \<and> (CHR '':'' \<notin> set a_txt \<longrightarrow>
        parse_filter_token soc (a_txt @ CHR '':'' # b_txt) (length (a_txt @ CHR '':'' # b_txt)) out =
          (case (parse_hex_segment a_txt (length a_txt), parse_hex_segment b_txt (length b_txt)) of
             (Inr a, Inr b) \<Rightarrow>
               if mask_count out \<ge> int (SOC_TWAI_MASK_FILTER_NUM soc) then Some (PARSE_OUT_OF_RANGE, out)
               else (case store_at (masks out) (mask_count out)
                            \<lparr>id_flt = a, mask_flt = b, is_ext_flt = False\<rparr> of
                       None \<Rightarrow> None
                     | Some m \<Rightarrow> Some (PARSE_OK, out\<lparr>masks := m, mask_count := mask_count out + 1\<rparr>))
           | _ \<Rightarrow> Some (PARSE_ERROR, out)))
   \<and> (SOC_TWAI_SUPPORT_FD soc \<and> CHR '':'' \<notin> set (a_txt @ CHR ''-'' # b_txt)
      \<and> CHR ''-'' \<notin> set a_txt \<longrightarrow>
        parse_filter_token soc (a_txt @ CHR ''-'' # b_txt) (length (a_txt @ CHR ''-'' # b_txt)) out =
          (case (parse_hex_segment a_txt (length a_txt), parse_hex_segment b_txt (length b_txt)) of
             (Inr a, Inr b) \<Rightarrow>
               if a > b then Some (PARSE_ERROR, out)
               else if range_count out \<ge> int (SOC_TWAI_RANGE_FILTER_NUM soc)
                 then Some (PARSE_OUT_OF_RANGE, out)
               else (case store_at (ranges out) (range_count out)
                            \<lparr>range_low = a, range_high = b, is_ext_range = False\<rparr> of
                       None \<Rightarrow> None
                     | Some r \<Rightarrow> Some (PARSE_OK, out\<lparr>ranges := r, range_count := range_count out + 1\<rparr>))
           | _ \<Rightarrow> Some (PARSE_ERROR, out)))
   \<and> (CHR '':'' \<notin> set tok \<and> CHR ''-'' \<notin> set tok \<longrightarrow>
        parse_filter_token soc tok (length tok) out = Some (PARSE_ERROR, out))"
proof (intro conjI impI)
  assume "0 < SOC_TWAI_MASK_FILTER_NUM soc \<and> 0 < SOC_TWAI_RANGE_FILTER_NUM soc
      \<and> SOC_TWAI_SUPPORT_FD soc \<and> masks out \<noteq> [] \<and> ranges out \<noteq> []"
  then show "parse_filters soc ''123:7FF,010-020'' out =
        Some (PARSE_OK,
          out\<lparr>masks := (masks out)[0 := \<lparr>id_flt = 0x123, mask_flt = 0x7FF, is_ext_flt = False\<rparr>],
              mask_count := 1,
              ranges := (ranges out)[0 := \<lparr>range_low = 0x10, range_high = 0x20, is_ext_range = False\<rparr>],
              range_count := 1\<rparr>)"
    by (intro parse_filters_example) auto
next
  assume "SOC_TWAI_SUPPORT_FD soc"
  then show "parse_filters soc [] out = Some (PARSE_OK, out\<lparr>mask_count := 0, range_count := 0\<rparr>)"
    by (simp add: parse_filters_empty)
next
  assume "SOC_TWAI_SUPPORT_FD soc \<and> s \<noteq> [] \<and> length s < MAX_INPUT_LEN"
  then show "parse_filters soc s out = filters_loop soc s (out\<lparr>mask_count := 0, range_count := 0\<rparr>)"
    by (simp add: parse_filters_def Let_def)
next
  show "filters_loop soc [] out = Some (PARSE_OK, out)"
    by (simp add: filters_loop.simps [of soc "[]"])
  show "filters_loop soc (CHR '','' # s) out = filters_loop soc s out"
    by (rule loop_comma)
next
  assume h: "tok \<noteq> [] \<and> CHR '','' \<notin> set tok"
  then show "filters_loop soc (tok @ CHR '','' # rest) out =
          (case parse_filter_token soc tok (length tok) out of
             None \<Rightarrow> None
           | Some (ret, out1) \<Rightarrow>
               if ret \<noteq> PARSE_OK then Some (ret, out1) else filters_loop soc rest out1)"
    by (simp add: loop_token_comma)
  from h show "filters_loop soc tok out = parse_filter_token soc tok (length tok) out"
    by (auto simp: loop_token_last split: option.splits)
next
  assume "CHR '':'' \<notin> set a_txt"
  from token_mask [OF this, of soc b_txt "[]" out]
  show "parse_filter_token soc (a_txt @ CHR '':'' # b_txt) (length (a_txt @ CHR '':'' # b_txt)) out =
          (case (parse_hex_segment a_txt (length a_txt), parse_hex_segment b_txt (length b_txt)) of
             (Inr a, Inr b) \<Rightarrow>
               if mask_count out \<ge> int (SOC_TWAI_MASK_FILTER_NUM soc) then Some (PARSE_OUT_OF_RANGE, out)
               else (case store_at (masks out) (mask_count out)
                            \<lparr>id_flt = a, mask_flt = b, is_ext_flt = False\<rparr> of
                       None \<Rightarrow> None
                     | Some m \<Rightarrow> Some (PARSE_OK, out\<lparr>masks := m, mask_count := mask_count out + 1\<rparr>))
           | _ \<Rightarrow> Some (PARSE_ERROR, out))"
    by simp
next
  assume h: "SOC_TWAI_SUPPORT_FD soc \<and> CHR '':'' \<notin> set (a_txt @ CHR ''-'' # b_txt)
      \<and> CHR ''-'' \<notin> set a_txt"
  then have "CHR '':'' \<notin> set (a_txt @ CHR ''-'' # b_txt)" "CHR ''-'' \<notin> set a_txt" "SOC_TWAI_SUPPORT_FD soc"
    by auto
  from token_range [OF this, of "[]" out]
  show "parse_filter_token soc (a_txt @ CHR ''-'' # b_txt) (length (a_txt @ CHR ''-'' # b_txt)) out =
          (case (parse_hex_segment a_txt (length a_txt), parse_hex_segment b_txt (length b_txt)) of
             (Inr a, Inr b) \<Rightarrow>
               if a > b then Some (PARSE_ERROR, out)
               else if range_count out \<ge> int (SOC_TWAI_RANGE_FILTER_NUM soc)
                 then Some (PARSE_OUT_OF_RANGE, out)
               else (case store_at (ranges out) (range_count out)
                            \<lparr>range_low = a, range_high = b, is_ext_range = False\<rparr> of
                       None \<Rightarrow> None
                     | Some r \<Rightarrow> Some (PARSE_OK, out\<lparr>ranges := r, range_count := range_count out + 1\<rparr>))
           | _ \<Rightarrow> Some (PARSE_ERROR, out))"
    by simp
next
  assume "CHR '':'' \<notin> set tok \<and> CHR ''-'' \<notin> set tok"
  then show "parse_filter_token soc tok (length tok) out = Some (PARSE_ERROR, out)"
    using token_other [of tok soc "[]" out] by simp
qed

theorem filter_parsing_witness:
  "parse_filters \<lparr>SOC_TWAI_MASK_FILTER_NUM = 3, SOC_TWAI_RANGE_FILTER_NUM = 1, SOC_TWAI_SUPPORT_FD = True\<rparr>
     ''123:7FF,010-020''
     \<lparr>masks = [\<lparr>id_flt = 0, mask_flt = 0, is_ext_flt = False\<rparr>, \<lparr>id_flt = 0, mask_flt = 0, is_ext_flt = False\<rparr>, \<lparr>id_flt = 0, mask_flt = 0, is_ext_flt = False\<rparr>], mask_count = 0,
      ranges = [\<lparr>range_low = 0, range_high = 0, is_ext_range = False\<rparr>], range_count = 0\<rparr>
   = Some (PARSE_OK,
     \<lparr>masks = [\<lparr>id_flt = 0x123, mask_flt = 0x7FF, is_ext_flt = False\<rparr>, \<lparr>id_flt = 0, mask_flt = 0, is_ext_flt = False\<rparr>, \<lparr>id_flt = 0, mask_flt = 0, is_ext_flt = False\<rparr>], mask_count = 1,
      ranges = [\<lparr>range_low = 0x10, range_high = 0x20, is_ext_range = False\<rparr>], range_count = 1\<rparr>)
   \<and> parse_filters \<lparr>SOC_TWAI_MASK_FILTER_NUM = 3, SOC_TWAI_RANGE_FILTER_NUM = 1, SOC_TWAI_SUPPORT_FD = True\<rparr>
     '',,1:2,,''
     \<lparr>masks = [\<lparr>id_flt = 0, mask_flt = 0, is_ext_flt = False\<rparr>, \<lparr>id_flt = 0, mask_flt = 0, is_ext_flt = False\<rparr>, \<lparr>id_flt = 0, mask_flt = 0, is_ext_flt = False\<rparr>], mask_count = 0,
      ranges = [\<lparr>range_low = 0, range_high = 0, is_ext_range = False\<rparr>], range_count = 0\<rparr>
   = Some (PARSE_OK,
     \<lparr>masks = [\<lparr>id_flt = 1, mask_flt = 2, is_ext_flt = False\<rparr>, \<lparr>id_flt = 0, mask_flt = 0, is_ext_flt = False\<rparr>, \<lparr>id_flt = 0, mask_flt = 0, is_ext_flt = False\<rparr>], mask_count = 1,
      ranges = [\<lparr>range_low = 0, range_high = 0, is_ext_range = False\<rparr>], range_count = 0\<rparr>)
   \<and> parse_filters \<lparr>SOC_TWAI_MASK_FILTER_NUM = 3, SOC_TWAI_RANGE_FILTER_NUM = 1, SOC_TWAI_SUPPORT_FD = True\<rparr>
     ''20-10''
     \<lparr>masks = [\<lparr>id_flt = 0, mask_flt = 0, is_ext_flt = False\<rparr>, \<lparr>id_flt = 0, mask_flt = 0, is_ext_flt = False\<rparr>, \<lparr>id_flt = 0, mask_flt = 0, is_ext_flt = False\<rparr>], mask_count = 0,
      ranges = [\<lparr>range_low = 0, range_high = 0, is_ext_range = False\<rparr>], range_count = 0\<rparr>
   = Some (PARSE_ERROR,
     \<lparr>masks = [\<lparr>id_flt = 0, mask_flt = 0, is_ext_flt = False\<rparr>, \<lparr>id_flt = 0, mask_flt = 0, is_ext_flt = False\<rparr>, \<lparr>id_flt = 0, mask_flt = 0, is_ext_flt = False\<rparr>], mask_count = 0,
      ranges = [\<lparr>range_low = 0, range_high = 0, is_ext_range = False\<rparr>], range_count = 0\<rparr>)
   \<and> parse_filters \<lparr>SOC_TWAI_MASK_FILTER_NUM = 3, SOC_TWAI_RANGE_FILTER_NUM = 1, SOC_TWAI_SUPPORT_FD = True\<rparr>
     ''123''
     \<lparr>masks = [\<lparr>id_flt = 0, mask_flt = 0, is_ext_flt = False\<rparr>, \<lparr>id_flt = 0, mask_flt = 0, is_ext_flt = False\<rparr>, \<lparr>id_flt = 0, mask_flt = 0, is_ext_flt = False\<rparr>], mask_count = 0,
      ranges = [\<lparr>range_low = 0, range_high = 0, is_ext_range = False\<rparr>], range_count = 0\<rparr>
   = Some (PARSE_ERROR,
     \<lparr>masks = [\<lparr>id_flt = 0, mask_flt = 0, is_ext_flt = False\<rparr>, \<lparr>id_flt = 0, mask_flt = 0, is_ext_flt = False\<rparr>, \<lparr>id_flt = 0, mask_flt = 0, is_ext_flt = False\<rparr>], mask_count = 0,
      ranges = [\<lparr>range_low = 0, range_high = 0, is_ext_range = False\<rparr>], range_count = 0\<rparr>)"
  using filter_parsing
          [of "\<lparr>SOC_TWAI_MASK_FILTER_NUM = 3, SOC_TWAI_RANGE_FILTER_NUM = 1, SOC_TWAI_SUPPORT_FD = True\<rparr>"
              "\<lparr>masks = [\<lparr>id_flt = 0, mask_flt = 0, is_ext_flt = False\<rparr>, \<lparr>id_flt = 0, mask_flt = 0, is_ext_flt = False\<rparr>, \<lparr>id_flt = 0, mask_flt = 0, is_ext_flt = False\<rparr>], mask_count = 0,
      ranges = [\<lparr>range_low = 0, range_high = 0, is_ext_range = False\<rparr>], range_count = 0\<rparr>"
              "'',,1:2,,''" "''123''" "[]" "''20''" "''10''"]
  by (simp add: filter_eval)


section \<open>The round trip through the dump line\<close>

lemmas dump_eval = dump_id_text_def
  dump_byte_text_def dump_actual_len_def dump_body_text_def dump_frame_text_def strchr.simps format_timestamp_def

lemma hex_char_nibble:
  assumes "d < 16"
  shows "isxdigit (hex_char d) \<and> parse_nibble (hex_char d) = Inr d \<and> asc2nibble (hex_char d) = d"
proof -
  from assms have "d = 0 \<or> d = 1 \<or> d = 2 \<or> d = 3 \<or> d = 4 \<or> d = 5 \<or> d = 6 \<or> d = 7
      \<or> d = 8 \<or> d = 9 \<or> d = 10 \<or> d = 11 \<or> d = 12 \<or> d = 13 \<or> d = 14 \<or> d = 15"
    by arith
  then show ?thesis
    by (elim disjE) (simp_all add: hex_char_def isxdigit_def parse_nibble_def asc2nibble_def code_def)
qed

lemma hex_of_nat_xdigits: "\<forall>c \<in> set (hex_of_nat n). isxdigit c"
proof (induction n rule: hex_of_nat.induct)
  case (1 n)
  show ?case
  proof (cases "n < 16")
    case True
    then show ?thesis using hex_char_nibble [of n] by (simp add: hex_of_nat.simps [of n])
  next
    case False
    with 1 [OF False] hex_char_nibble [of "n mod 16"] show ?thesis
      by (simp add: hex_of_nat.simps [of n])
  qed
qed

lemma hex_value_snoc: "hex_value (s @ [c]) = hex_value s * 16 + asc2nibble c"
  by (simp add: hex_value_def)

lemma hex_value_hex_of_nat: "hex_value (hex_of_nat n) = n"
proof (induction n rule: hex_of_nat.induct)
  case (1 n)
  show ?case
  proof (cases "n < 16")
    case True
    then show ?thesis using hex_char_nibble [of n]
      by (simp add: hex_of_nat.simps [of n] hex_value_def)
  next
    case False
    have "hex_value (hex_of_nat n) = hex_value (hex_of_nat (n div 16)) * 16 + n mod 16"
      using False hex_char_nibble [of "n mod 16"]
      by (simp add: hex_of_nat.simps [of n] hex_value_snoc)
    with 1 [OF False] show ?thesis by simp
  qed
qed

lemma hex_of_nat_length: "n < 16 ^ k \<Longrightarrow> 0 < k \<Longrightarrow> length (hex_of_nat n) \<le> k"
proof (induction n arbitrary: k rule: hex_of_nat.induct)
  case (1 n)
  show ?case
  proof (cases "n < 16")
    case True
    with 1(3) show ?thesis by (simp add: hex_of_nat.simps [of n])
  next
    case False
    have "k \<noteq> 1" using False 1(2) by auto
    with 1(3) have "1 < k" by simp
    then obtain j where j: "k = Suc j" "0 < j"
      by (cases k) auto
    with 1(2) have "n div 16 < 16 ^ j" by (simp add: less_mult_imp_div_less mult.commute)
    from 1(1) [OF False this j(2)] False j show ?thesis
      by (simp add: hex_of_nat.simps [of n])
  qed
qed

lemma hex_of_nat_nonempty: "hex_of_nat n \<noteq> []"
  by (simp add: hex_of_nat.simps [of n])

lemma asc2nibble_0: "asc2nibble (CHR ''0'') = 0" "isxdigit (CHR ''0'')"
  by (simp_all add: asc2nibble_def isxdigit_def code_def)

lemma hex_value_zeros: "hex_value (replicate k (CHR ''0'') @ s) = hex_value s"
  by (induction k) (simp_all add: hex_value_def asc2nibble_0)

lemma hex_value_zero_pad: "hex_value (zero_pad w (hex_of_nat n)) = n"
  by (simp add: zero_pad_def hex_value_zeros hex_value_hex_of_nat)

lemma zero_pad_xdigits: "\<forall>c \<in> set (zero_pad w (hex_of_nat n)). isxdigit c"
  using hex_of_nat_xdigits [of n] asc2nibble_0 by (auto simp: zero_pad_def)

lemma zero_pad_hex_length: "n < 16 ^ w \<Longrightarrow> 0 < w \<Longrightarrow> length (zero_pad w (hex_of_nat n)) = w"
  using hex_of_nat_length [of n w] by (simp add: zero_pad_def)

text \<open>The digit loop of the conversion on a run of hexadecimal digits.\<close>

lemma digit_fold_mono:
  "acc \<le> foldl (\<lambda>acc c. acc * 16 + asc2nibble c) acc ds"
proof (induction ds arbitrary: acc)
  case Nil
  show ?case by simp
next
  case (Cons d ds)
  have "acc \<le> acc * 16 + asc2nibble d" by simp
  also have "\<dots> \<le> foldl (\<lambda>acc c. acc * 16 + asc2nibble c) (acc * 16 + asc2nibble d) ds"
    by (rule Cons.IH)
  finally show ?case by simp
qed

lemma strtoul_digits_run:
  assumes "\<forall>c \<in> set ds. isxdigit c"
    and "foldl (\<lambda>acc c. acc * 16 + asc2nibble c) acc ds \<le> ULONG_MAX"
  shows "strtoul_digits (ds @ rest) acc False k =
         strtoul_digits rest (foldl (\<lambda>acc c. acc * 16 + asc2nibble c) acc ds) False (k + length ds)"
  using assms
proof (induction ds arbitrary: acc k)
  case Nil
  show ?case by simp
next
  case (Cons d ds)
  from Cons.prems(1) obtain v where v: "parse_nibble d = Inr v" "asc2nibble d = v"
    using isxdigit_nibble [of d] by auto
  have "acc * 16 + v \<le> foldl (\<lambda>acc c. acc * 16 + asc2nibble c) (acc * 16 + v) ds"
    by (rule digit_fold_mono)
  with Cons.prems(2) v have le: "acc * 16 + v \<le> ULONG_MAX" by simp
  have "strtoul_digits ((d # ds) @ rest) acc False k = strtoul_digits (ds @ rest) (acc * 16 + v) False (k + 1)"
    using v le by simp
  also have "\<dots> = strtoul_digits rest (foldl (\<lambda>acc c. acc * 16 + asc2nibble c) (acc * 16 + v) ds) False
                      (k + 1 + length ds)"
    using Cons.prems v by (intro Cons.IH) auto
  finally show ?case using v by simp
qed

lemma strtoul16_run:
  assumes "\<forall>c \<in> set ds. isxdigit c" "ds \<noteq> []" "hex_value ds \<le> ULONG_MAX"
  shows "strtoul16 (ds @ CHR ''#'' # rest) = (hex_value ds, length ds)"
proof -
  from assms(2) obtain d ds1 where d: "ds = d # ds1" by (cases ds) auto
  with assms(1) have xd: "isxdigit d" by simp
  note sp = isxdigit_not_special [OF xd]
  have c2: "cur (ds1 @ CHR ''#'' # rest) \<noteq> CHR ''x'' \<and> cur (ds1 @ CHR ''#'' # rest) \<noteq> CHR ''X''"
  proof (cases ds1)
    case Nil
    then show ?thesis by simp
  next
    case (Cons e es)
    with assms(1) d have "isxdigit e" by simp
    from isxdigit_not_special [OF this] Cons show ?thesis by simp
  qed
  have h: "parse_nibble (CHR ''#'') = Inl PARSE_ERROR"
    by (simp add: parse_nibble_def code_def)
  have "strtoul_digits (ds @ CHR ''#'' # rest) 0 False 0 = (hex_value ds, False, length ds)"
    using strtoul_digits_run [OF assms(1), of 0 "CHR ''#'' # rest" 0] assms(3) h
    by (simp add: hex_value_def)
  then show ?thesis
    using sp c2 d by (simp add: strtoul16_def)
qed

lemma parse_twai_id_dump:
  assumes "id_hdr h \<le> (if ide h then TWAI_EXT_ID_MASK else TWAI_STD_ID_MASK)"
  shows "parse_twai_id (dump_id_text h @ CHR ''#'' # body) (length (dump_id_text h)) f
         = Inr (f\<lparr>header := (header f)\<lparr>id_hdr := id_hdr h, ide := ide h\<rparr>\<rparr>)"
proof -
  define w :: nat where "w = (if ide h then 8 else 3)"
  have t: "dump_id_text h = zero_pad w (hex_of_nat (id_hdr h))"
    by (simp add: dump_id_text_def w_def)
  have b: "id_hdr h < 16 ^ w"
    using assms by (auto simp: w_def TWAI_EXT_ID_MASK_def TWAI_STD_ID_MASK_def split: if_splits)
  have w0: "0 < w" by (simp add: w_def)
  have len: "length (dump_id_text h) = w"
    unfolding t by (rule zero_pad_hex_length [OF b w0])
  have ne: "dump_id_text h \<noteq> []" using len w0 by auto
  have v: "hex_value (dump_id_text h) = id_hdr h"
    unfolding t by (rule hex_value_zero_pad)
  have u: "id_hdr h \<le> ULONG_MAX"
    using assms by (auto simp: ULONG_MAX_def TWAI_EXT_ID_MASK_def TWAI_STD_ID_MASK_def split: if_splits)
  have s: "strtoul16 (dump_id_text h @ CHR ''#'' # body) = (id_hdr h, w)"
    using strtoul16_run [of "dump_id_text h" body] zero_pad_xdigits [of w "id_hdr h"] ne v u len
    by (simp add: t)
  have m: "id_hdr h mod 2 ^ 32 = id_hdr h"
    using u by (simp add: ULONG_MAX_def)
  show ?thesis
    using assms s m
    by (auto simp: parse_twai_id_def parse_hex_id_def len w_def TWAI_EXT_ID_CHAR_LEN_def
                   TWAI_STD_ID_CHAR_LEN_def split: if_splits)
qed

lemma dump_byte_text_pair:
  assumes "b < 256"
  shows "dump_byte_text b = [hex_char (b div 16), hex_char (b mod 16)]"
proof (cases "b < 16")
  case True
  then show ?thesis
    by (simp add: dump_byte_text_def hex_of_nat.simps [of b] zero_pad_def hex_char_def)
next
  case False
  with assms have "b div 16 < 16" by simp
  with False show ?thesis
    by (simp add: dump_byte_text_def hex_of_nat.simps [of b] hex_of_nat.simps [of "b div 16"] zero_pad_def)
qed

lemma byte_of_nibbles:
  fixes b :: nat
  assumes "b < 256"
  shows "(push_bit 4 (b div 16) OR b mod 16) mod 256 = b"
proof -
  have "push_bit 4 (b div 16) OR b mod 16 = b div 16 * 2 ^ 4 + b mod 16"
    by (rule or_shift_add) simp
  with assms show ?thesis by simp
qed

lemma parse_payload_loop_dump:
  assumes "\<forall>b \<in> set bs. b < 256" "cnt + length bs \<le> mx" "cnt + length bs \<le> length buf"
  shows "parse_payload_loop (concat (map dump_byte_text bs)) buf mx cnt
         = Inr (cnt + length bs, take cnt buf @ bs @ drop (cnt + length bs) buf)"
  using assms
proof (induction bs arbitrary: buf cnt)
  case Nil
  show ?case by simp
next
  case (Cons b bs)
  from Cons.prems(1) have b: "b < 256" by simp
  then have n: "b div 16 < 16" "b mod 16 < 16" by simp_all
  note h = hex_char_nibble [OF n(1)] and l = hex_char_nibble [OF n(2)]
  note sp = isxdigit_not_special [of "hex_char (b div 16)"]
  define buf1 where "buf1 = buf[cnt := b]"
  have c: "cnt < length buf" "cnt < mx" using Cons.prems by simp_all
  have step: "parse_payload_loop (concat (map dump_byte_text (b # bs))) buf mx cnt
              = parse_payload_loop (concat (map dump_byte_text bs)) buf1 mx (cnt + 1)"
    using h l sp c byte_of_nibbles [OF b]
    by (simp add: dump_byte_text_pair [OF b] buf1_def)
  have ih: "parse_payload_loop (concat (map dump_byte_text bs)) buf1 mx (cnt + 1)
            = Inr (cnt + 1 + length bs, take (cnt + 1) buf1 @ bs @ drop (cnt + 1 + length bs) buf1)"
    using Cons.prems by (intro Cons.IH) (simp_all add: buf1_def)
  have t: "take (cnt + 1) buf1 = take cnt buf @ [b]"
    using c by (simp add: buf1_def take_Suc_conv_app_nth)
  have d: "drop (cnt + 1 + length bs) buf1 = drop (cnt + 1 + length bs) buf"
    by (simp add: buf1_def)
  show ?case
    unfolding step ih t d by simp
qed

lemma dlc_suffix_scan_dump:
  assumes "\<forall>b \<in> set bs. b < 256" "seen + length bs \<le> dl"
  shows "dlc_suffix_scan (concat (map dump_byte_text bs)) dl seen = []"
  using assms
proof (induction bs arbitrary: seen)
  case Nil
  show ?case by simp
next
  case (Cons b bs)
  from Cons.prems(1) have b: "b < 256" by simp
  then have n: "b div 16 < 16" "b mod 16 < 16" by simp_all
  note h = hex_char_nibble [OF n(1)] and l = hex_char_nibble [OF n(2)]
  note sp = isxdigit_not_special [of "hex_char (b div 16)"]
  have "dlc_suffix_scan (concat (map dump_byte_text (b # bs))) dl seen
        = dlc_suffix_scan (concat (map dump_byte_text bs)) dl (seen + 1)"
    using h l sp Cons.prems(2) by (simp add: dump_byte_text_pair [OF b])
  also have "\<dots> = []"
    using Cons.prems by (intro Cons.IH) simp_all
  finally show ?case .
qed

lemma dump_bytes_not_R:
  assumes "\<forall>b \<in> set bs. b < 256"
  shows "cur (concat (map dump_byte_text bs)) \<noteq> CHR ''R'' \<and> cur (concat (map dump_byte_text bs)) \<noteq> CHR ''r''"
proof (cases bs)
  case Nil
  then show ?thesis by (simp add: NUL_def)
next
  case (Cons b bs1)
  with assms have b: "b < 256" by simp
  then have "b div 16 < 16" by simp
  from isxdigit_not_special [of "hex_char (b div 16)"] hex_char_nibble [OF this] Cons
  show ?thesis by (simp add: dump_byte_text_pair [OF b])
qed

lemma parse_classic_dump_data:
  assumes "\<forall>b \<in> set bs. b < 256" "length bs \<le> 8" "8 \<le> length (buffer f)"
  shows "parse_classic_frame (concat (map dump_byte_text bs)) f
         = Inr (f\<lparr>header := (header f)\<lparr>dlc := length bs\<rparr>,
                  buffer := bs @ drop (length bs) (buffer f), buffer_len := length bs\<rparr>)"
proof -
  have p: "parse_payload (concat (map dump_byte_text bs)) (buffer f) (int TWAI_MAX_DATA_LEN)
           = Inr (length bs, bs @ drop (length bs) (buffer f))"
    using parse_payload_loop_dump [OF assms(1), of 0 8 "buffer f"] assms(2,3)
    by (simp add: parse_payload_def TWAI_MAX_DATA_LEN_def)
  have s: "dlc_suffix_scan (concat (map dump_byte_text bs)) (length bs) 0 = []"
    using dlc_suffix_scan_dump [OF assms(1), of 0 "length bs"] by simp
  have m: "length bs mod 256 = length bs" using assms(2) by simp
  show ?thesis
    using dump_bytes_not_R [OF assms(1)] p s m
    by (simp add: parse_classic_frame_def NUL_def)
qed

lemma parse_classic_dump_rtr:
  "\<exists>g. parse_classic_frame (CHR ''R'' # txt) f = Inr g
        \<and> rtr (header g) \<and> buffer_len g = 0 \<and> buffer g = buffer f
        \<and> id_hdr (header g) = id_hdr (header f) \<and> ide (header g) = ide (header f)"
  by (simp add: parse_classic_frame_def Let_def)

lemma snprintf_at_fit:
  "length out + length s < max_len \<Longrightarrow>
   snprintf_at (out, length out) max_len s = (out @ s, length (out @ s))"
  by (simp add: snprintf_at_def)

lemma dump_byte_text_length: "b < 256 \<Longrightarrow> length (dump_byte_text b) = 2"
  by (simp add: dump_byte_text_pair)

lemma dump_bytes_loop_fit:
  assumes "i \<le> n" "n \<le> length dat" "\<forall>b \<in> set dat. b < 256"
    and "length out + 4 * (n - i) + 4 < max_len"
  shows "dump_bytes_loop dat n max_len i (out, length out) =
     (out @ concat (map (\<lambda>b. ''  '' @ dump_byte_text b) (drop i (take n dat))),
      length (out @ concat (map (\<lambda>b. ''  '' @ dump_byte_text b) (drop i (take n dat)))))"
  using assms
proof (induction "n - i" arbitrary: i out)
  case 0
  then have "n = i" by simp
  then show ?case by (subst dump_bytes_loop.simps) simp
next
  case (Suc k)
  then have i: "i < n" "i < length dat" by simp_all
  then have b: "dat ! i < 256" using Suc.prems(3) by simp
  define out1 where "out1 = out @ ''  '' @ dump_byte_text (dat ! i)"
  have l1: "length out1 = length out + 4"
    using b by (simp add: out1_def dump_byte_text_length)
  have s: "snprintf_at (out, length out) max_len (''  '' @ dump_byte_text (dat ! i)) = (out1, length out1)"
    using snprintf_at_fit [of out "''  '' @ dump_byte_text (dat ! i)" max_len] Suc.prems(4) b
    by (simp add: out1_def dump_byte_text_length)
  have g: "length out < max_len - 4" using Suc.prems(4) by simp
  have step: "dump_bytes_loop dat n max_len i (out, length out)
              = dump_bytes_loop dat n max_len (i + 1) (out1, length out1)"
    using i g s by (subst dump_bytes_loop.simps) simp
  have ih: "dump_bytes_loop dat n max_len (i + 1) (out1, length out1) =
     (out1 @ concat (map (\<lambda>b. ''  '' @ dump_byte_text b) (drop (i + 1) (take n dat))),
      length (out1 @ concat (map (\<lambda>b. ''  '' @ dump_byte_text b) (drop (i + 1) (take n dat)))))"
    using Suc.hyps(2) Suc.prems i l1 by (intro Suc.hyps(1)) simp_all
  have d: "drop i (take n dat) = dat ! i # drop (i + 1) (take n dat)"
    using i Cons_nth_drop_Suc [of i "take n dat"] by simp
  show ?case
    unfolding step ih d by (simp add: out1_def)
qed

lemma format_timestamp_length: "length (snd (format_timestamp ctx t 64)) \<le> 63"
  by (cases "timestamp_mode ctx") (simp_all add: format_timestamp_def timestamp_text_def)

lemma dump_id_text_length: "id_hdr h < 2 ^ 32 \<Longrightarrow> length (dump_id_text h) \<le> 8"
  using hex_of_nat_length [of "id_hdr h" 8] by (auto simp: dump_id_text_def zero_pad_def)

lemma dec_of_int_digit:
  assumes "0 \<le> c" "c < 10"
  shows "length (dec_of_int c) = 1"
proof -
  from assms have "nat c < 10" by simp
  with assms(1) show ?thesis
    by (simp add: dec_of_int_def dec_of_nat.simps [of "nat c"])
qed

lemma concat_bytes_length:
  "\<forall>b \<in> set bs. b < 256 \<Longrightarrow> length (concat (map (\<lambda>b. ''  '' @ dump_byte_text b) bs)) = 4 * length bs"
  by (induction bs) (simp_all add: dump_byte_text_length)

lemma format_twaidump_frame_line:
  assumes "0 \<le> cid" "cid < 10" "id_hdr (item_header item) < 2 ^ 32"
    and "rtr (item_header item) \<longrightarrow> dlc (item_header item) < 2 ^ 16"
    and "\<not> rtr (item_header item) \<longrightarrow>
           dump_actual_len fd (item_header item) \<le> length (data item)
           \<and> dump_actual_len fd (item_header item) \<le> 64"
    and "\<forall>b \<in> set (data item). b < 256"
  shows "format_twaidump_frame fd ctx item cid DUMP_OUTPUT_LINE_SIZE =
     (fst (format_timestamp ctx (timestamp_us item) 64),
      snd (format_timestamp ctx (timestamp_us item) 64)
      @ ''twai'' @ dec_of_int cid @ ''  '' @ dump_id_text (item_header item) @ ''  ''
      @ (if rtr (item_header item) then ''[R'' @ dec_of_nat (dlc (item_header item)) @ '']''
         else ''['' @ dec_of_nat (dump_actual_len fd (item_header item)) @ '']''
              @ concat (map (\<lambda>b. ''  '' @ dump_byte_text b)
                         (take (dump_actual_len fd (item_header item)) (data item))))
      @ [CHR 0x0A])"
proof -
  let ?h = "item_header item"
  let ?ts = "snd (format_timestamp ctx (timestamp_us item) 64)"
  let ?n = "dump_actual_len fd ?h"
  let ?t2 = "''twai'' @ dec_of_int cid @ ''  ''"
  let ?t3 = "dump_id_text ?h @ ''  ''"
  let ?o2 = "?ts @ ?t2"
  let ?o3 = "?o2 @ ?t3"
  let ?st1 = "if length ?ts > 0 then snprintf_at ([], 0) 512 ?ts else ([], 0)"
  let ?st2 = "snprintf_at ?st1 512 ?t2"
  let ?st3 = "snprintf_at ?st2 512 ?t3"
  let ?st4 = "if rtr ?h then snprintf_at ?st3 512 (''[R'' @ dec_of_nat (dlc ?h) @ '']'')
              else dump_bytes_loop (data item) ?n 512 0
                     (snprintf_at ?st3 512 (''['' @ dec_of_nat ?n @ '']''))"
  let ?st5 = "if snd ?st4 < 512 - 1 then snprintf_at ?st4 512 [CHR 0x0A] else ?st4"
  have def: "format_twaidump_frame fd ctx item cid DUMP_OUTPUT_LINE_SIZE =
             (fst (format_timestamp ctx (timestamp_us item) 64), fst ?st5)"
    by (simp add: format_twaidump_frame_def Let_def case_prod_beta DUMP_OUTPUT_LINE_SIZE_def)
  have lts: "length ?ts \<le> 63" by (rule format_timestamp_length)
  have l2: "length ?o2 \<le> 70"
    using lts dec_of_int_digit [OF assms(1,2)] by simp
  have l3: "length ?o3 \<le> 80"
    using l2 dump_id_text_length [OF assms(3)] by simp
  have e1: "?st1 = (?ts, length ?ts)"
    using snprintf_at_fit [of "[]" ?ts 512] lts by simp
  have e2: "?st2 = (?o2, length ?o2)"
    unfolding e1 using l2 by (intro snprintf_at_fit) simp
  have e3: "?st3 = (?o3, length ?o3)"
    unfolding e2 using l3 by (intro snprintf_at_fit) simp
  show ?thesis
  proof (cases "rtr ?h")
    case True
    let ?t4 = "''[R'' @ dec_of_nat (dlc ?h) @ '']''"
    from True assms(4) have "dlc ?h < 10 ^ 5" by simp
    then have ld: "length (dec_of_nat (dlc ?h)) \<le> 5" by (rule dec_of_nat_length) simp
    have l4: "length (?o3 @ ?t4) \<le> 88" using l3 ld by simp
    have "snprintf_at (?o3, length ?o3) 512 ?t4 = (?o3 @ ?t4, length (?o3 @ ?t4))"
      using l4 by (intro snprintf_at_fit) simp
    with True have e4: "?st4 = (?o3 @ ?t4, length (?o3 @ ?t4))"
      unfolding e3 by simp
    have "snprintf_at (?o3 @ ?t4, length (?o3 @ ?t4)) 512 [CHR 0x0A]
          = ((?o3 @ ?t4) @ [CHR 0x0A], length ((?o3 @ ?t4) @ [CHR 0x0A]))"
      using l4 by (intro snprintf_at_fit) simp
    moreover have "length (?o3 @ ?t4) < 512 - 1" using l4 by simp
    ultimately have e5: "fst ?st5 = (?o3 @ ?t4) @ [CHR 0x0A]"
      unfolding e4 by simp
    show ?thesis
      unfolding def e5 using True by simp
  next
    case False
    let ?t4 = "''['' @ dec_of_nat ?n @ '']''"
    let ?bs = "concat (map (\<lambda>b. ''  '' @ dump_byte_text b) (take ?n (data item)))"
    from False assms(5) have n: "?n \<le> length (data item)" "?n \<le> 64" by simp_all
    then have "?n < 10 ^ 2" by simp
    then have ld: "length (dec_of_nat ?n) \<le> 2" by (rule dec_of_nat_length) simp
    have l4: "length (?o3 @ ?t4) \<le> 84" using l3 ld by simp
    have p4: "snprintf_at (?o3, length ?o3) 512 ?t4 = (?o3 @ ?t4, length (?o3 @ ?t4))"
      using l4 by (intro snprintf_at_fit) simp
    have "dump_bytes_loop (data item) ?n 512 0 (?o3 @ ?t4, length (?o3 @ ?t4))
          = ((?o3 @ ?t4) @ ?bs, length ((?o3 @ ?t4) @ ?bs))"
      using dump_bytes_loop_fit [of 0 ?n "data item" "?o3 @ ?t4" 512] n assms(6) l4
      by simp
    with False have e4: "?st4 = ((?o3 @ ?t4) @ ?bs, length ((?o3 @ ?t4) @ ?bs))"
      unfolding e3 p4 by simp
    have "\<forall>b \<in> set (take ?n (data item)). b < 256"
      using assms(6) by (auto dest: in_set_takeD)
    from concat_bytes_length [OF this] n l4 have l5: "length ((?o3 @ ?t4) @ ?bs) \<le> 340"
      by simp
    have "snprintf_at ((?o3 @ ?t4) @ ?bs, length ((?o3 @ ?t4) @ ?bs)) 512 [CHR 0x0A]
          = (((?o3 @ ?t4) @ ?bs) @ [CHR 0x0A], length (((?o3 @ ?t4) @ ?bs) @ [CHR 0x0A]))"
      using l5 by (intro snprintf_at_fit) simp
    moreover have "length ((?o3 @ ?t4) @ ?bs) < 512 - 1" using l5 by simp
    ultimately have e5: "fst ?st5 = ((?o3 @ ?t4) @ ?bs) @ [CHR 0x0A]"
      unfolding e4 by simp
    show ?thesis
      unfolding def e5 using False by simp
  qed
qed


lemma dump_id_text_no_hash:
  "id_hdr h \<le> (if ide h then TWAI_EXT_ID_MASK else TWAI_STD_ID_MASK) \<Longrightarrow>
   CHR ''#'' \<notin> set (dump_id_text h)"
  using zero_pad_xdigits [of 8 "id_hdr h"] zero_pad_xdigits [of 3 "id_hdr h"] hash_not_xdigit
  by (auto simp: dump_id_text_def)

lemma dump_decode_data:
  assumes "id_hdr (item_header item) \<le> (if ide (item_header item) then TWAI_EXT_ID_MASK else TWAI_STD_ID_MASK)"
    and "\<not> rtr (item_header item)"
    and "dump_actual_len fd (item_header item) = data_len item"
    and "data_len item \<le> TWAI_MAX_DATA_LEN" "data_len item \<le> length (data item)"
    and "\<forall>b \<in> set (data item). b < 256" "TWAI_MAX_DATA_LEN \<le> n"
  shows "\<exists>g1 g. parse_twai_id (dump_frame_text fd item) (length (dump_id_text (item_header item))) (zero_frame n) = Inr g1
           \<and> parse_classic_frame (dump_body_text fd item) g1 = Inr g
           \<and> id_hdr (header g) = id_hdr (item_header item) \<and> ide (header g) = ide (item_header item)
           \<and> rtr (header g) = rtr (item_header item)
           \<and> buffer_len g = data_len item
           \<and> take (buffer_len g) (buffer g) = take (data_len item) (data item)"
proof -
  let ?h = "item_header item"
  let ?bs = "take (data_len item) (data item)"
  define g1 where "g1 = (zero_frame n)\<lparr>header := (header (zero_frame n))\<lparr>id_hdr := id_hdr ?h, ide := ide ?h\<rparr>\<rparr>"
  have body: "dump_body_text fd item = concat (map dump_byte_text ?bs)"
    using assms(2,3) by (simp add: dump_body_text_def)
  have p1: "parse_twai_id (dump_frame_text fd item) (length (dump_id_text ?h)) (zero_frame n) = Inr g1"
    using parse_twai_id_dump [OF assms(1), of "dump_body_text fd item" "zero_frame n"]
    by (simp add: dump_frame_text_def g1_def)
  have b: "\<forall>b \<in> set ?bs. b < 256" using assms(6) by (auto dest: in_set_takeD)
  have l: "length ?bs = data_len item" using assms(5) by simp
  have "length ?bs \<le> 8" "8 \<le> length (buffer g1)"
    using assms(4,7) l by (simp_all add: g1_def zero_frame_def TWAI_MAX_DATA_LEN_def)
  from parse_classic_dump_data [OF b this]
  have p2: "parse_classic_frame (dump_body_text fd item) g1
        = Inr (g1\<lparr>header := (header g1)\<lparr>dlc := length ?bs\<rparr>,
                  buffer := ?bs @ drop (length ?bs) (buffer g1), buffer_len := length ?bs\<rparr>)"
    by (simp add: body)
  define g where "g = g1\<lparr>header := (header g1)\<lparr>dlc := length ?bs\<rparr>,
                  buffer := ?bs @ drop (length ?bs) (buffer g1), buffer_len := length ?bs\<rparr>"
  have "id_hdr (header g) = id_hdr ?h" "ide (header g) = ide ?h" "rtr (header g) = rtr ?h"
    "buffer_len g = data_len item" "take (buffer_len g) (buffer g) = ?bs"
    using assms(2) l by (simp_all add: g_def g1_def zero_frame_def zero_header_def)
  with p1 p2 show ?thesis
    unfolding g_def [symmetric] by blast
qed

lemma dump_decode_rtr:
  assumes "id_hdr (item_header item) \<le> (if ide (item_header item) then TWAI_EXT_ID_MASK else TWAI_STD_ID_MASK)"
    and "rtr (item_header item)" "data_len item = 0"
  shows "\<exists>g1 g. parse_twai_id (dump_frame_text fd item) (length (dump_id_text (item_header item))) (zero_frame n) = Inr g1
           \<and> parse_classic_frame (dump_body_text fd item) g1 = Inr g
           \<and> id_hdr (header g) = id_hdr (item_header item) \<and> ide (header g) = ide (item_header item)
           \<and> rtr (header g) = rtr (item_header item)
           \<and> buffer_len g = data_len item
           \<and> take (buffer_len g) (buffer g) = take (data_len item) (data item)"
proof -
  let ?h = "item_header item"
  define g1 where "g1 = (zero_frame n)\<lparr>header := (header (zero_frame n))\<lparr>id_hdr := id_hdr ?h, ide := ide ?h\<rparr>\<rparr>"
  have body: "dump_body_text fd item = CHR ''R'' # dec_of_nat (dlc ?h)"
    using assms(2) by (simp add: dump_body_text_def)
  have p1: "parse_twai_id (dump_frame_text fd item) (length (dump_id_text ?h)) (zero_frame n) = Inr g1"
    using parse_twai_id_dump [OF assms(1), of "dump_body_text fd item" "zero_frame n"]
    by (simp add: dump_frame_text_def g1_def)
  from parse_classic_dump_rtr [of "dec_of_nat (dlc ?h)" g1] obtain g where
    g: "parse_classic_frame (dump_body_text fd item) g1 = Inr g" "rtr (header g)" "buffer_len g = 0"
       "id_hdr (header g) = id_hdr (header g1)" "ide (header g) = ide (header g1)"
    unfolding body by blast
  show ?thesis
    using p1 g assms(2,3) by (simp add: g1_def)
qed

text \<open>
  C1, as the code has it. A frame record is a queue item: header, data array and payload
  length. Let the identifier be within the range of its width, let every entry of the
  data array be a byte, and let the record be either a remote request with payload
  length 0, or a data frame whose line shows exactly its payload of at most 8 bytes
  (the data-length code, or for a flexible-rate frame its table length, equals the
  payload length). Then the dump line of the record is the timestamp prefix, the
  interface name, the identifier digits, the bracketed marker and the bytes; the frame
  text made of the identifier digits, \<open>#\<close> and the marker or bytes splits at its
  first \<open>#\<close> after the identifier digits; and decoding it (\<open>parse_twai_id\<close> on the
  identifier, \<open>parse_classic_frame\<close> on the body, from a zeroed frame with room for 8
  bytes) succeeds with the same identifier, the same width, the same remote or data
  kind and the same payload bytes.
\<close>

theorem dump_decode_roundtrip:
  "id_hdr (item_header item) \<le> (if ide (item_header item) then TWAI_EXT_ID_MASK else TWAI_STD_ID_MASK)
   \<and> (rtr (item_header item) \<longrightarrow> data_len item = 0 \<and> dlc (item_header item) < 2 ^ 16)
   \<and> (\<not> rtr (item_header item) \<longrightarrow>
        dump_actual_len fd (item_header item) = data_len item
        \<and> data_len item \<le> TWAI_MAX_DATA_LEN \<and> data_len item \<le> length (data item))
   \<and> (\<forall>b \<in> set (data item). b < 256)
   \<and> 0 \<le> cid \<and> cid < 10 \<and> TWAI_MAX_DATA_LEN \<le> n
   \<longrightarrow>
   format_twaidump_frame fd ctx item cid DUMP_OUTPUT_LINE_SIZE =
     (fst (format_timestamp ctx (timestamp_us item) 64),
      snd (format_timestamp ctx (timestamp_us item) 64)
      @ ''twai'' @ dec_of_int cid @ ''  '' @ dump_id_text (item_header item) @ ''  ''
      @ (if rtr (item_header item) then ''[R'' @ dec_of_nat (dlc (item_header item)) @ '']''
         else ''['' @ dec_of_nat (data_len item) @ '']''
              @ concat (map (\<lambda>b. ''  '' @ dump_byte_text b) (take (data_len item) (data item))))
      @ [CHR 0x0A])
   \<and> dump_frame_text fd item =
       dump_id_text (item_header item) @ ''#''
       @ (if rtr (item_header item) then ''R'' @ dec_of_nat (dlc (item_header item))
          else concat (map dump_byte_text (take (data_len item) (data item))))
   \<and> (\<exists>k g1 g.
        strchr (dump_frame_text fd item) (CHR ''#'') = Some k
        \<and> parse_twai_id (dump_frame_text fd item) k (zero_frame n) = Inr g1
        \<and> parse_classic_frame (drop (k + 1) (dump_frame_text fd item)) g1 = Inr g
        \<and> id_hdr (header g) = id_hdr (item_header item)
        \<and> ide (header g) = ide (item_header item)
        \<and> rtr (header g) = rtr (item_header item)
        \<and> buffer_len g = data_len item
        \<and> take (buffer_len g) (buffer g) = take (data_len item) (data item))"
proof (intro impI)
  assume a: "id_hdr (item_header item) \<le> (if ide (item_header item) then TWAI_EXT_ID_MASK else TWAI_STD_ID_MASK)
   \<and> (rtr (item_header item) \<longrightarrow> data_len item = 0 \<and> dlc (item_header item) < 2 ^ 16)
   \<and> (\<not> rtr (item_header item) \<longrightarrow>
        dump_actual_len fd (item_header item) = data_len item
        \<and> data_len item \<le> TWAI_MAX_DATA_LEN \<and> data_len item \<le> length (data item))
   \<and> (\<forall>b \<in> set (data item). b < 256)
   \<and> 0 \<le> cid \<and> cid < 10 \<and> TWAI_MAX_DATA_LEN \<le> n"
  let ?h = "item_header item"
  from a have idr: "id_hdr ?h \<le> (if ide ?h then TWAI_EXT_ID_MASK else TWAI_STD_ID_MASK)" by blast
  then have id32: "id_hdr ?h < 2 ^ 32"
    by (auto simp: TWAI_EXT_ID_MASK_def TWAI_STD_ID_MASK_def split: if_splits)
  from a have bytes: "\<forall>b \<in> set (data item). b < 256" by blast
  have line: "format_twaidump_frame fd ctx item cid DUMP_OUTPUT_LINE_SIZE =
     (fst (format_timestamp ctx (timestamp_us item) 64),
      snd (format_timestamp ctx (timestamp_us item) 64)
      @ ''twai'' @ dec_of_int cid @ ''  '' @ dump_id_text ?h @ ''  ''
      @ (if rtr ?h then ''[R'' @ dec_of_nat (dlc ?h) @ '']''
         else ''['' @ dec_of_nat (data_len item) @ '']''
              @ concat (map (\<lambda>b. ''  '' @ dump_byte_text b) (take (data_len item) (data item))))
      @ [CHR 0x0A])"
  proof -
    from a have "0 \<le> cid" "cid < 10" "rtr ?h \<longrightarrow> dlc ?h < 2 ^ 16"
      "\<not> rtr ?h \<longrightarrow> dump_actual_len fd ?h \<le> length (data item) \<and> dump_actual_len fd ?h \<le> 64"
      by (auto simp: TWAI_MAX_DATA_LEN_def)
    from format_twaidump_frame_line [OF this(1,2) id32 this(3,4) bytes, of ctx] a
    show ?thesis by (cases "rtr ?h") simp_all
  qed
  have ftext: "dump_frame_text fd item =
       dump_id_text ?h @ ''#''
       @ (if rtr ?h then ''R'' @ dec_of_nat (dlc ?h)
          else concat (map dump_byte_text (take (data_len item) (data item))))"
    using a by (simp add: dump_frame_text_def dump_body_text_def)
  have k: "strchr (dump_frame_text fd item) (CHR ''#'') = Some (length (dump_id_text ?h))"
    using strchr_hit [OF dump_id_text_no_hash [OF idr], of "dump_body_text fd item"]
    by (simp add: dump_frame_text_def)
  have d: "drop (length (dump_id_text ?h) + 1) (dump_frame_text fd item) = dump_body_text fd item"
    by (simp add: dump_frame_text_def)
  have "\<exists>g1 g. parse_twai_id (dump_frame_text fd item) (length (dump_id_text ?h)) (zero_frame n) = Inr g1
           \<and> parse_classic_frame (dump_body_text fd item) g1 = Inr g
           \<and> id_hdr (header g) = id_hdr ?h \<and> ide (header g) = ide ?h
           \<and> rtr (header g) = rtr ?h
           \<and> buffer_len g = data_len item
           \<and> take (buffer_len g) (buffer g) = take (data_len item) (data item)"
  proof (cases "rtr ?h")
    case True
    with a have "data_len item = 0" by blast
    from dump_decode_rtr [OF idr True this] show ?thesis .
  next
    case False
    with a have "dump_actual_len fd ?h = data_len item" "data_len item \<le> TWAI_MAX_DATA_LEN"
      "data_len item \<le> length (data item)" "TWAI_MAX_DATA_LEN \<le> n"
      by blast+
    from dump_decode_data [OF idr False this(1,2,3) bytes this(4)] show ?thesis .
  qed
  with k d have dec: "\<exists>k g1 g.
        strchr (dump_frame_text fd item) (CHR ''#'') = Some k
        \<and> parse_twai_id (dump_frame_text fd item) k (zero_frame n) = Inr g1
        \<and> parse_classic_frame (drop (k + 1) (dump_frame_text fd item)) g1 = Inr g
        \<and> id_hdr (header g) = id_hdr ?h
        \<and> ide (header g) = ide ?h
        \<and> rtr (header g) = rtr ?h
        \<and> buffer_len g = data_len item
        \<and> take (buffer_len g) (buffer g) = take (data_len item) (data item)"
    by metis
  from line ftext dec show "format_twaidump_frame fd ctx item cid DUMP_OUTPUT_LINE_SIZE =
     (fst (format_timestamp ctx (timestamp_us item) 64),
      snd (format_timestamp ctx (timestamp_us item) 64)
      @ ''twai'' @ dec_of_int cid @ ''  '' @ dump_id_text ?h @ ''  ''
      @ (if rtr ?h then ''[R'' @ dec_of_nat (dlc ?h) @ '']''
         else ''['' @ dec_of_nat (data_len item) @ '']''
              @ concat (map (\<lambda>b. ''  '' @ dump_byte_text b) (take (data_len item) (data item))))
      @ [CHR 0x0A])
   \<and> dump_frame_text fd item =
       dump_id_text ?h @ ''#''
       @ (if rtr ?h then ''R'' @ dec_of_nat (dlc ?h)
          else concat (map dump_byte_text (take (data_len item) (data item))))
   \<and> (\<exists>k g1 g.
        strchr (dump_frame_text fd item) (CHR ''#'') = Some k
        \<and> parse_twai_id (dump_frame_text fd item) k (zero_frame n) = Inr g1
        \<and> parse_classic_frame (drop (k + 1) (dump_frame_text fd item)) g1 = Inr g
        \<and> id_hdr (header g) = id_hdr ?h
        \<and> ide (header g) = ide ?h
        \<and> rtr (header g) = rtr ?h
        \<and> buffer_len g = data_len item
        \<and> take (buffer_len g) (buffer g) = take (data_len item) (data item))"
    by blast
qed

theorem dump_decode_roundtrip_witness:
  "format_twaidump_frame False
     \<lparr>is_running = True, rx_queue = Some 1, dump_task_handle = Some 2,
      timestamp_mode = TIMESTAMP_MODE_NONE, start_time_us = 0, last_frame_time_us = 0\<rparr>
     \<lparr>item_header = \<lparr>id_hdr = 0x123, dlc = 3, ide = False, rtr = False, fdf = False, brs = False, esi = False\<rparr>,
      data = [1, 2, 255, 0, 0, 0, 0, 0], data_len = 3, timestamp_us = 0\<rparr>
     0 DUMP_OUTPUT_LINE_SIZE
   = (\<lparr>is_running = True, rx_queue = Some 1, dump_task_handle = Some 2,
       timestamp_mode = TIMESTAMP_MODE_NONE, start_time_us = 0, last_frame_time_us = 0\<rparr>,
      ''twai0  123  [3]  01  02  FF'' @ [CHR 0x0A])
   \<and> dump_frame_text False
     \<lparr>item_header = \<lparr>id_hdr = 0x123, dlc = 3, ide = False, rtr = False, fdf = False, brs = False, esi = False\<rparr>,
      data = [1, 2, 255, 0, 0, 0, 0, 0], data_len = 3, timestamp_us = 0\<rparr>
     = ''123#0102FF''
   \<and> strchr ''123#0102FF'' (CHR ''#'') = Some 3
   \<and> parse_twai_id ''123#0102FF'' 3 (zero_frame 8)
     = Inr \<lparr>header = \<lparr>id_hdr = 0x123, dlc = 0, ide = False, rtr = False, fdf = False, brs = False, esi = False\<rparr>,
            buffer = [0, 0, 0, 0, 0, 0, 0, 0], buffer_len = 0\<rparr>
   \<and> parse_classic_frame ''0102FF''
       \<lparr>header = \<lparr>id_hdr = 0x123, dlc = 0, ide = False, rtr = False, fdf = False, brs = False, esi = False\<rparr>,
        buffer = [0, 0, 0, 0, 0, 0, 0, 0], buffer_len = 0\<rparr>
     = Inr \<lparr>header = \<lparr>id_hdr = 0x123, dlc = 3, ide = False, rtr = False, fdf = False, brs = False, esi = False\<rparr>,
            buffer = [1, 2, 255, 0, 0, 0, 0, 0], buffer_len = 3\<rparr>"
  using dump_decode_roundtrip
          [of "\<lparr>item_header = \<lparr>id_hdr = 0x123, dlc = 3, ide = False, rtr = False, fdf = False, brs = False, esi = False\<rparr>,
                data = [1, 2, 255, 0, 0, 0, 0, 0], data_len = 3, timestamp_us = 0\<rparr>"
              False 0 8
              "\<lparr>is_running = True, rx_queue = Some 1, dump_task_handle = Some 2,
                timestamp_mode = TIMESTAMP_MODE_NONE, start_time_us = 0, last_frame_time_us = 0\<rparr>"]
  by (simp add: dump_eval eval_defs format_defs)

text \<open>
  The claim C1 as stated fails on two frame records whose payload length is within the
  bounds of their kind. A classic data frame with 2 payload bytes and the data-length
  code 8 is shown with 8 bytes and decodes to a payload of 8 bytes. A flexible-rate
  frame with 12 payload bytes (data-length code 9) is shown with 12 bytes, and
  \<open>parse_classic_frame\<close> decodes the first 8 only. For each record: its dump line, its
  frame text, the decoded identifier, the decoded frame, and the payloads compared.
\<close>

theorem dump_decode_roundtrip_counterexample:
  "format_twaidump_frame False
     \<lparr>is_running = True, rx_queue = Some 1, dump_task_handle = Some 2,
      timestamp_mode = TIMESTAMP_MODE_NONE, start_time_us = 0, last_frame_time_us = 0\<rparr>
     \<lparr>item_header = \<lparr>id_hdr = 0x123, dlc = 8, ide = False, rtr = False, fdf = False, brs = False, esi = False\<rparr>,
      data = [1, 2, 0, 0, 0, 0, 0, 0], data_len = 2, timestamp_us = 0\<rparr>
     0 DUMP_OUTPUT_LINE_SIZE
   = (\<lparr>is_running = True, rx_queue = Some 1, dump_task_handle = Some 2,
       timestamp_mode = TIMESTAMP_MODE_NONE, start_time_us = 0, last_frame_time_us = 0\<rparr>,
      ''twai0  123  [8]  01  02  00  00  00  00  00  00'' @ [CHR 0x0A])
   \<and> dump_frame_text False
     \<lparr>item_header = \<lparr>id_hdr = 0x123, dlc = 8, ide = False, rtr = False, fdf = False, brs = False, esi = False\<rparr>,
      data = [1, 2, 0, 0, 0, 0, 0, 0], data_len = 2, timestamp_us = 0\<rparr>
     = ''123#0102000000000000''
   \<and> strchr ''123#0102000000000000'' (CHR ''#'') = Some 3
   \<and> parse_twai_id ''123#0102000000000000'' 3 (zero_frame 8)
     = Inr \<lparr>header = \<lparr>id_hdr = 0x123, dlc = 0, ide = False, rtr = False, fdf = False, brs = False, esi = False\<rparr>,
            buffer = [0, 0, 0, 0, 0, 0, 0, 0], buffer_len = 0\<rparr>
   \<and> parse_classic_frame ''0102000000000000''
       \<lparr>header = \<lparr>id_hdr = 0x123, dlc = 0, ide = False, rtr = False, fdf = False, brs = False, esi = False\<rparr>,
        buffer = [0, 0, 0, 0, 0, 0, 0, 0], buffer_len = 0\<rparr>
     = Inr \<lparr>header = \<lparr>id_hdr = 0x123, dlc = 8, ide = False, rtr = False, fdf = False, brs = False, esi = False\<rparr>,
            buffer = [1, 2, 0, 0, 0, 0, 0, 0], buffer_len = 8\<rparr>
   \<and> take 8 [1, 2, 0, 0, 0, 0, 0, 0] \<noteq> take 2 [1, 2, 0, 0, 0, 0, 0, 0 :: nat]
   \<and> format_twaidump_frame True
     \<lparr>is_running = True, rx_queue = Some 1, dump_task_handle = Some 2,
      timestamp_mode = TIMESTAMP_MODE_NONE, start_time_us = 0, last_frame_time_us = 0\<rparr>
     \<lparr>item_header = \<lparr>id_hdr = 0x123, dlc = 9, ide = False, rtr = False, fdf = True, brs = False, esi = False\<rparr>,
      data = [1, 2, 3, 4, 5, 6, 7, 8, 9, 10, 11, 12] @ replicate 52 0, data_len = 12, timestamp_us = 0\<rparr>
     0 DUMP_OUTPUT_LINE_SIZE
   = (\<lparr>is_running = True, rx_queue = Some 1, dump_task_handle = Some 2,
       timestamp_mode = TIMESTAMP_MODE_NONE, start_time_us = 0, last_frame_time_us = 0\<rparr>,
      ''twai0  123  [12]  01  02  03  04  05  06  07  08  09  0A  0B  0C'' @ [CHR 0x0A])
   \<and> dump_frame_text True
     \<lparr>item_header = \<lparr>id_hdr = 0x123, dlc = 9, ide = False, rtr = False, fdf = True, brs = False, esi = False\<rparr>,
      data = [1, 2, 3, 4, 5, 6, 7, 8, 9, 10, 11, 12] @ replicate 52 0, data_len = 12, timestamp_us = 0\<rparr>
     = ''123#0102030405060708090A0B0C''
   \<and> strchr ''123#0102030405060708090A0B0C'' (CHR ''#'') = Some 3
   \<and> parse_twai_id ''123#0102030405060708090A0B0C'' 3 (zero_frame 8)
     = Inr \<lparr>header = \<lparr>id_hdr = 0x123, dlc = 0, ide = False, rtr = False, fdf = False, brs = False, esi = False\<rparr>,
            buffer = [0, 0, 0, 0, 0, 0, 0, 0], buffer_len = 0\<rparr>
   \<and> parse_classic_frame ''0102030405060708090A0B0C''
       \<lparr>header = \<lparr>id_hdr = 0x123, dlc = 0, ide = False, rtr = False, fdf = False, brs = False, esi = False\<rparr>,
        buffer = [0, 0, 0, 0, 0, 0, 0, 0], buffer_len = 0\<rparr>
     = Inr \<lparr>header = \<lparr>id_hdr = 0x123, dlc = 8, ide = False, rtr = False, fdf = False, brs = False, esi = False\<rparr>,
            buffer = [1, 2, 3, 4, 5, 6, 7, 8], buffer_len = 8\<rparr>
   \<and> take 8 [1, 2, 3, 4, 5, 6, 7, 8]
       \<noteq> take 12 ([1, 2, 3, 4, 5, 6, 7, 8, 9, 10, 11, 12] @ replicate 52 (0 :: nat))"
  using format_twaidump_frame_line
          [where cid = 0 and fd = False
             and item = "\<lparr>item_header = \<lparr>id_hdr = 0x123, dlc = 8, ide = False, rtr = False, fdf = False, brs = False, esi = False\<rparr>,
                data = [1, 2, 0, 0, 0, 0, 0, 0], data_len = 2, timestamp_us = 0\<rparr>"
             and ctx = "\<lparr>is_running = True, rx_queue = Some 1, dump_task_handle = Some 2,
                timestamp_mode = TIMESTAMP_MODE_NONE, start_time_us = 0, last_frame_time_us = 0\<rparr>"]
        format_twaidump_frame_line
          [where cid = 0 and fd = True
             and item = "\<lparr>item_header = \<lparr>id_hdr = 0x123, dlc = 9, ide = False, rtr = False, fdf = True, brs = False, esi = False\<rparr>,
                data = [1, 2, 3, 4, 5, 6, 7, 8, 9, 10, 11, 12] @ replicate 52 0, data_len = 12, timestamp_us = 0\<rparr>"
             and ctx = "\<lparr>is_running = True, rx_queue = Some 1, dump_task_handle = Some 2,
                timestamp_mode = TIMESTAMP_MODE_NONE, start_time_us = 0, last_frame_time_us = 0\<rparr>"]
  by (simp add: dump_eval eval_defs format_defs)

section \<open>The start path of the dump command\<close>

lemma parse_controller_id_range:
  assumes "parse_controller_id num s = Some (i, fs)"
  shows "0 \<le> i" "nat i < num" "fs = drop 5 s"
  using assms
  by (auto simp: parse_controller_id_def Let_def split: if_splits)

lemma handler_start_path:
  assumes "arg_nerrors args = 0" "arg_stop args = 0"
    and "parse_controller_id (length ctxs) (arg_controller_filter args) = Some (i, fs)"
  shows "twai_dump_handler soc env ctxs args =
     (case twai_dump_handler_start soc env (ctxs ! nat i) fs (arg_timestamp args) of
        None \<Rightarrow> None
      | Some (ret, c1, calls, steps) \<Rightarrow> Some (ret, ctxs[nat i := c1], calls, steps))"
  using assms parse_controller_id_range [OF assms(3)]
  by (auto simp: twai_dump_handler_def get_controller_by_id_def)

lemma cleared_filters_ok:
  assumes "SOC_TWAI_MASK_FILTER_NUM soc \<le> length (mask_filter_configs c)"
    "SOC_TWAI_RANGE_FILTER_NUM soc \<le> length (range_filter_configs c)"
  shows "filter_out_ok soc (dump_cleared_filters soc c)"
  using assms by (simp add: filter_out_ok_def dump_cleared_filters_def)

lemma handler_start_total:
  assumes "SOC_TWAI_MASK_FILTER_NUM soc \<le> length (mask_filter_configs c)"
    "SOC_TWAI_RANGE_FILTER_NUM soc \<le> length (range_filter_configs c)"
  shows "\<exists>ret c1 calls steps. twai_dump_handler_start soc env c fs ts = Some (ret, c1, calls, steps)"
proof -
  from parse_filters_bounded_all [OF cleared_filters_ok [OF assms], of fs]
  obtain ret out where "parse_filters soc fs (dump_cleared_filters soc c) = Some (ret, out)"
    by blast
  then show ?thesis
    by (auto simp: twai_dump_handler_start_def Let_def split: prod.splits option.splits)
qed

lemma handler_start_running:
  assumes "twai_dump_handler_start soc env c fs ts = Some (ret, c1, calls, steps)"
    and "is_running (dump_ctx c)"
  shows "steps = []" "is_running (dump_ctx c1)" "rx_queue (dump_ctx c1) = rx_queue (dump_ctx c)"
    "dump_task_handle (dump_ctx c1) = dump_task_handle (dump_ctx c)"
    "core_is_initialized c1 = core_is_initialized c"
  using assms
  by (auto simp: twai_dump_handler_start_def twai_dump_start_controller_def Let_def
           split: prod.splits option.splits if_splits)

lemma handler_start_reaches:
  assumes "parse_filters soc fs (dump_cleared_filters soc c) = Some (PARSE_OK, out)"
    and "core_is_initialized c"
    and "dump_configure_filters soc env out = (ESP_OK, calls)"
    and "dump_timestamp_arg ts = Some m"
  shows "twai_dump_handler_start soc env c fs ts =
     (case twai_dump_start_controller
             ((dump_ctx c)\<lparr>timestamp_mode := m, start_time_us := timer_now env,
                           last_frame_time_us := timer_now env\<rparr>)
             (queue_created env) (task_created env) of
        (sret, d3, steps) \<Rightarrow>
          Some (RetEsp sret,
                c\<lparr>mask_filter_configs := masks out, range_filter_configs := ranges out, dump_ctx := d3\<rparr>,
                calls, steps))"
  using assms
  by (simp add: twai_dump_handler_start_def Let_def split: prod.splits)

lemma handler_start_error_idle:
  assumes "twai_dump_handler_start soc env c fs ts = Some (ret, c1, calls, steps)"
    and "\<not> is_running (dump_ctx c)" "ret \<noteq> RetEsp ESP_OK"
  shows "\<not> is_running (dump_ctx c1)"
    "dump_task_handle (dump_ctx c1) = dump_task_handle (dump_ctx c)"
    "rx_queue (dump_ctx c) = None \<longrightarrow> rx_queue (dump_ctx c1) = None"
  using assms
  by (auto simp: twai_dump_handler_start_def twai_dump_start_controller_def Let_def
           split: prod.splits option.splits if_splits)

text \<open>
  The steps a start has taken, replayed over the context it was called with, give the
  context it returns; in every context on the way a set running flag comes with a
  queue, and the consumer task is created only when the flag is set and the queue is
  there.
\<close>

lemma start_steps_cases:
  assumes "twai_dump_start_controller d q t = (sret, d3, steps)"
  shows "steps = [] \<and> is_running d
         \<or> steps = [XQueueCreate] \<and> q = None \<and> \<not> is_running d
         \<or> steps = [XQueueCreate, StoreRunning True, XTaskCreate] \<and> q \<noteq> None \<and> t \<noteq> None
             \<and> \<not> is_running d
         \<or> steps = [XQueueCreate, StoreRunning True, XTaskCreate, StoreRunning False, VQueueDelete]
             \<and> q \<noteq> None \<and> t = None \<and> \<not> is_running d"
  using assms
  by (auto simp: twai_dump_start_controller_def Let_def split: option.splits if_splits)

lemma start_replay_result:
  assumes "twai_dump_start_controller d q t = (sret, d3, steps)"
  shows "d3 = start_replay q t d steps"
  using assms
  by (auto simp: twai_dump_start_controller_def start_replay_def Let_def split: option.splits if_splits)

lemma take_cases_5:
  "n \<le> 5 \<Longrightarrow> n = 0 \<or> n = 1 \<or> n = 2 \<or> n = 3 \<or> n = 4 \<or> n = (5::nat)"
  by arith

lemma start_replay_safe:
  assumes "twai_dump_start_controller d q t = (sret, d3, steps)"
    and "is_running d \<longrightarrow> rx_queue d \<noteq> None" and "n \<le> length steps"
  shows "is_running (start_replay q t d (take n steps)) \<longrightarrow> rx_queue (start_replay q t d (take n steps)) \<noteq> None"
proof -
  from assms(3) start_steps_cases [OF assms(1)] have "n \<le> 5" by auto
  from take_cases_5 [OF this] start_steps_cases [OF assms(1)] assms(2,3) show ?thesis
    by (elim disjE) (auto simp: start_replay_def)
qed

lemma start_task_created_ready:
  assumes "twai_dump_start_controller d q t = (sret, d3, steps)"
    and "n < length steps" "steps ! n = XTaskCreate"
  shows "is_running (start_replay q t d (take n steps)) \<and> rx_queue (start_replay q t d (take n steps)) \<noteq> None"
proof -
  from assms(2) start_steps_cases [OF assms(1)] have "n \<le> 5" by auto
  from take_cases_5 [OF this] start_steps_cases [OF assms(1)] assms(2,3) show ?thesis
    by (elim disjE) (auto simp: start_replay_def)
qed

lemmas handler_eval = twai_dump_handler_def twai_dump_handler_start_def parse_controller_id_def
  get_controller_by_id_def dump_cleared_filters_def dump_configure_filters_def
  filter_config_calls_def dump_timestamp_arg_def timestamp_mode_of_char_def
  twai_dump_start_controller_def start_replay_def driver_accepts_def filter_eval

text \<open>
  C8, as the code has it. The start of the capture pipeline is the start path of
  \<open>twai_dump_handler\<close>: for a command line without errors and without \<^verbatim>\<open>--stop\<close> whose
  first argument names controller \<open>i\<close>, the handler works on entry \<open>i\<close> of the controller
  array and leaves the other entries alone. With filter arrays of at least the chip's
  capacity it never stores outside them. It clears and re-parses the filter arrays,
  reprograms the hardware filters when the text holds any, and stores the timestamp mode
  and both time bases before it calls \<open>twai_dump_start_controller\<close>, which is where the
  running flag is looked at. So a start while the pipeline is running takes no step of
  the start, creates neither queue nor task and leaves the running flag, the queue and
  the task handle as they are, and when the arguments are accepted it returns success;
  but it is not a no-op: the filter arrays, the timestamp mode and both time bases are
  overwritten. A start while the pipeline is not running creates the queue, sets the
  running flag and creates the consumer task, in that order, and returns success with
  the flag set and both handles stored. When the queue allocation fails it returns the
  out-of-memory code after that one step, with the running flag false, no queue and the
  task handle untouched; whenever a start of an idle pipeline returns an error, the
  flag is false, the task handle is untouched and there is no queue. The steps of a
  start, replayed over the context, give the context it returns; in every context on
  the way a set running flag comes with a queue, and the consumer task is created only
  when the flag is set and the queue is there.
\<close>

theorem dump_start_command:
  "(arg_nerrors args = 0 \<and> arg_stop args = 0
      \<and> parse_controller_id (length ctxs) (arg_controller_filter args) = Some (i, fs) \<longrightarrow>
      0 \<le> i \<and> nat i < length ctxs
      \<and> twai_dump_handler soc env ctxs args =
          (case twai_dump_handler_start soc env (ctxs ! nat i) fs (arg_timestamp args) of
             None \<Rightarrow> None
           | Some (ret, c', calls, steps) \<Rightarrow> Some (ret, ctxs[nat i := c'], calls, steps)))
   \<and> (SOC_TWAI_MASK_FILTER_NUM soc \<le> length (mask_filter_configs c)
      \<and> SOC_TWAI_RANGE_FILTER_NUM soc \<le> length (range_filter_configs c) \<longrightarrow>
      (\<exists>ret c' calls steps. twai_dump_handler_start soc env c fs ts = Some (ret, c', calls, steps)))
   \<and> (twai_dump_handler_start soc env c fs ts = Some (ret, c', calls, steps)
      \<and> is_running (dump_ctx c) \<longrightarrow>
      steps = [] \<and> is_running (dump_ctx c') \<and> rx_queue (dump_ctx c') = rx_queue (dump_ctx c)
      \<and> dump_task_handle (dump_ctx c') = dump_task_handle (dump_ctx c))
   \<and> (parse_filters soc fs (dump_cleared_filters soc c) = Some (PARSE_OK, out)
      \<and> core_is_initialized c \<and> dump_configure_filters soc env out = (ESP_OK, calls)
      \<and> dump_timestamp_arg ts = Some m \<longrightarrow>
      (is_running (dump_ctx c) \<longrightarrow>
         twai_dump_handler_start soc env c fs ts =
           Some (RetEsp ESP_OK,
                 c\<lparr>mask_filter_configs := masks out, range_filter_configs := ranges out,
                   dump_ctx := (dump_ctx c)\<lparr>timestamp_mode := m, start_time_us := timer_now env,
                                             last_frame_time_us := timer_now env\<rparr>\<rparr>,
                 calls, []))
      \<and> (\<not> is_running (dump_ctx c) \<and> queue_created env = Some q \<and> task_created env = Some h \<longrightarrow>
         twai_dump_handler_start soc env c fs ts =
           Some (RetEsp ESP_OK,
                 c\<lparr>mask_filter_configs := masks out, range_filter_configs := ranges out,
                   dump_ctx := (dump_ctx c)\<lparr>timestamp_mode := m, start_time_us := timer_now env,
                                             last_frame_time_us := timer_now env,
                                             rx_queue := Some q, is_running := True,
                                             dump_task_handle := Some h\<rparr>\<rparr>,
                 calls, [XQueueCreate, StoreRunning True, XTaskCreate]))
      \<and> (\<not> is_running (dump_ctx c) \<and> queue_created env = None \<longrightarrow>
         twai_dump_handler_start soc env c fs ts =
           Some (RetEsp ESP_ERR_NO_MEM,
                 c\<lparr>mask_filter_configs := masks out, range_filter_configs := ranges out,
                   dump_ctx := (dump_ctx c)\<lparr>timestamp_mode := m, start_time_us := timer_now env,
                                             last_frame_time_us := timer_now env,
                                             rx_queue := None\<rparr>\<rparr>,
                 calls, [XQueueCreate])))
   \<and> (twai_dump_handler_start soc env c fs ts = Some (ret, c', calls, steps)
      \<and> \<not> is_running (dump_ctx c) \<and> ret \<noteq> RetEsp ESP_OK \<longrightarrow>
      \<not> is_running (dump_ctx c')
      \<and> dump_task_handle (dump_ctx c') = dump_task_handle (dump_ctx c)
      \<and> (rx_queue (dump_ctx c) = None \<longrightarrow> rx_queue (dump_ctx c') = None))
   \<and> (twai_dump_start_controller d qr tr = (sret, d', steps') \<longrightarrow>
      d' = start_replay qr tr d steps'
      \<and> ((is_running d \<longrightarrow> rx_queue d \<noteq> None) \<longrightarrow>
           (\<forall>n \<le> length steps'.
              is_running (start_replay qr tr d (take n steps'))
              \<longrightarrow> rx_queue (start_replay qr tr d (take n steps')) \<noteq> None))
      \<and> (\<forall>n < length steps'. steps' ! n = XTaskCreate \<longrightarrow>
           is_running (start_replay qr tr d (take n steps'))
           \<and> rx_queue (start_replay qr tr d (take n steps')) \<noteq> None))"
proof (intro conjI impI allI)
  assume a: "arg_nerrors args = 0 \<and> arg_stop args = 0
      \<and> parse_controller_id (length ctxs) (arg_controller_filter args) = Some (i, fs)"
  then have p: "parse_controller_id (length ctxs) (arg_controller_filter args) = Some (i, fs)"
    by simp
  from parse_controller_id_range [OF p] show "0 \<le> i" "nat i < length ctxs" by simp_all
  from a handler_start_path [of args ctxs i fs soc env]
  show "twai_dump_handler soc env ctxs args =
          (case twai_dump_handler_start soc env (ctxs ! nat i) fs (arg_timestamp args) of
             None \<Rightarrow> None
           | Some (ret, c', calls, steps) \<Rightarrow> Some (ret, ctxs[nat i := c'], calls, steps))"
    by simp
next
  assume "SOC_TWAI_MASK_FILTER_NUM soc \<le> length (mask_filter_configs c)
      \<and> SOC_TWAI_RANGE_FILTER_NUM soc \<le> length (range_filter_configs c)"
  then show "\<exists>ret c' calls steps. twai_dump_handler_start soc env c fs ts = Some (ret, c', calls, steps)"
    using handler_start_total [of soc c env fs ts] by simp
next
  assume a: "twai_dump_handler_start soc env c fs ts = Some (ret, c', calls, steps)
      \<and> is_running (dump_ctx c)"
  then have r: "twai_dump_handler_start soc env c fs ts = Some (ret, c', calls, steps)"
    and u: "is_running (dump_ctx c)" by simp_all
  from handler_start_running [OF r u]
  show "steps = []" "is_running (dump_ctx c')" "rx_queue (dump_ctx c') = rx_queue (dump_ctx c)"
    "dump_task_handle (dump_ctx c') = dump_task_handle (dump_ctx c)"
    by simp_all
next
  assume a: "parse_filters soc fs (dump_cleared_filters soc c) = Some (PARSE_OK, out)
      \<and> core_is_initialized c \<and> dump_configure_filters soc env out = (ESP_OK, calls)
      \<and> dump_timestamp_arg ts = Some m"
  then have e: "twai_dump_handler_start soc env c fs ts =
     (case twai_dump_start_controller
             ((dump_ctx c)\<lparr>timestamp_mode := m, start_time_us := timer_now env,
                           last_frame_time_us := timer_now env\<rparr>)
             (queue_created env) (task_created env) of
        (sret, d', steps) \<Rightarrow>
          Some (RetEsp sret,
                c\<lparr>mask_filter_configs := masks out, range_filter_configs := ranges out, dump_ctx := d'\<rparr>,
                calls, steps))"
    using handler_start_reaches [of soc fs c out env calls ts m] by simp
  {
    assume "is_running (dump_ctx c)"
    then show "twai_dump_handler_start soc env c fs ts =
           Some (RetEsp ESP_OK,
                 c\<lparr>mask_filter_configs := masks out, range_filter_configs := ranges out,
                   dump_ctx := (dump_ctx c)\<lparr>timestamp_mode := m, start_time_us := timer_now env,
                                             last_frame_time_us := timer_now env\<rparr>\<rparr>,
                 calls, [])"
      by (simp add: e twai_dump_start_controller_def)
  next
    assume "\<not> is_running (dump_ctx c) \<and> queue_created env = Some q \<and> task_created env = Some h"
    then show "twai_dump_handler_start soc env c fs ts =
           Some (RetEsp ESP_OK,
                 c\<lparr>mask_filter_configs := masks out, range_filter_configs := ranges out,
                   dump_ctx := (dump_ctx c)\<lparr>timestamp_mode := m, start_time_us := timer_now env,
                                             last_frame_time_us := timer_now env,
                                             rx_queue := Some q, is_running := True,
                                             dump_task_handle := Some h\<rparr>\<rparr>,
                 calls, [XQueueCreate, StoreRunning True, XTaskCreate])"
      by (simp add: e twai_dump_start_controller_def)
  next
    assume "\<not> is_running (dump_ctx c) \<and> queue_created env = None"
    then show "twai_dump_handler_start soc env c fs ts =
           Some (RetEsp ESP_ERR_NO_MEM,
                 c\<lparr>mask_filter_configs := masks out, range_filter_configs := ranges out,
                   dump_ctx := (dump_ctx c)\<lparr>timestamp_mode := m, start_time_us := timer_now env,
                                             last_frame_time_us := timer_now env,
                                             rx_queue := None\<rparr>\<rparr>,
                 calls, [XQueueCreate])"
      by (simp add: e twai_dump_start_controller_def)
  }
next
  assume a: "twai_dump_handler_start soc env c fs ts = Some (ret, c', calls, steps)
      \<and> \<not> is_running (dump_ctx c) \<and> ret \<noteq> RetEsp ESP_OK"
  then have r: "twai_dump_handler_start soc env c fs ts = Some (ret, c', calls, steps)"
    and u: "\<not> is_running (dump_ctx c)" and n: "ret \<noteq> RetEsp ESP_OK" by simp_all
  from handler_start_error_idle [OF r u n]
  show "\<not> is_running (dump_ctx c')"
    "dump_task_handle (dump_ctx c') = dump_task_handle (dump_ctx c)"
    by simp_all
  assume "rx_queue (dump_ctx c) = None"
  with handler_start_error_idle(3) [OF r u n] show "rx_queue (dump_ctx c') = None" by simp
next
  assume s: "twai_dump_start_controller d qr tr = (sret, d', steps')"
  show "d' = start_replay qr tr d steps'"
    by (rule start_replay_result [OF s])
  {
    fix n
    assume "is_running d \<longrightarrow> rx_queue d \<noteq> None" "n \<le> length steps'"
      "is_running (start_replay qr tr d (take n steps'))"
    with start_replay_safe [OF s, of n]
    show "rx_queue (start_replay qr tr d (take n steps')) \<noteq> None" by simp
  next
    fix n
    assume "n < length steps'" "steps' ! n = XTaskCreate"
    from start_task_created_ready [OF s this]
    show "is_running (start_replay qr tr d (take n steps'))"
      "rx_queue (start_replay qr tr d (take n steps')) \<noteq> None"
      by simp_all
  }
qed

theorem dump_start_command_witness:
  "twai_dump_handler \<lparr>SOC_TWAI_MASK_FILTER_NUM = 3, SOC_TWAI_RANGE_FILTER_NUM = 1, SOC_TWAI_SUPPORT_FD = True\<rparr>
     \<lparr>node_driver = driver_accepts, timer_now = 1000, queue_created = Some 7, task_created = Some 8, task_exits = False\<rparr>
     [\<lparr>core_is_initialized = True,
        dump_ctx = \<lparr>is_running = False, rx_queue = None, dump_task_handle = None,
          timestamp_mode = TIMESTAMP_MODE_DELTA, start_time_us = 100, last_frame_time_us = 250\<rparr>,
        mask_filter_configs = [\<lparr>id_flt = 0x123, mask_flt = 0x7FF, is_ext_flt = False\<rparr>, \<lparr>id_flt = 0, mask_flt = 0, is_ext_flt = False\<rparr>, \<lparr>id_flt = 0, mask_flt = 0, is_ext_flt = False\<rparr>],
        range_filter_configs = [\<lparr>range_low = 0, range_high = 0, is_ext_range = False\<rparr>]\<rparr>]
     \<lparr>arg_nerrors = 0, arg_controller_filter = ''twai0,456:7FF'', arg_stop = 0, arg_timestamp = Some ''a''\<rparr>
   = Some (RetEsp ESP_OK,
       [\<lparr>core_is_initialized = True,
        dump_ctx = \<lparr>is_running = True, rx_queue = Some 7, dump_task_handle = Some 8,
          timestamp_mode = TIMESTAMP_MODE_ABSOLUTE, start_time_us = 1000, last_frame_time_us = 1000\<rparr>,
        mask_filter_configs = [\<lparr>id_flt = 0x456, mask_flt = 0x7FF, is_ext_flt = False\<rparr>, \<lparr>id_flt = 0, mask_flt = 0, is_ext_flt = False\<rparr>, \<lparr>id_flt = 0, mask_flt = 0, is_ext_flt = False\<rparr>],
        range_filter_configs = [\<lparr>range_low = 0, range_high = 0, is_ext_range = False\<rparr>]\<rparr>],
       [NodeDisable, ConfigMaskFilter 0 \<lparr>id_flt = 0x456, mask_flt = 0x7FF, is_ext_flt = False\<rparr>, NodeEnable], [XQueueCreate, StoreRunning True, XTaskCreate])
   \<and> twai_dump_handler \<lparr>SOC_TWAI_MASK_FILTER_NUM = 3, SOC_TWAI_RANGE_FILTER_NUM = 1, SOC_TWAI_SUPPORT_FD = True\<rparr>
     \<lparr>node_driver = driver_accepts, timer_now = 1000, queue_created = None, task_created = Some 8, task_exits = False\<rparr>
     [\<lparr>core_is_initialized = True,
        dump_ctx = \<lparr>is_running = False, rx_queue = None, dump_task_handle = None,
          timestamp_mode = TIMESTAMP_MODE_DELTA, start_time_us = 100, last_frame_time_us = 250\<rparr>,
        mask_filter_configs = [\<lparr>id_flt = 0x123, mask_flt = 0x7FF, is_ext_flt = False\<rparr>, \<lparr>id_flt = 0, mask_flt = 0, is_ext_flt = False\<rparr>, \<lparr>id_flt = 0, mask_flt = 0, is_ext_flt = False\<rparr>],
        range_filter_configs = [\<lparr>range_low = 0, range_high = 0, is_ext_range = False\<rparr>]\<rparr>]
     \<lparr>arg_nerrors = 0, arg_controller_filter = ''twai0,456:7FF'', arg_stop = 0, arg_timestamp = Some ''a''\<rparr>
   = Some (RetEsp ESP_ERR_NO_MEM,
       [\<lparr>core_is_initialized = True,
        dump_ctx = \<lparr>is_running = False, rx_queue = None, dump_task_handle = None,
          timestamp_mode = TIMESTAMP_MODE_ABSOLUTE, start_time_us = 1000, last_frame_time_us = 1000\<rparr>,
        mask_filter_configs = [\<lparr>id_flt = 0x456, mask_flt = 0x7FF, is_ext_flt = False\<rparr>, \<lparr>id_flt = 0, mask_flt = 0, is_ext_flt = False\<rparr>, \<lparr>id_flt = 0, mask_flt = 0, is_ext_flt = False\<rparr>],
        range_filter_configs = [\<lparr>range_low = 0, range_high = 0, is_ext_range = False\<rparr>]\<rparr>],
       [NodeDisable, ConfigMaskFilter 0 \<lparr>id_flt = 0x456, mask_flt = 0x7FF, is_ext_flt = False\<rparr>, NodeEnable], [XQueueCreate])
   \<and> twai_dump_handler \<lparr>SOC_TWAI_MASK_FILTER_NUM = 3, SOC_TWAI_RANGE_FILTER_NUM = 1, SOC_TWAI_SUPPORT_FD = True\<rparr>
     \<lparr>node_driver = driver_accepts, timer_now = 1000, queue_created = Some 7, task_created = Some 8, task_exits = False\<rparr>
     [\<lparr>core_is_initialized = True,
        dump_ctx = \<lparr>is_running = True, rx_queue = Some 1, dump_task_handle = Some 2,
          timestamp_mode = TIMESTAMP_MODE_DELTA, start_time_us = 100, last_frame_time_us = 250\<rparr>,
        mask_filter_configs = [\<lparr>id_flt = 0x123, mask_flt = 0x7FF, is_ext_flt = False\<rparr>, \<lparr>id_flt = 0, mask_flt = 0, is_ext_flt = False\<rparr>, \<lparr>id_flt = 0, mask_flt = 0, is_ext_flt = False\<rparr>],
        range_filter_configs = [\<lparr>range_low = 0, range_high = 0, is_ext_range = False\<rparr>]\<rparr>]
     \<lparr>arg_nerrors = 0, arg_controller_filter = ''twai0,456:7FF'', arg_stop = 0, arg_timestamp = Some ''a''\<rparr>
   = Some (RetEsp ESP_OK,
       [\<lparr>core_is_initialized = True,
        dump_ctx = \<lparr>is_running = True, rx_queue = Some 1, dump_task_handle = Some 2,
          timestamp_mode = TIMESTAMP_MODE_ABSOLUTE, start_time_us = 1000, last_frame_time_us = 1000\<rparr>,
        mask_filter_configs = [\<lparr>id_flt = 0x456, mask_flt = 0x7FF, is_ext_flt = False\<rparr>, \<lparr>id_flt = 0, mask_flt = 0, is_ext_flt = False\<rparr>, \<lparr>id_flt = 0, mask_flt = 0, is_ext_flt = False\<rparr>],
        range_filter_configs = [\<lparr>range_low = 0, range_high = 0, is_ext_range = False\<rparr>]\<rparr>],
       [NodeDisable, ConfigMaskFilter 0 \<lparr>id_flt = 0x456, mask_flt = 0x7FF, is_ext_flt = False\<rparr>, NodeEnable], [])
   \<and> start_replay (Some 7) (Some 8)
        \<lparr>is_running = False, rx_queue = None, dump_task_handle = None,
          timestamp_mode = TIMESTAMP_MODE_ABSOLUTE, start_time_us = 1000, last_frame_time_us = 1000\<rparr>
        [XQueueCreate, StoreRunning True]
      = \<lparr>is_running = True, rx_queue = Some 7, dump_task_handle = None,
          timestamp_mode = TIMESTAMP_MODE_ABSOLUTE, start_time_us = 1000, last_frame_time_us = 1000\<rparr>"
  using dump_start_command
          [where soc = "\<lparr>SOC_TWAI_MASK_FILTER_NUM = 3, SOC_TWAI_RANGE_FILTER_NUM = 1, SOC_TWAI_SUPPORT_FD = True\<rparr>"
             and env = "\<lparr>node_driver = driver_accepts, timer_now = 1000, queue_created = Some 7, task_created = Some 8, task_exits = False\<rparr>"
             and ctxs = "[\<lparr>core_is_initialized = True,
        dump_ctx = \<lparr>is_running = False, rx_queue = None, dump_task_handle = None,
          timestamp_mode = TIMESTAMP_MODE_DELTA, start_time_us = 100, last_frame_time_us = 250\<rparr>,
        mask_filter_configs = [\<lparr>id_flt = 0x123, mask_flt = 0x7FF, is_ext_flt = False\<rparr>, \<lparr>id_flt = 0, mask_flt = 0, is_ext_flt = False\<rparr>, \<lparr>id_flt = 0, mask_flt = 0, is_ext_flt = False\<rparr>],
        range_filter_configs = [\<lparr>range_low = 0, range_high = 0, is_ext_range = False\<rparr>]\<rparr>]"
             and args = "\<lparr>arg_nerrors = 0, arg_controller_filter = ''twai0,456:7FF'', arg_stop = 0, arg_timestamp = Some ''a''\<rparr>"
             and i = 0 and fs = "'',456:7FF''" and ts = "Some ''a''"
             and c = "\<lparr>core_is_initialized = True,
        dump_ctx = \<lparr>is_running = False, rx_queue = None, dump_task_handle = None,
          timestamp_mode = TIMESTAMP_MODE_DELTA, start_time_us = 100, last_frame_time_us = 250\<rparr>,
        mask_filter_configs = [\<lparr>id_flt = 0x123, mask_flt = 0x7FF, is_ext_flt = False\<rparr>, \<lparr>id_flt = 0, mask_flt = 0, is_ext_flt = False\<rparr>, \<lparr>id_flt = 0, mask_flt = 0, is_ext_flt = False\<rparr>],
        range_filter_configs = [\<lparr>range_low = 0, range_high = 0, is_ext_range = False\<rparr>]\<rparr>"
             and ret = "RetEsp ESP_OK"
             and c' = "\<lparr>core_is_initialized = True,
        dump_ctx = \<lparr>is_running = True, rx_queue = Some 7, dump_task_handle = Some 8,
          timestamp_mode = TIMESTAMP_MODE_ABSOLUTE, start_time_us = 1000, last_frame_time_us = 1000\<rparr>,
        mask_filter_configs = [\<lparr>id_flt = 0x456, mask_flt = 0x7FF, is_ext_flt = False\<rparr>, \<lparr>id_flt = 0, mask_flt = 0, is_ext_flt = False\<rparr>, \<lparr>id_flt = 0, mask_flt = 0, is_ext_flt = False\<rparr>],
        range_filter_configs = [\<lparr>range_low = 0, range_high = 0, is_ext_range = False\<rparr>]\<rparr>"
             and calls = "[NodeDisable, ConfigMaskFilter 0 \<lparr>id_flt = 0x456, mask_flt = 0x7FF, is_ext_flt = False\<rparr>, NodeEnable]" and steps = "[XQueueCreate, StoreRunning True, XTaskCreate]"
             and out = "\<lparr>masks = [\<lparr>id_flt = 0x456, mask_flt = 0x7FF, is_ext_flt = False\<rparr>, \<lparr>id_flt = 0, mask_flt = 0, is_ext_flt = False\<rparr>, \<lparr>id_flt = 0, mask_flt = 0, is_ext_flt = False\<rparr>], mask_count = 1, ranges = [\<lparr>range_low = 0, range_high = 0, is_ext_range = False\<rparr>], range_count = 0\<rparr>"
             and m = TIMESTAMP_MODE_ABSOLUTE and q = 7 and h = 8
             and d = "\<lparr>is_running = False, rx_queue = None, dump_task_handle = None,
          timestamp_mode = TIMESTAMP_MODE_ABSOLUTE, start_time_us = 1000, last_frame_time_us = 1000\<rparr>"
             and qr = "Some 7" and tr = "Some 8" and sret = ESP_OK
             and d' = "\<lparr>is_running = True, rx_queue = Some 7, dump_task_handle = Some 8,
          timestamp_mode = TIMESTAMP_MODE_ABSOLUTE, start_time_us = 1000, last_frame_time_us = 1000\<rparr>"
             and steps' = "[XQueueCreate, StoreRunning True, XTaskCreate]"]
        dump_start_command
          [where soc = "\<lparr>SOC_TWAI_MASK_FILTER_NUM = 3, SOC_TWAI_RANGE_FILTER_NUM = 1, SOC_TWAI_SUPPORT_FD = True\<rparr>"
             and env = "\<lparr>node_driver = driver_accepts, timer_now = 1000, queue_created = None, task_created = Some 8, task_exits = False\<rparr>"
             and ctxs = "[\<lparr>core_is_initialized = True,
        dump_ctx = \<lparr>is_running = False, rx_queue = None, dump_task_handle = None,
          timestamp_mode = TIMESTAMP_MODE_DELTA, start_time_us = 100, last_frame_time_us = 250\<rparr>,
        mask_filter_configs = [\<lparr>id_flt = 0x123, mask_flt = 0x7FF, is_ext_flt = False\<rparr>, \<lparr>id_flt = 0, mask_flt = 0, is_ext_flt = False\<rparr>, \<lparr>id_flt = 0, mask_flt = 0, is_ext_flt = False\<rparr>],
        range_filter_configs = [\<lparr>range_low = 0, range_high = 0, is_ext_range = False\<rparr>]\<rparr>]"
             and args = "\<lparr>arg_nerrors = 0, arg_controller_filter = ''twai0,456:7FF'', arg_stop = 0, arg_timestamp = Some ''a''\<rparr>"
             and i = 0 and fs = "'',456:7FF''" and ts = "Some ''a''"
             and c = "\<lparr>core_is_initialized = True,
        dump_ctx = \<lparr>is_running = False, rx_queue = None, dump_task_handle = None,
          timestamp_mode = TIMESTAMP_MODE_DELTA, start_time_us = 100, last_frame_time_us = 250\<rparr>,
        mask_filter_configs = [\<lparr>id_flt = 0x123, mask_flt = 0x7FF, is_ext_flt = False\<rparr>, \<lparr>id_flt = 0, mask_flt = 0, is_ext_flt = False\<rparr>, \<lparr>id_flt = 0, mask_flt = 0, is_ext_flt = False\<rparr>],
        range_filter_configs = [\<lparr>range_low = 0, range_high = 0, is_ext_range = False\<rparr>]\<rparr>"
             and ret = "RetEsp ESP_ERR_NO_MEM"
             and c' = "\<lparr>core_is_initialized = True,
        dump_ctx = \<lparr>is_running = False, rx_queue = None, dump_task_handle = None,
          timestamp_mode = TIMESTAMP_MODE_ABSOLUTE, start_time_us = 1000, last_frame_time_us = 1000\<rparr>,
        mask_filter_configs = [\<lparr>id_flt = 0x456, mask_flt = 0x7FF, is_ext_flt = False\<rparr>, \<lparr>id_flt = 0, mask_flt = 0, is_ext_flt = False\<rparr>, \<lparr>id_flt = 0, mask_flt = 0, is_ext_flt = False\<rparr>],
        range_filter_configs = [\<lparr>range_low = 0, range_high = 0, is_ext_range = False\<rparr>]\<rparr>"
             and calls = "[NodeDisable, ConfigMaskFilter 0 \<lparr>id_flt = 0x456, mask_flt = 0x7FF, is_ext_flt = False\<rparr>, NodeEnable]" and steps = "[XQueueCreate]"
             and out = "\<lparr>masks = [\<lparr>id_flt = 0x456, mask_flt = 0x7FF, is_ext_flt = False\<rparr>, \<lparr>id_flt = 0, mask_flt = 0, is_ext_flt = False\<rparr>, \<lparr>id_flt = 0, mask_flt = 0, is_ext_flt = False\<rparr>], mask_count = 1, ranges = [\<lparr>range_low = 0, range_high = 0, is_ext_range = False\<rparr>], range_count = 0\<rparr>"
             and m = TIMESTAMP_MODE_ABSOLUTE and q = 7 and h = 8
             and d = "\<lparr>is_running = False, rx_queue = None, dump_task_handle = None,
          timestamp_mode = TIMESTAMP_MODE_ABSOLUTE, start_time_us = 1000, last_frame_time_us = 1000\<rparr>"
             and qr = "None" and tr = "Some 8" and sret = ESP_ERR_NO_MEM
             and d' = "\<lparr>is_running = False, rx_queue = None, dump_task_handle = None,
          timestamp_mode = TIMESTAMP_MODE_ABSOLUTE, start_time_us = 1000, last_frame_time_us = 1000\<rparr>"
             and steps' = "[XQueueCreate]"]
        dump_start_command
          [where soc = "\<lparr>SOC_TWAI_MASK_FILTER_NUM = 3, SOC_TWAI_RANGE_FILTER_NUM = 1, SOC_TWAI_SUPPORT_FD = True\<rparr>"
             and env = "\<lparr>node_driver = driver_accepts, timer_now = 1000, queue_created = Some 7, task_created = Some 8, task_exits = False\<rparr>"
             and ctxs = "[\<lparr>core_is_initialized = True,
        dump_ctx = \<lparr>is_running = True, rx_queue = Some 1, dump_task_handle = Some 2,
          timestamp_mode = TIMESTAMP_MODE_DELTA, start_time_us = 100, last_frame_time_us = 250\<rparr>,
        mask_filter_configs = [\<lparr>id_flt = 0x123, mask_flt = 0x7FF, is_ext_flt = False\<rparr>, \<lparr>id_flt = 0, mask_flt = 0, is_ext_flt = False\<rparr>, \<lparr>id_flt = 0, mask_flt = 0, is_ext_flt = False\<rparr>],
        range_filter_configs = [\<lparr>range_low = 0, range_high = 0, is_ext_range = False\<rparr>]\<rparr>]"
             and args = "\<lparr>arg_nerrors = 0, arg_controller_filter = ''twai0,456:7FF'', arg_stop = 0, arg_timestamp = Some ''a''\<rparr>"
             and i = 0 and fs = "'',456:7FF''" and ts = "Some ''a''"
             and c = "\<lparr>core_is_initialized = True,
        dump_ctx = \<lparr>is_running = True, rx_queue = Some 1, dump_task_handle = Some 2,
          timestamp_mode = TIMESTAMP_MODE_DELTA, start_time_us = 100, last_frame_time_us = 250\<rparr>,
        mask_filter_configs = [\<lparr>id_flt = 0x123, mask_flt = 0x7FF, is_ext_flt = False\<rparr>, \<lparr>id_flt = 0, mask_flt = 0, is_ext_flt = False\<rparr>, \<lparr>id_flt = 0, mask_flt = 0, is_ext_flt = False\<rparr>],
        range_filter_configs = [\<lparr>range_low = 0, range_high = 0, is_ext_range = False\<rparr>]\<rparr>"
             and ret = "RetEsp ESP_OK"
             and c' = "\<lparr>core_is_initialized = True,
        dump_ctx = \<lparr>is_running = True, rx_queue = Some 1, dump_task_handle = Some 2,
          timestamp_mode = TIMESTAMP_MODE_ABSOLUTE, start_time_us = 1000, last_frame_time_us = 1000\<rparr>,
        mask_filter_configs = [\<lparr>id_flt = 0x456, mask_flt = 0x7FF, is_ext_flt = False\<rparr>, \<lparr>id_flt = 0, mask_flt = 0, is_ext_flt = False\<rparr>, \<lparr>id_flt = 0, mask_flt = 0, is_ext_flt = False\<rparr>],
        range_filter_configs = [\<lparr>range_low = 0, range_high = 0, is_ext_range = False\<rparr>]\<rparr>"
             and calls = "[NodeDisable, ConfigMaskFilter 0 \<lparr>id_flt = 0x456, mask_flt = 0x7FF, is_ext_flt = False\<rparr>, NodeEnable]" and steps = "[]"
             and out = "\<lparr>masks = [\<lparr>id_flt = 0x456, mask_flt = 0x7FF, is_ext_flt = False\<rparr>, \<lparr>id_flt = 0, mask_flt = 0, is_ext_flt = False\<rparr>, \<lparr>id_flt = 0, mask_flt = 0, is_ext_flt = False\<rparr>], mask_count = 1, ranges = [\<lparr>range_low = 0, range_high = 0, is_ext_range = False\<rparr>], range_count = 0\<rparr>"
             and m = TIMESTAMP_MODE_ABSOLUTE and q = 7 and h = 8
             and d = "\<lparr>is_running = True, rx_queue = Some 1, dump_task_handle = Some 2,
          timestamp_mode = TIMESTAMP_MODE_ABSOLUTE, start_time_us = 1000, last_frame_time_us = 1000\<rparr>"
             and qr = "Some 7" and tr = "Some 8" and sret = ESP_OK
             and d' = "\<lparr>is_running = True, rx_queue = Some 1, dump_task_handle = Some 2,
          timestamp_mode = TIMESTAMP_MODE_ABSOLUTE, start_time_us = 1000, last_frame_time_us = 1000\<rparr>"
             and steps' = "[]"]
  by (simp add: handler_eval)

text \<open>
  The claim C8 as stated fails on a start while the pipeline is running. Controller 0
  is running with timestamp mode delta, time bases 100 and 250 and the mask filter
  0x123:0x7FF. The command line \<^verbatim>\<open>twai_dump -t a twai0,456:7FF\<close> at time 1000 returns
  success without a step of the start, after disabling the node, programming mask
  filter 0 with 0x456:0x7FF and enabling the node, and leaves the filter array, the
  timestamp mode and both time bases overwritten; the command line \<^verbatim>\<open>twai_dump twai0\<close>
  leaves the filter array cleared and the mode reset. Only \<open>twai_dump_start_controller\<close>
  itself leaves the context as it is.
\<close>

theorem dump_start_running_counterexample:
  "twai_dump_handler \<lparr>SOC_TWAI_MASK_FILTER_NUM = 3, SOC_TWAI_RANGE_FILTER_NUM = 1, SOC_TWAI_SUPPORT_FD = True\<rparr>
     \<lparr>node_driver = driver_accepts, timer_now = 1000, queue_created = Some 7, task_created = Some 8, task_exits = False\<rparr>
     [\<lparr>core_is_initialized = True,
        dump_ctx = \<lparr>is_running = True, rx_queue = Some 1, dump_task_handle = Some 2,
          timestamp_mode = TIMESTAMP_MODE_DELTA, start_time_us = 100, last_frame_time_us = 250\<rparr>,
        mask_filter_configs = [\<lparr>id_flt = 0x123, mask_flt = 0x7FF, is_ext_flt = False\<rparr>, \<lparr>id_flt = 0, mask_flt = 0, is_ext_flt = False\<rparr>, \<lparr>id_flt = 0, mask_flt = 0, is_ext_flt = False\<rparr>],
        range_filter_configs = [\<lparr>range_low = 0, range_high = 0, is_ext_range = False\<rparr>]\<rparr>]
     \<lparr>arg_nerrors = 0, arg_controller_filter = ''twai0,456:7FF'', arg_stop = 0, arg_timestamp = Some ''a''\<rparr>
   = Some (RetEsp ESP_OK,
       [\<lparr>core_is_initialized = True,
        dump_ctx = \<lparr>is_running = True, rx_queue = Some 1, dump_task_handle = Some 2,
          timestamp_mode = TIMESTAMP_MODE_ABSOLUTE, start_time_us = 1000, last_frame_time_us = 1000\<rparr>,
        mask_filter_configs = [\<lparr>id_flt = 0x456, mask_flt = 0x7FF, is_ext_flt = False\<rparr>, \<lparr>id_flt = 0, mask_flt = 0, is_ext_flt = False\<rparr>, \<lparr>id_flt = 0, mask_flt = 0, is_ext_flt = False\<rparr>],
        range_filter_configs = [\<lparr>range_low = 0, range_high = 0, is_ext_range = False\<rparr>]\<rparr>],
       [NodeDisable, ConfigMaskFilter 0 \<lparr>id_flt = 0x456, mask_flt = 0x7FF, is_ext_flt = False\<rparr>, NodeEnable], [])
   \<and> \<lparr>core_is_initialized = True,
        dump_ctx = \<lparr>is_running = True, rx_queue = Some 1, dump_task_handle = Some 2,
          timestamp_mode = TIMESTAMP_MODE_ABSOLUTE, start_time_us = 1000, last_frame_time_us = 1000\<rparr>,
        mask_filter_configs = [\<lparr>id_flt = 0x456, mask_flt = 0x7FF, is_ext_flt = False\<rparr>, \<lparr>id_flt = 0, mask_flt = 0, is_ext_flt = False\<rparr>, \<lparr>id_flt = 0, mask_flt = 0, is_ext_flt = False\<rparr>],
        range_filter_configs = [\<lparr>range_low = 0, range_high = 0, is_ext_range = False\<rparr>]\<rparr>
     \<noteq> \<lparr>core_is_initialized = True,
        dump_ctx = \<lparr>is_running = True, rx_queue = Some 1, dump_task_handle = Some 2,
          timestamp_mode = TIMESTAMP_MODE_DELTA, start_time_us = 100, last_frame_time_us = 250\<rparr>,
        mask_filter_configs = [\<lparr>id_flt = 0x123, mask_flt = 0x7FF, is_ext_flt = False\<rparr>, \<lparr>id_flt = 0, mask_flt = 0, is_ext_flt = False\<rparr>, \<lparr>id_flt = 0, mask_flt = 0, is_ext_flt = False\<rparr>],
        range_filter_configs = [\<lparr>range_low = 0, range_high = 0, is_ext_range = False\<rparr>]\<rparr>
   \<and> twai_dump_handler \<lparr>SOC_TWAI_MASK_FILTER_NUM = 3, SOC_TWAI_RANGE_FILTER_NUM = 1, SOC_TWAI_SUPPORT_FD = True\<rparr>
     \<lparr>node_driver = driver_accepts, timer_now = 1000, queue_created = Some 7, task_created = Some 8, task_exits = False\<rparr>
     [\<lparr>core_is_initialized = True,
        dump_ctx = \<lparr>is_running = True, rx_queue = Some 1, dump_task_handle = Some 2,
          timestamp_mode = TIMESTAMP_MODE_DELTA, start_time_us = 100, last_frame_time_us = 250\<rparr>,
        mask_filter_configs = [\<lparr>id_flt = 0x123, mask_flt = 0x7FF, is_ext_flt = False\<rparr>, \<lparr>id_flt = 0, mask_flt = 0, is_ext_flt = False\<rparr>, \<lparr>id_flt = 0, mask_flt = 0, is_ext_flt = False\<rparr>],
        range_filter_configs = [\<lparr>range_low = 0, range_high = 0, is_ext_range = False\<rparr>]\<rparr>]
     \<lparr>arg_nerrors = 0, arg_controller_filter = ''twai0'', arg_stop = 0, arg_timestamp = None\<rparr>
   = Some (RetEsp ESP_OK,
       [\<lparr>core_is_initialized = True,
        dump_ctx = \<lparr>is_running = True, rx_queue = Some 1, dump_task_handle = Some 2,
          timestamp_mode = TIMESTAMP_MODE_NONE, start_time_us = 1000, last_frame_time_us = 1000\<rparr>,
        mask_filter_configs = [\<lparr>id_flt = 0, mask_flt = 0, is_ext_flt = False\<rparr>, \<lparr>id_flt = 0, mask_flt = 0, is_ext_flt = False\<rparr>, \<lparr>id_flt = 0, mask_flt = 0, is_ext_flt = False\<rparr>],
        range_filter_configs = [\<lparr>range_low = 0, range_high = 0, is_ext_range = False\<rparr>]\<rparr>],
       [], [])
   \<and> \<lparr>core_is_initialized = True,
        dump_ctx = \<lparr>is_running = True, rx_queue = Some 1, dump_task_handle = Some 2,
          timestamp_mode = TIMESTAMP_MODE_NONE, start_time_us = 1000, last_frame_time_us = 1000\<rparr>,
        mask_filter_configs = [\<lparr>id_flt = 0, mask_flt = 0, is_ext_flt = False\<rparr>, \<lparr>id_flt = 0, mask_flt = 0, is_ext_flt = False\<rparr>, \<lparr>id_flt = 0, mask_flt = 0, is_ext_flt = False\<rparr>],
        range_filter_configs = [\<lparr>range_low = 0, range_high = 0, is_ext_range = False\<rparr>]\<rparr>
     \<noteq> \<lparr>core_is_initialized = True,
        dump_ctx = \<lparr>is_running = True, rx_queue = Some 1, dump_task_handle = Some 2,
          timestamp_mode = TIMESTAMP_MODE_DELTA, start_time_us = 100, last_frame_time_us = 250\<rparr>,
        mask_filter_configs = [\<lparr>id_flt = 0x123, mask_flt = 0x7FF, is_ext_flt = False\<rparr>, \<lparr>id_flt = 0, mask_flt = 0, is_ext_flt = False\<rparr>, \<lparr>id_flt = 0, mask_flt = 0, is_ext_flt = False\<rparr>],
        range_filter_configs = [\<lparr>range_low = 0, range_high = 0, is_ext_range = False\<rparr>]\<rparr>
   \<and> twai_dump_start_controller
        \<lparr>is_running = True, rx_queue = Some 1, dump_task_handle = Some 2,
          timestamp_mode = TIMESTAMP_MODE_DELTA, start_time_us = 100, last_frame_time_us = 250\<rparr> (Some 7) (Some 8)
     = (ESP_OK,
        \<lparr>is_running = True, rx_queue = Some 1, dump_task_handle = Some 2,
          timestamp_mode = TIMESTAMP_MODE_DELTA, start_time_us = 100, last_frame_time_us = 250\<rparr>, [])"
  by (simp add: handler_eval)

end
